theory Spec2Isabelle
  imports Complex_Main
begin

section \<open>Data model of the bytecode VM (pt-bytecode-vm.cc)\<close>

text \<open>
  A C double. Finite doubles are modelled by their exact real value; the two infinities
  and NaN are separate constructors. Arithmetic on finite values is exact in the model.
\<close>

datatype dbl = Fin real | PInf | NInf | NaN

fun isinf :: "dbl \<Rightarrow> bool" where
  "isinf PInf = True"
| "isinf NInf = True"
| "isinf _ = False"

text \<open>Element class of a range (\<open>ov_range<T>\<close>).\<close>

datatype elt_class =
  EDouble | ESingle | EInt8 | EInt16 | EInt32 | EInt64
  | EUint8 | EUint16 | EUint32 | EUint64 | EOther

text \<open>
  The polymorphic value \<open>octave_value\<close>, restricted to the classes the handlers below
  look into. A full double matrix carries its \<open>dim_vector\<close> and its elements in
  column-major order; cells, strings and structs are two-dimensional. \<open>Ref k\<close> is the
  reference wrapper (\<open>octave_value_ref\<close>, global or persistent) of variable cell \<open>k\<close>.
  \<open>Opaque t\<close> is a value of any other class, with type id \<open>t\<close>.
\<close>

datatype ov =
    Undef
  | Scalar dbl
  | BoolV bool
  | Int64 int
  | Matrix "nat list" "dbl list"
  | CharMatrix nat nat string
  | Range elt_class dbl dbl nat
  | TrivialRange nat
  | Cell nat nat "ov list"
  | Struct nat nat "(string \<times> ov list) list"
  | CsList "ov list"
  | Ref nat
  | Opaque nat

fun is_defined :: "ov \<Rightarrow> bool" where
  "is_defined Undef = False"
| "is_defined _ = True"

definition is_undefined :: "ov \<Rightarrow> bool" where
  "is_undefined v = (\<not> is_defined v)"

fun is_cs_list :: "ov \<Rightarrow> bool" where
  "is_cs_list (CsList _) = True"
| "is_cs_list _ = False"

fun list_value :: "ov \<Rightarrow> ov list" where
  "list_value (CsList xs) = xs"
| "list_value _ = []"

fun is_ref :: "ov \<Rightarrow> bool" where
  "is_ref (Ref _) = True"
| "is_ref _ = False"

fun iscell :: "ov \<Rightarrow> bool" where
  "iscell (Cell _ _ _) = True"
| "iscell _ = False"

text \<open>
  Type ids. The VM caches the ids of \<open>octave_scalar\<close>, \<open>octave_bool\<close>,
  \<open>octave_matrix\<close> and \<open>octave_cs_list\<close> and its constructor checks them against
  the classes' static ids; every other class has an id different from these four.
\<close>

datatype tid = T_scalar | T_bool | T_matrix | T_cs_list | T_other nat

fun type_id :: "ov \<Rightarrow> tid" where
  "type_id (Scalar _) = T_scalar"
| "type_id (BoolV _) = T_bool"
| "type_id (Matrix _ _) = T_matrix"
| "type_id (CsList _) = T_cs_list"
| "type_id Undef = T_other 0"
| "type_id (Int64 _) = T_other 1"
| "type_id (CharMatrix _ _ _) = T_other 2"
| "type_id (Range _ _ _ _) = T_other 3"
| "type_id (TrivialRange _) = T_other 4"
| "type_id (Cell _ _ _) = T_other 5"
| "type_id (Struct _ _ _) = T_other 6"
| "type_id (Ref _) = T_other 7"
| "type_id (Opaque t) = T_other (8 + t)"

definition m_scalar_typeid :: tid where "m_scalar_typeid = T_scalar"
definition m_bool_typeid :: tid where "m_bool_typeid = T_bool"
definition m_matrix_typeid :: tid where "m_matrix_typeid = T_matrix"
definition m_cslist_typeid :: tid where "m_cslist_typeid = T_cs_list"

text \<open>The error tags of \<open>error_type\<close> and the host exceptions the handlers catch.\<close>

datatype error_type =
  INVALID_N_EL_RHS_IN_ASSIGNMENT | RHS_UNDEF_IN_ASSIGNMENT | ID_UNDEFINED | IF_UNDEFINED
  | INDEX_ERROR | EXECUTION_EXC | INTERRUPT_EXC | EXIT_EXCEPTION | DEBUG_QUIT | BAD_ALLOC

datatype host_exc =
  Interrupt_exception | Index_exception string string | Execution_exception string string
  | Bad_alloc | Exit_exception

text \<open>
  \<open>stack_element\<close> is a union; the constructor records which member was written.
  \<open>ErrTag\<close> is member \<open>i\<close> holding \<open>static_cast<int> (error_type::...)\<close>,
  \<open>PEE\<close> a heap \<open>execution_exception {severity, id, message}\<close> or a copy of a host
  exception, \<open>PS\<close> a heap string, \<open>PSE\<close> a pointer into the stack, \<open>PUC\<close> a
  pointer into the code, \<open>PTR\<close> any of the data, names and unwind-data pointers.
  \<open>Free\<close> is a destroyed or never constructed element.
\<close>

datatype stack_element =
    OV ov
  | I int
  | ErrTag error_type
  | PEE string string string
  | PS string
  | PSE nat
  | PUC nat
  | PTR nat
  | Free

text \<open>
  The registers of \<open>vm::execute_code\<close> and the memory they point into. Pointers are
  indices: \<open>ip\<close> and \<open>code\<close> into \<open>code_mem\<close>, \<open>sp\<close>, \<open>bsp\<close> and \<open>rsp\<close>
  into \<open>stack\<close> (the array \<open>m_stack\<close>), \<open>name_data\<close> into \<open>name_mem\<close>.
  \<open>refs\<close> holds the global and persistent variables behind the reference wrappers,
  \<open>ignored_var\<close> the auto variable \<open>IGNORED\<close> of the current host frame.
  \<open>n_octave_quit\<close> counts the calls of the host signal check \<open>octave_quit\<close>;
  \<open>pending_signal\<close> is what the next such call throws. \<open>n_warnings\<close> counts the
  warnings issued.
\<close>

record vm =
  code_mem :: "nat list"
  code :: nat
  ip :: nat
  arg0 :: nat
  stack :: "stack_element list"
  sp :: nat
  bsp :: nat
  rsp :: nat
  name_mem :: "string list"
  name_data :: nat
  data :: nat
  unwind_data :: nat
  refs :: "nat \<Rightarrow> ov"
  ignored_var :: ov
  n_octave_quit :: nat
  pending_signal :: "host_exc option"
  n_warnings :: nat

text \<open>
  The binary operators with a handler specialized for two scalar doubles, named after
  their opcodes \<open>MUL\<close>, \<open>DIV\<close>, \<open>ADD\<close>, \<open>SUB\<close>, \<open>LE\<close>, \<open>LE_EQ\<close>, \<open>GR\<close>,
  \<open>GR_EQ\<close>, \<open>EQ\<close>, \<open>NEQ\<close> and \<open>POW\<close>.
\<close>

datatype binop =
  B_MUL | B_DIV | B_ADD | B_SUB | B_LE | B_LE_EQ | B_GR | B_GR_EQ | B_EQ | B_NEQ | B_POW

text \<open>
  Labels a handler can jump to with \<open>goto\<close>; \<open>L_binop B_MUL\<close> is the label \<open>mul\<close>
  and \<open>L_binop_dbl B_MUL\<close> the label \<open>mul_dbl\<close>.
\<close>

datatype label =
  L_subassign_id | L_subassign_id_mat_1d | L_subassign_id_mat_2d
  | L_index_id1 | L_index_id1_mat_1d | L_index_id1_mat_2d
  | L_jmp_if | L_jmp_if_bool | L_jmp_ifn | L_jmp_ifn_bool
  | L_assign_dispath | L_make_call
  | L_binop binop | L_binop_dbl binop

text \<open>
  How a handler ends: \<open>Next\<close> is \<open>DISPATCH ()\<close>, \<open>Next1\<close> is
  \<open>DISPATCH_1BYTEOP ()\<close>, \<open>Unwind\<close> is \<open>goto unwind\<close> (the error tag is on top of
  the stack), \<open>Goto\<close> a jump to another handler, \<open>Return\<close> the return of
  \<open>execute_code\<close> to the host, \<open>Host_error\<close> an exception that leaves the VM
  uncaught. \<open>Fault\<close> is undefined behaviour of the C++ code: a read of a stack element
  outside the array or through the wrong union member, a failed \<open>assert\<close>, a
  conversion of a double that does not fit.
\<close>

datatype outcome =
    Next vm
  | Next1 vm
  | Unwind vm
  | Goto label vm
  | Return "ov list" vm
  | Host_error string
  | Fault

text \<open>
  The host functions of the value system the handlers call and whose code is outside
  this file.
\<close>

datatype vm_call_dispatch_type =
  OCT_SUBSREF | OCT_FN_LOOKUP | OCT_CALL | OCT_HANDLE | OCT_OBJECT | OCT_NESTED_HANDLE

record host =
  vm_need_storable_call :: "ov \<Rightarrow> bool"
  make_storable_value :: "ov \<Rightarrow> ov"
  vm_need_dispatch_assign_rhs :: "ov \<Rightarrow> bool"
  vm_need_dispatch_assign_lhs :: "ov \<Rightarrow> bool"
  is_true :: "ov \<Rightarrow> host_exc + bool"
  vm_extract_forloop_double :: "ov \<Rightarrow> int \<Rightarrow> dbl"
  vm_extract_forloop_value :: "ov \<Rightarrow> int \<Rightarrow> ov"
  maybe_update_double :: "ov \<Rightarrow> bool"
  is_full_num_matrix :: "ov \<Rightarrow> bool"
  checked_full_matrix_elem :: "ov \<Rightarrow> int \<Rightarrow> host_exc + ov"
  invalid_index_exc :: "dbl \<Rightarrow> nat \<Rightarrow> nat \<Rightarrow> string \<times> string"
  vm_dispatch_call :: "ov \<Rightarrow> vm_call_dispatch_type"
  simple_subsref :: "ov \<Rightarrow> ov list \<Rightarrow> nat \<Rightarrow> host_exc + ov list"
  simple_subsasgn :: "ov \<Rightarrow> ov list \<Rightarrow> ov \<Rightarrow> host_exc + ov"
  maybe_as_trivial_range :: "ov \<Rightarrow> ov"
  storable_value :: "ov \<Rightarrow> host_exc + ov"

text \<open>
  The operators of \<open>octave_value::binary_op\<close> that the handlers of the binary
  opcodes with a scalar-double specialization use.
\<close>

datatype binary_op =
  op_add | op_sub | op_mul | op_div | op_pow | op_lt | op_le | op_eq | op_ge | op_gt | op_ne

text \<open>
  Modelled from the spec: the host's table of typed operators (\<open>octave::type_info\<close>;
  its code is not among the sources). \<open>lookup_binary_op\<close> returns the function
  installed for an operator and two type ids, if there is one;
  \<open>binary_op_by_conversion\<close> is what the typed dispatch does for operands without an
  entry of their own (it converts them and tries again, or raises an error).
\<close>

type_synonym binary_op_fcn = "ov \<Rightarrow> ov \<Rightarrow> host_exc + ov"

record type_info =
  lookup_binary_op :: "binary_op \<Rightarrow> tid \<Rightarrow> tid \<Rightarrow> binary_op_fcn option"
  binary_op_by_conversion :: "binary_op \<Rightarrow> ov \<Rightarrow> ov \<Rightarrow> host_exc + ov"

subsection \<open>Stack primitives\<close>

text \<open>\<open>(*sp++) = e\<close>, as in \<open>PUSH_OV\<close> and the pushes of error tags.\<close>

definition push :: "stack_element \<Rightarrow> vm \<Rightarrow> vm" where
  "push e s = s\<lparr>stack := (stack s)[sp s := e], sp := sp s + 1\<rparr>"

text \<open>\<open>STACK_DESTROY (n)\<close>: destroy the \<open>n\<close> topmost values.\<close>

fun STACK_DESTROY :: "nat \<Rightarrow> vm \<Rightarrow> vm" where
  "STACK_DESTROY 0 s = s"
| "STACK_DESTROY (Suc n) s =
     STACK_DESTROY n (s\<lparr>stack := (stack s)[sp s - 1 := Free], sp := sp s - 1\<rparr>)"

text \<open>Read member \<open>ov\<close> of the stack element at index \<open>i\<close> and continue with it.\<close>

definition with_ov :: "vm \<Rightarrow> nat \<Rightarrow> (ov \<Rightarrow> outcome) \<Rightarrow> outcome" where
  "with_ov s i k =
     (if i < length (stack s) then
        (case stack s ! i of OV v \<Rightarrow> k v | _ \<Rightarrow> Fault)
      else Fault)"

definition with_int :: "vm \<Rightarrow> nat \<Rightarrow> (int \<Rightarrow> outcome) \<Rightarrow> outcome" where
  "with_int s i k =
     (if i < length (stack s) then
        (case stack s ! i of I n \<Rightarrow> k n | _ \<Rightarrow> Fault)
      else Fault)"

text \<open>
  A write to a slot: directly, or through the setter of the reference wrapper the
  slot holds (\<open>lhs.ref_rep ()->set_value (v)\<close>).
\<close>

definition set_direct :: "nat \<Rightarrow> ov \<Rightarrow> vm \<Rightarrow> vm" where
  "set_direct i v s = s\<lparr>stack := (stack s)[i := OV v]\<rparr>"

definition ref_set_value :: "nat \<Rightarrow> ov \<Rightarrow> vm \<Rightarrow> vm" where
  "ref_set_value k v s = s\<lparr>refs := (refs s)(k := v)\<rparr>"

text \<open>What a read of the slot at stack index \<open>i\<close> yields: wrappers are dereferenced.\<close>

definition read_slot :: "vm \<Rightarrow> nat \<Rightarrow> ov" where
  "read_slot s i =
     (case stack s ! i of
        OV (Ref k) \<Rightarrow> refs s k
      | OV v \<Rightarrow> v
      | _ \<Rightarrow> Undef)"

section \<open>ASSIGN\<close>

text \<open>
  Label \<open>assign_dispath\<close>, the slow path of \<open>ASSIGN slot\<close>. The call of
  \<open>maybe_call_dtor\<close> on the old value has no effect on the state modelled here.
\<close>

definition assign_dispath :: "host \<Rightarrow> vm \<Rightarrow> outcome" where
  "assign_dispath h s =
     (let slot = arg0 s in
      with_ov s (sp s - 1) (\<lambda>ov_rhs0.
      with_ov s (bsp s + slot) (\<lambda>ov_lhs.
        if is_cs_list ov_rhs0 \<and> list_value ov_rhs0 = [] then
          Unwind (push (ErrTag INVALID_N_EL_RHS_IN_ASSIGNMENT) s)
        else
          let ov_rhs1 = (if is_cs_list ov_rhs0 then list_value ov_rhs0 ! 0 else ov_rhs0);
              s1 = set_direct (sp s - 1) ov_rhs1 s
          in
          if is_undefined ov_rhs1 then
            Unwind (push (ErrTag RHS_UNDEF_IN_ASSIGNMENT) s1)
          else
            let ov_rhs2 = (if vm_need_storable_call h ov_rhs1
                           then make_storable_value h ov_rhs1 else ov_rhs1);
                s2 = (case ov_lhs of
                        Ref k \<Rightarrow> ref_set_value k ov_rhs2 s1
                      | _ \<Rightarrow> set_direct (bsp s + slot) ov_rhs2 s1)
            in Next (STACK_DESTROY 1 s2))))"

text \<open>
  Opcode \<open>ASSIGN slot\<close>: the fast path moves the top of the stack into the slot.
\<close>

definition assign :: "host \<Rightarrow> vm \<Rightarrow> outcome" where
  "assign h s =
     (let slot = arg0 s in
      with_ov s (sp s - 1) (\<lambda>ov_rhs.
      with_ov s (bsp s + slot) (\<lambda>ov_lhs.
        if vm_need_dispatch_assign_rhs h ov_rhs \<or> vm_need_dispatch_assign_lhs h ov_lhs then
          Goto L_assign_dispath s
        else
          Next (STACK_DESTROY 1 (set_direct (bsp s + slot) ov_rhs s)))))"

subsection \<open>Code stream and exceptions\<close>

text \<open>
  \<open>USHORT_FROM_UCHARS\<close> and \<open>POP_CODE_USHORT\<close> for a little-endian host
  (\<open>WORDS_BIGENDIAN\<close> undefined); the arguments are bytes.
\<close>

definition USHORT_FROM_UCHARS :: "nat \<Rightarrow> nat \<Rightarrow> nat" where
  "USHORT_FROM_UCHARS c1 c2 = c1 + c2 * 256"

definition POP_CODE_USHORT :: "vm \<Rightarrow> nat \<times> vm" where
  "POP_CODE_USHORT s =
     (USHORT_FROM_UCHARS (code_mem s ! ip s) (code_mem s ! (ip s + 1)), s\<lparr>ip := ip s + 2\<rparr>)"

text \<open>
  Modelled from the spec: the macros \<open>CATCH_INTERRUPT_EXCEPTION\<close>,
  \<open>CATCH_INDEX_EXCEPTION\<close> (and \<open>_WITH_NAME\<close>), \<open>CATCH_EXECUTION_EXCEPTION\<close>,
  \<open>CATCH_BAD_ALLOC\<close> and \<open>CATCH_EXIT_EXCEPTION\<close> of pt-bytecode-vm-internal.h, which is
  not among the sources. A handler signals an error by pushing a heap exception and its
  tag, or a tag alone, and jumps to \<open>unwind\<close>. \<open>catch5\<close> is the chain of all five
  clauses, \<open>catch_execution\<close> the single clause for execution exceptions (any other
  exception leaves the VM).
\<close>

fun catch5 :: "host_exc \<Rightarrow> vm \<Rightarrow> outcome" where
  "catch5 Interrupt_exception s = Unwind (push (ErrTag INTERRUPT_EXC) s)"
| "catch5 (Index_exception ident msg) s =
     Unwind (push (ErrTag INDEX_ERROR) (push (PEE ''error'' ident msg) s))"
| "catch5 (Execution_exception ident msg) s =
     Unwind (push (ErrTag EXECUTION_EXC) (push (PEE ''error'' ident msg) s))"
| "catch5 Bad_alloc s = Unwind (push (ErrTag BAD_ALLOC) s)"
| "catch5 Exit_exception s = Unwind (push (ErrTag EXIT_EXCEPTION) s)"

fun catch_execution :: "host_exc \<Rightarrow> vm \<Rightarrow> outcome" where
  "catch_execution (Execution_exception ident msg) s =
     Unwind (push (ErrTag EXECUTION_EXC) (push (PEE ''error'' ident msg) s))"
| "catch_execution _ s = Host_error ''uncaught exception''"

text \<open>
  The host signal check \<open>octave_quit ()\<close>: it is counted, and throws the pending
  signal if there is one.
\<close>

definition octave_quit :: "vm \<Rightarrow> host_exc option \<times> vm" where
  "octave_quit s =
     (pending_signal s, s\<lparr>n_octave_quit := n_octave_quit s + 1, pending_signal := None\<rparr>)"

text \<open>Opcode numbers: the positions in the table \<open>instr\<close> of \<open>execute_code\<close>.\<close>

definition INSTR_JMP_IF :: nat where "INSTR_JMP_IF = 9"
definition INSTR_JMP_IFN :: nat where "INSTR_JMP_IFN = 11"
definition INSTR_JMP_IF_BOOL :: nat where "INSTR_JMP_IF_BOOL = 131"
definition INSTR_JMP_IFN_BOOL :: nat where "INSTR_JMP_IFN_BOOL = 132"

section \<open>Conditional jumps and signal checks\<close>

text \<open>
  \<open>jmp_if\<close> and \<open>jmp_ifn\<close>; \<open>negate\<close> is false for the first and true for the
  second, which differ in the opcode written and in the sense of the test only.
\<close>

definition jmp_if_generic :: "bool \<Rightarrow> host \<Rightarrow> vm \<Rightarrow> outcome" where
  "jmp_if_generic negate h s =
     with_ov s (sp s - 1) (\<lambda>ov_1.
       if type_id ov_1 = m_bool_typeid then
         Goto (if negate then L_jmp_ifn_bool else L_jmp_if_bool)
           (s\<lparr>code_mem := (code_mem s)
                [ip s - 2 := (if negate then INSTR_JMP_IFN_BOOL else INSTR_JMP_IF_BOOL)]\<rparr>)
       else
         let b0 = arg0 s;
             b1 = code_mem s ! ip s;
             s1 = s\<lparr>ip := ip s + 1\<rparr>;
             target = USHORT_FROM_UCHARS b0 b1
         in
         if is_defined ov_1 then
           (case is_true h ov_1 of
              Inl e \<Rightarrow> catch5 e s1
            | Inr truth \<Rightarrow>
                let s2 = STACK_DESTROY 1 s1 in
                Next (if truth \<noteq> negate then s2\<lparr>ip := code s + target\<rparr> else s2))
         else Unwind (push (ErrTag IF_UNDEFINED) s1))"

definition jmp_if :: "host \<Rightarrow> vm \<Rightarrow> outcome" where
  "jmp_if = jmp_if_generic False"

definition jmp_ifn :: "host \<Rightarrow> vm \<Rightarrow> outcome" where
  "jmp_ifn = jmp_if_generic True"

text \<open>\<open>jmp_if_bool\<close> and \<open>jmp_ifn_bool\<close>, the specializations for \<open>octave_bool\<close>.\<close>

definition jmp_if_bool_generic :: "bool \<Rightarrow> vm \<Rightarrow> outcome" where
  "jmp_if_bool_generic negate s =
     with_ov s (sp s - 1) (\<lambda>ov_1.
       if type_id ov_1 \<noteq> m_bool_typeid then
         Goto (if negate then L_jmp_ifn else L_jmp_if)
           (s\<lparr>code_mem := (code_mem s)
                [ip s - 2 := (if negate then INSTR_JMP_IFN else INSTR_JMP_IF)]\<rparr>)
       else
         let b0 = arg0 s;
             b1 = code_mem s ! ip s;
             s1 = s\<lparr>ip := ip s + 1\<rparr>;
             target = USHORT_FROM_UCHARS b0 b1;
             truth = (case ov_1 of BoolV b \<Rightarrow> b | _ \<Rightarrow> False);
             s2 = STACK_DESTROY 1 s1
         in Next (if truth \<noteq> negate then s2\<lparr>ip := code s + target\<rparr> else s2))"

definition jmp_if_bool :: "vm \<Rightarrow> outcome" where
  "jmp_if_bool = jmp_if_bool_generic False"

definition jmp_ifn_bool :: "vm \<Rightarrow> outcome" where
  "jmp_ifn_bool = jmp_if_bool_generic True"

text \<open>Opcode \<open>HANDLE_SIGNALS\<close>.\<close>

definition handle_signals :: "vm \<Rightarrow> outcome" where
  "handle_signals s =
     (case octave_quit s of
        (Some e, s1) \<Rightarrow> catch5 e s1
      | (None, s1) \<Rightarrow> Next1 s1)"

text \<open>
  Opcode \<open>FOR_COND slot after\<close>. Below the counter on top of the stack lie the number
  of iterations and the iterable.
\<close>

definition for_cond :: "host \<Rightarrow> vm \<Rightarrow> outcome" where
  "for_cond h s0 =
     (case octave_quit s0 of
        (Some e, s1) \<Rightarrow> catch5 e s1
      | (None, s) \<Rightarrow>
          with_int s (sp s - 1) (\<lambda>i.
          with_int s (sp s - 2) (\<lambda>n.
            let s1 = s\<lparr>stack := (stack s)[sp s - 1 := I (i + 1)]\<rparr> in
            if i + 1 = n then
              let b0 = code_mem s ! ip s;
                  b1 = code_mem s ! (ip s + 1);
                  after = USHORT_FROM_UCHARS b0 b1
              in Next (s1\<lparr>ip := code s + after\<rparr>)
            else
              let slot = arg0 s;
                  s2 = s1\<lparr>ip := ip s + 2\<rparr>;
                  counter = i + 1
              in
              with_ov s2 (sp s - 3) (\<lambda>ov_range.
              with_ov s2 (bsp s + slot) (\<lambda>ov_it.
                (case ov_range of
                   TrivialRange _ \<Rightarrow>
                     let val = vm_extract_forloop_double h ov_range counter in
                     if maybe_update_double h ov_it then
                       Next (set_direct (bsp s + slot) (Scalar val) s2)
                     else
                       (case ov_it of
                          Ref k \<Rightarrow> Next (ref_set_value k (Scalar val) s2)
                        | _ \<Rightarrow> Next (set_direct (bsp s + slot) (Scalar val) s2))
                 | _ \<Rightarrow>
                     (case ov_it of
                        Ref k \<Rightarrow>
                          Next (ref_set_value k (vm_extract_forloop_value h ov_range counter) s2)
                      | _ \<Rightarrow>
                          Next (set_direct (bsp s + slot)
                                  (vm_extract_forloop_value h ov_range counter) s2))))))))"

section \<open>Struct for-loop\<close>

text \<open>\<open>map.contents (key)\<close>: the values of field \<open>key\<close>, one per element of the struct array.\<close>

definition contents :: "(string \<times> ov list) list \<Rightarrow> string \<Rightarrow> ov list" where
  "contents flds key = (case map_of flds key of Some c \<Rightarrow> c | None \<Rightarrow> [])"

text \<open>The value made from a \<open>std::string\<close>: a character row vector.\<close>

definition string_ov :: "string \<Rightarrow> ov" where
  "string_ov str = CharMatrix 1 (length str) str"

text \<open>
  Opcode \<open>FOR_COMPLEX_COND after key_slot value_slot\<close>. Both tests before the two
  writes read \<open>ov_val.is_ref ()\<close>, as the source does; \<open>ref_rep ()\<close> of a key slot
  that holds no wrapper is not a write of the slot and is \<open>Fault\<close> here. The calls of
  \<open>maybe_call_dtor\<close> and \<open>make_unique\<close> have no effect on the state modelled.
\<close>

definition for_complex_cond :: "vm \<Rightarrow> outcome" where
  "for_complex_cond s =
     with_int s (sp s - 1) (\<lambda>i.
     with_int s (sp s - 2) (\<lambda>n.
       let s1 = s\<lparr>stack := (stack s)[sp s - 1 := I (i + 1)]\<rparr> in
       if i + 1 = n then
         let b0 = arg0 s;
             b1 = code_mem s ! ip s;
             after = USHORT_FROM_UCHARS b0 b1
         in Next (s1\<lparr>ip := code s + after\<rparr>)
       else
         let s2 = s1\<lparr>ip := ip s + 1\<rparr>;
             (slot_key, s3) = POP_CODE_USHORT s2;
             (slot_value, s4) = POP_CODE_USHORT s3;
             counter = i + 1
         in
         with_ov s4 (sp s - 3) (\<lambda>ov_rhs.
         with_ov s4 (bsp s + slot_value) (\<lambda>ov_val.
           (case ov_rhs of
              Struct r c flds \<Rightarrow>
                if counter < 0 \<or> length flds \<le> nat counter then Fault
                else
                  let key = fst (flds ! nat counter);
                      val_lst = contents flds key;
                      val = (if length val_lst = 1 then val_lst ! 0 else Cell r c val_lst);
                      s5 = (case ov_val of
                              Ref k \<Rightarrow> ref_set_value k val s4
                            | _ \<Rightarrow> set_direct (bsp s + slot_value) val s4)
                  in
                  with_ov s5 (bsp s + slot_value) (\<lambda>ov_val'.
                  with_ov s5 (bsp s + slot_key) (\<lambda>ov_key.
                    if is_ref ov_val' then
                      (case ov_key of
                         Ref k \<Rightarrow> Next (ref_set_value k (string_ov key) s5)
                       | _ \<Rightarrow> Fault)
                    else Next (set_direct (bsp s + slot_key) (string_ov key) s5)))
            | _ \<Rightarrow> Host_error ''map_value: wrong type argument'')))))"

section \<open>Scalar indexing and indexed assignment of a matrix\<close>

definition INSTR_INDEX_ID_NARGOUT1 :: nat where "INSTR_INDEX_ID_NARGOUT1 = 42"
definition INSTR_INDEX_ID1_MAT_1D :: nat where "INSTR_INDEX_ID1_MAT_1D = 119"
definition INSTR_INDEX_ID1_MAT_2D :: nat where "INSTR_INDEX_ID1_MAT_2D = 120"
definition INSTR_SUBASSIGN_ID :: nat where "INSTR_SUBASSIGN_ID = 54"
definition INSTR_SUBASSIGN_ID_MAT_1D :: nat where "INSTR_SUBASSIGN_ID_MAT_1D = 123"
definition INSTR_SUBASSIGN_ID_MAT_2D :: nat where "INSTR_SUBASSIGN_ID_MAT_2D = 139"
definition INSTR_WIDE :: nat where "INSTR_WIDE = 138"

text \<open>
  Conversion of a double to \<open>octave_idx_type\<close> (64 bits): truncation towards zero;
  undefined in C++ for NaN, the infinities and values out of range (\<open>None\<close>).
\<close>

definition trunc_real :: "real \<Rightarrow> int" where
  "trunc_real r = (if 0 \<le> r then \<lfloor>r\<rfloor> else \<lceil>r\<rceil>)"

fun to_idx :: "dbl \<Rightarrow> int option" where
  "to_idx (Fin r) =
     (if - (2 ^ 63) \<le> trunc_real r \<and> trunc_real r < 2 ^ 63 then Some (trunc_real r) else None)"
| "to_idx _ = None"

text \<open>\<open>d - 1\<close> on doubles, and the comparison \<open>idx == d\<close> of an index with a double.\<close>

fun dbl_sub1 :: "dbl \<Rightarrow> dbl" where
  "dbl_sub1 (Fin r) = Fin (r - 1)"
| "dbl_sub1 d = d"

fun idx_eq_dbl :: "int \<Rightarrow> dbl \<Rightarrow> bool" where
  "idx_eq_dbl idx (Fin r) = (of_int idx = r)"
| "idx_eq_dbl idx _ = False"

text \<open>\<open>rows ()\<close>, \<open>cols ()\<close> of a \<open>dim_vector\<close>, which has at least two dimensions.\<close>

fun dv_rows :: "nat list \<Rightarrow> nat" where
  "dv_rows (r # _) = r"
| "dv_rows [] = 0"

fun dv_cols :: "nat list \<Rightarrow> nat" where
  "dv_cols (_ # c # _) = c"
| "dv_cols _ = 0"

text \<open>
  The index of the opcode byte seen from \<open>ip\<close> at the second operand byte:
  \<open>ip[-2 + wide_opcode_offset]\<close>.
\<close>

definition opcode_pos :: "vm \<Rightarrow> nat \<Rightarrow> nat" where
  "opcode_pos s slot = ip s - 2 - (if slot < 256 then 0 else 1)"

text \<open>Opcode \<open>SUBASSIGN_ID_MAT_1D slot nargs\<close>.\<close>

definition subassign_id_mat_1d :: "vm \<Rightarrow> outcome" where
  "subassign_id_mat_1d s0 =
     (let slot = arg0 s0;
          s = s0\<lparr>ip := ip s0 + 1\<rparr>
      in
      with_ov s (sp s - 1) (\<lambda>rhs.
      with_ov s (sp s - 2) (\<lambda>arg.
      with_ov s (bsp s + slot) (\<lambda>mat_ov.
        if type_id rhs \<noteq> m_scalar_typeid \<or> type_id mat_ov \<noteq> m_matrix_typeid \<or>
           type_id arg \<noteq> m_scalar_typeid
        then
          let s1 = s\<lparr>ip := ip s - 1\<rparr> in
          Goto L_subassign_id
            (s1\<lparr>code_mem := (code_mem s1)[opcode_pos s1 slot := INSTR_SUBASSIGN_ID]\<rparr>)
        else
          (case (rhs, arg, mat_ov) of
             (Scalar val, Scalar idx_dbl, Matrix dv xs) \<Rightarrow>
               (case to_idx (dbl_sub1 idx_dbl) of
                  None \<Rightarrow> Fault
                | Some idx \<Rightarrow>
                    if int (length xs) \<le> idx \<or> idx < 0 \<or> \<not> idx_eq_dbl idx (dbl_sub1 idx_dbl)
                    then Goto L_subassign_id (s\<lparr>ip := ip s - 1\<rparr>)
                    else
                      Next (STACK_DESTROY 2
                        (set_direct (bsp s + slot) (Matrix dv (xs[nat idx := val])) s)))
           | _ \<Rightarrow> Fault)))))"

text \<open>Opcode \<open>SUBASSIGN_ID_MAT_2D slot nargs\<close>.\<close>

definition subassign_id_mat_2d :: "vm \<Rightarrow> outcome" where
  "subassign_id_mat_2d s0 =
     (let slot = arg0 s0;
          s = s0\<lparr>ip := ip s0 + 1\<rparr>
      in
      with_ov s (sp s - 1) (\<lambda>rhs.
      with_ov s (sp s - 2) (\<lambda>arg2.
      with_ov s (sp s - 3) (\<lambda>arg1.
      with_ov s (bsp s + slot) (\<lambda>mat_ov.
        if type_id rhs \<noteq> m_scalar_typeid \<or> type_id mat_ov \<noteq> m_matrix_typeid \<or>
           type_id arg2 \<noteq> m_scalar_typeid \<or> type_id arg1 \<noteq> type_id arg2
        then
          let s1 = s\<lparr>ip := ip s - 1\<rparr> in
          Goto L_subassign_id
            (s1\<lparr>code_mem := (code_mem s1)[opcode_pos s1 slot := INSTR_SUBASSIGN_ID]\<rparr>)
        else
          (case (rhs, arg1, arg2, mat_ov) of
             (Scalar val, Scalar idx1_dbl, Scalar idx2_dbl, Matrix dv xs) \<Rightarrow>
               (case (to_idx (dbl_sub1 idx2_dbl), to_idx (dbl_sub1 idx1_dbl)) of
                  (Some idx2, Some idx1) \<Rightarrow>
                    if int (dv_rows dv) \<le> idx1 \<or> idx1 < 0 \<or>
                       \<not> idx_eq_dbl idx1 (dbl_sub1 idx1_dbl)
                    then Goto L_subassign_id (s\<lparr>ip := ip s - 1\<rparr>)
                    else if int (dv_cols dv) \<le> idx2 \<or> idx2 < 0 \<or>
                       \<not> idx_eq_dbl idx2 (dbl_sub1 idx2_dbl)
                    then Goto L_subassign_id (s\<lparr>ip := ip s - 1\<rparr>)
                    else if length dv \<noteq> 2
                    then Goto L_subassign_id (s\<lparr>ip := ip s - 1\<rparr>)
                    else
                      Next (STACK_DESTROY 3
                        (set_direct (bsp s + slot)
                           (Matrix dv (xs[nat idx1 + dv_rows dv * nat idx2 := val])) s))
                | _ \<Rightarrow> Fault)
           | _ \<Rightarrow> Fault))))))"

text \<open>
  The arguments \<open>parg[0 .. nargs)\<close> of an index operation, read from the stack, with
  cs-lists expanded; \<open>None\<close> if an element read is no value.
\<close>

fun collect_args :: "stack_element list \<Rightarrow> (ov list \<times> bool) option" where
  "collect_args [] = Some ([], True)"
| "collect_args (OV arg # es) =
     (case collect_args es of
        None \<Rightarrow> None
      | Some (args, all_scalar) \<Rightarrow>
          Some ((if is_cs_list arg then list_value arg else [arg]) @ args,
                type_id arg = m_scalar_typeid \<and> all_scalar))"
| "collect_args (_ # es) = None"

text \<open>
  Opcode \<open>SUBASSIGN_ID slot nargs\<close>. Modelled from the spec: a slot that holds a
  reference wrapper forwards \<open>simple_subsasgn\<close> to its variable and stays the wrapper
  (the class \<open>octave_value_ref\<close> is not among the sources).
\<close>

definition subassign_id :: "host \<Rightarrow> vm \<Rightarrow> outcome" where
  "subassign_id h s0 =
     (let slot = arg0 s0;
          nargs = code_mem s0 ! ip s0;
          s = s0\<lparr>ip := ip s0 + 1\<rparr>
      in
      if sp s < 1 + nargs \<or> length (stack s) < sp s then Fault else
      with_ov s (sp s - 1) (\<lambda>rhs.
      with_ov s (bsp s + slot) (\<lambda>ov.
        (case collect_args (take nargs (drop (sp s - 1 - nargs) (stack s))) of
           None \<Rightarrow> Fault
         | Some (args, all_args_are_scalar) \<Rightarrow>
             let opcode = (if nargs = 1 then INSTR_SUBASSIGN_ID_MAT_1D
                           else INSTR_SUBASSIGN_ID_MAT_2D)
             in
             if (nargs = 1 \<or> nargs = 2) \<and> all_args_are_scalar \<and>
                type_id ov = m_matrix_typeid \<and> type_id rhs = m_scalar_typeid \<and>
                code_mem s ! (opcode_pos s slot - 1) \<noteq> opcode
             then
               let s1 = s\<lparr>ip := ip s - 1\<rparr>;
                   s2 = s1\<lparr>code_mem := (code_mem s1)[opcode_pos s1 slot := opcode]\<rparr>
               in Goto (if nargs = 1 then L_subassign_id_mat_1d else L_subassign_id_mat_2d) s2
             else if is_cs_list rhs \<and> list_value rhs = [] then
               Unwind (push (ErrTag INVALID_N_EL_RHS_IN_ASSIGNMENT) s)
             else
               let rhs1 = (if is_cs_list rhs then list_value rhs ! 0 else rhs);
                   s1 = set_direct (sp s - 1) rhs1 s
               in
               (case ov of
                  Ref k \<Rightarrow>
                    (case simple_subsasgn h (refs s k) args rhs1 of
                       Inl e \<Rightarrow> catch5 e s1
                     | Inr v \<Rightarrow> Next (STACK_DESTROY (nargs + 1) (ref_set_value k v s1)))
                | _ \<Rightarrow>
                    (case simple_subsasgn h ov args rhs1 of
                       Inl e \<Rightarrow> catch5 e s1
                     | Inr v \<Rightarrow>
                         Next (STACK_DESTROY (nargs + 1) (set_direct (bsp s + slot) v s1))))))))"

text \<open>Opcode \<open>INDEX_ID1_MAT_1D slot nargs\<close>.\<close>

definition index_id1_mat_1d :: "host \<Rightarrow> vm \<Rightarrow> outcome" where
  "index_id1_mat_1d h s0 =
     (let slot = arg0 s0;
          s = s0\<lparr>ip := ip s0 + 1\<rparr>
      in
      with_ov s (sp s - 1) (\<lambda>arg1.
      with_ov s (sp s - 2) (\<lambda>mat.
        let is_scalar = (type_id arg1 = m_scalar_typeid);
            is_mat = is_full_num_matrix h mat
        in
        if \<not> is_scalar \<or> \<not> is_mat then
          let s1 = s\<lparr>ip := ip s - 1\<rparr> in
          Goto L_index_id1
            (s1\<lparr>code_mem := (code_mem s1)[opcode_pos s1 slot := INSTR_INDEX_ID_NARGOUT1]\<rparr>)
        else
          (case arg1 of
             Scalar idx_double \<Rightarrow>
               (case to_idx idx_double of
                  None \<Rightarrow> Fault
                | Some idx \<Rightarrow>
                    if \<not> idx_eq_dbl idx idx_double then
                      (case invalid_index_exc h (dbl_sub1 idx_double) 1 1 of
                         (ident, msg) \<Rightarrow> catch5 (Index_exception ident msg) s)
                    else if idx \<le> 0 then
                      (case invalid_index_exc h (Fin (of_int (idx - 1))) 1 1 of
                         (ident, msg) \<Rightarrow> catch5 (Index_exception ident msg) s)
                    else
                      (case checked_full_matrix_elem h mat (idx - 1) of
                         Inl e \<Rightarrow> catch5 e s
                       | Inr ans \<Rightarrow> Next (push (OV ans) (STACK_DESTROY 2 s))))
           | _ \<Rightarrow> Fault))))"

text \<open>
  Label \<open>index_id1\<close> (opcode \<open>INDEX_ID_NARGOUT1 slot nargs\<close>) for a value whose
  dispatch class is \<open>OCT_SUBSREF\<close>; the branches that call a function leave this model
  at \<open>L_make_call\<close>. A failed \<open>CHECK\<close> raises an error outside any \<open>try\<close>.
  Modelled from the spec: the macro \<open>EXPAND_CSLIST_PUSH_N_OVL_ELEMENTS_TO_STACK\<close> of
  pt-bytecode-vm-internal.h, which for one requested value pushes the first result, or
  nil if there is none.
\<close>

definition index_id1 :: "host \<Rightarrow> vm \<Rightarrow> outcome" where
  "index_id1 h s0 =
     (let slot = arg0 s0;
          n_args_on_stack = code_mem s0 ! ip s0;
          s = s0\<lparr>ip := ip s0 + 1\<rparr>
      in
      if sp s < 1 + n_args_on_stack \<or> length (stack s) < sp s then Fault else
      with_ov s (sp s - 1 - n_args_on_stack) (\<lambda>ov.
        (case vm_dispatch_call h ov of
           OCT_SUBSREF \<Rightarrow>
             (case collect_args (take n_args_on_stack (drop (sp s - n_args_on_stack) (stack s))) of
                None \<Rightarrow> Fault
              | Some (ovl, all_args_double) \<Rightarrow>
                  if all_args_double \<and> is_full_num_matrix h ov \<and>
                     (n_args_on_stack = 1 \<or> n_args_on_stack = 2)
                  then
                    let s1 = s\<lparr>ip := ip s - 1\<rparr> in
                    if code_mem s1 ! opcode_pos s1 slot \<noteq> INSTR_INDEX_ID_NARGOUT1 then
                      Host_error ''VM error: Internal VM conistency check failed''
                    else if n_args_on_stack = 1 then
                      Goto L_index_id1_mat_1d
                        (s1\<lparr>code_mem := (code_mem s1)
                              [opcode_pos s1 slot := INSTR_INDEX_ID1_MAT_1D]\<rparr>)
                    else
                      Goto L_index_id1_mat_2d
                        (s1\<lparr>code_mem := (code_mem s1)
                              [opcode_pos s1 slot := INSTR_INDEX_ID1_MAT_2D]\<rparr>)
                  else
                    (case simple_subsref h ov ovl 1 of
                       Inl e \<Rightarrow> catch5 e s
                     | Inr retval \<Rightarrow>
                         Next (push (OV (case retval of [] \<Rightarrow> Undef | v # _ \<Rightarrow> v))
                                 (STACK_DESTROY (n_args_on_stack + 1) s))))
         | _ \<Rightarrow> Goto L_make_call s)))"

section \<open>Cell construction\<close>

definition INSTR_PUSH_CELL :: nat where "INSTR_PUSH_CELL = 65"
definition INSTR_APPEND_CELL :: nat where "INSTR_APPEND_CELL = 178"

text \<open>The fill value of a \<open>Cell\<close>: the empty matrix \<open>Matrix ()\<close>.\<close>

definition empty_matrix :: ov where
  "empty_matrix = Matrix [0, 0] []"

text \<open>
  A \<open>Cell\<close> as rows, columns and column-major elements. Modelled from the spec:
  \<open>Array<T>::resize\<close> and element assignment of liboctave, which is not among the sources;
  \<open>cell_resize\<close> gives the cell the new numbers of rows and columns, keeps the element
  at every position that exists before and after, and fills the new positions with the
  fill value.
\<close>

type_synonym cellrep = "nat \<times> nat \<times> ov list"

definition cell_resize :: "nat \<Rightarrow> nat \<Rightarrow> cellrep \<Rightarrow> cellrep" where
  "cell_resize r c cell =
     (case cell of (r0, c0, xs) \<Rightarrow>
        (r, c, concat (map (\<lambda>j. map (\<lambda>i. if i < r0 \<and> j < c0 then xs ! (i + r0 * j)
                                             else empty_matrix) [0..<r]) [0..<c])))"

definition cell_set :: "int \<Rightarrow> int \<Rightarrow> ov \<Rightarrow> cellrep \<Rightarrow> cellrep" where
  "cell_set i j v cell =
     (case cell of (r, c, xs) \<Rightarrow> (r, c, xs[nat i + r * nat j := v]))"

text \<open>\<open>for (i = 0; i < n; i++) cell (i_row_idx, i_col_idx + i) = ovl (i)\<close>\<close>

fun cell_set_row :: "int \<Rightarrow> int \<Rightarrow> ov list \<Rightarrow> cellrep \<Rightarrow> cellrep" where
  "cell_set_row i j [] cell = cell"
| "cell_set_row i j (v # vs) cell = cell_set_row i (j + 1) vs (cell_set i j v cell)"

definition cell_ov :: "cellrep \<Rightarrow> ov" where
  "cell_ov cell = (case cell of (r, c, xs) \<Rightarrow> Cell r c xs)"

text \<open>
  Opcode \<open>PUSH_CELL rows cols\<close>: a cell of the guessed size and the two counters.
\<close>

definition push_cell :: "vm \<Rightarrow> outcome" where
  "push_cell s0 =
     (let n_rows = arg0 s0;
          n_cols = code_mem s0 ! ip s0;
          s = s0\<lparr>ip := ip s0 + 1\<rparr>
      in Next (push (OV (Int64 0)) (push (OV (Int64 0))
                (push (OV (Cell n_rows n_cols (replicate (n_rows * n_cols) empty_matrix))) s))))"

text \<open>
  Opcode \<open>APPEND_CELL last\<close>. The counters are \<open>octave_int64\<close> values; their saturating
  arithmetic is that of the integers here.
\<close>

definition append_cell :: "vm \<Rightarrow> outcome" where
  "append_cell s0 =
     (let last = arg0 s0 in
      with_ov s0 (sp s0 - 1) (\<lambda>ov.
        let s = s0\<lparr>stack := (stack s0)[sp s0 - 1 := OV Undef], sp := sp s0 - 1\<rparr> in
        with_ov s (sp s - 3) (\<lambda>ov_cell.
        with_ov s (sp s - 2) (\<lambda>ov_i_col.
        with_ov s (sp s - 1) (\<lambda>ov_i_row.
          (case (ov_cell, ov_i_col, ov_i_row) of
             (Cell n_rows n_cols0 xs, Int64 i_col0, Int64 i_row0) \<Rightarrow>
               let cell0 = (n_rows, n_cols0, xs);
                   i_row_idx = i_row0;
                   (cell1, n_cols, i_col1) =
                     (if is_cs_list ov then
                        let ovl = list_value ov;
                            n = int (length ovl);
                            (cell_a, n_cols_a) =
                              (if i_row_idx = 0 \<and> int n_cols0 < i_col0 + n
                               then (cell_resize n_rows (nat (i_col0 + n)) cell0, i_col0 + n)
                               else (cell0, int n_cols0));
                            cell_b = (if i_col0 + n \<le> n_cols_a
                                      then cell_set_row i_row_idx i_col0 ovl cell_a else cell_a)
                        in (cell_b, n_cols_a, i_col0 + n)
                      else if is_defined ov then
                        let (cell_a, n_cols_a) =
                              (if i_row_idx = 0 \<and> int n_cols0 \<le> i_col0
                               then (cell_resize 1 (nat (i_col0 + 1)) cell0, int n_cols0 + 1)
                               else (cell0, int n_cols0));
                            cell_b = (if i_col0 < n_cols_a
                                      then cell_set i_row_idx i_col0 ov cell_a else cell_a)
                        in (cell_b, n_cols_a, i_col0 + 1)
                      else (cell0, int n_cols0, i_col0));
                   i_col_idx = i_col1;
                   put = (\<lambda>cell i_col i_row.
                            s\<lparr>stack := (stack s)[sp s - 3 := OV (cell_ov cell),
                                                  sp s - 2 := OV (Int64 i_col),
                                                  sp s - 1 := OV (Int64 i_row)]\<rparr>)
               in
               if last = 1 then
                 if i_col_idx \<noteq> 0 \<and> i_col_idx \<noteq> n_cols then
                   Unwind (push (ErrTag EXECUTION_EXC)
                     (push (PEE ''error'' [] ''number of columns must match'')
                        (put cell1 i_col1 i_row0)))
                 else
                   Next (put cell1 0 (i_row0 + (if i_col_idx \<noteq> 0 then 1 else 0)))
               else if last = 2 then
                 if i_col_idx \<noteq> 0 \<and> i_col_idx \<noteq> n_cols then
                   Unwind (push (ErrTag EXECUTION_EXC)
                     (push (PEE ''error'' [] ''number of columns must match'')
                        (put cell1 i_col1 i_row0)))
                 else
                   let i_row_idx2 = (if i_col_idx \<noteq> 0 then i_row_idx + 1
                                     else if n_cols = 0 then i_row_idx + 1 else i_row_idx);
                       cell2 = (if i_row_idx2 \<noteq> int n_rows
                                then cell_resize (nat i_row_idx2) (nat n_cols) cell1 else cell1)
                   in Next (STACK_DESTROY 2 (put cell2 i_col1 i_row0))
               else if last = 3 then
                 let cell2 = (if i_col_idx < n_cols
                              then cell_resize (if i_col_idx \<noteq> 0 then 1 else 0) (nat i_col_idx) cell1
                              else cell1)
                 in Next (STACK_DESTROY 2 (put cell2 i_col1 i_row0))
               else if last = 4 then
                 let cell2 = (if i_col_idx < n_cols
                              then cell_resize n_rows (nat i_col_idx) cell1 else cell1)
                 in Next (put cell2 0 (i_row0 + 1))
               else Next (put cell1 i_col1 i_row0)
           | _ \<Rightarrow> Fault))))))"

section \<open>Numeric for-loop setup\<close>

definition INSTR_FOR_SETUP :: nat where "INSTR_FOR_SETUP = 38"
definition INSTR_FOR_COND :: nat where "INSTR_FOR_COND = 39"

text \<open>What \<open>for_setup\<close> asks of the iterable.\<close>

fun numel :: "ov \<Rightarrow> nat" where
  "numel Undef = 0"
| "numel (Scalar _) = 1"
| "numel (BoolV _) = 1"
| "numel (Int64 _) = 1"
| "numel (Matrix dv xs) = length xs"
| "numel (CharMatrix r c _) = r * c"
| "numel (Range _ _ _ n) = n"
| "numel (TrivialRange n) = n"
| "numel (Cell r c _) = r * c"
| "numel (Struct r c _) = r * c"
| "numel (CsList xs) = length xs"
| "numel (Ref _) = 0"
| "numel (Opaque _) = 0"

fun is_range :: "ov \<Rightarrow> bool" where
  "is_range (Range _ _ _ _) = True"
| "is_range (TrivialRange _) = True"
| "is_range _ = False"

fun is_trivial_range :: "ov \<Rightarrow> bool" where
  "is_trivial_range (TrivialRange _) = True"
| "is_trivial_range _ = False"

text \<open>
  The element class of a range, to which the tests \<open>is_double_type\<close> ...
  \<open>is_single_type\<close> of \<open>for_setup\<close> apply; a trivial range is a range of doubles.
\<close>

fun range_class :: "ov \<Rightarrow> elt_class" where
  "range_class (Range e _ _ _) = e"
| "range_class (TrivialRange _) = EDouble"
| "range_class _ = EOther"

definition is_double_type :: "ov \<Rightarrow> bool" where "is_double_type v = (range_class v = EDouble)"
definition is_single_type :: "ov \<Rightarrow> bool" where "is_single_type v = (range_class v = ESingle)"
definition is_int8_type :: "ov \<Rightarrow> bool" where "is_int8_type v = (range_class v = EInt8)"
definition is_int16_type :: "ov \<Rightarrow> bool" where "is_int16_type v = (range_class v = EInt16)"
definition is_int32_type :: "ov \<Rightarrow> bool" where "is_int32_type v = (range_class v = EInt32)"
definition is_int64_type :: "ov \<Rightarrow> bool" where "is_int64_type v = (range_class v = EInt64)"
definition is_uint8_type :: "ov \<Rightarrow> bool" where "is_uint8_type v = (range_class v = EUint8)"
definition is_uint16_type :: "ov \<Rightarrow> bool" where "is_uint16_type v = (range_class v = EUint16)"
definition is_uint32_type :: "ov \<Rightarrow> bool" where "is_uint32_type v = (range_class v = EUint32)"
definition is_uint64_type :: "ov \<Rightarrow> bool" where "is_uint64_type v = (range_class v = EUint64)"

fun is_matrix_type :: "ov \<Rightarrow> bool" where
  "is_matrix_type (Matrix _ _) = True"
| "is_matrix_type (CharMatrix _ _ _) = True"
| "is_matrix_type _ = False"

fun is_string :: "ov \<Rightarrow> bool" where
  "is_string (CharMatrix _ _ _) = True"
| "is_string _ = False"

fun isstruct :: "ov \<Rightarrow> bool" where
  "isstruct (Struct _ _ _) = True"
| "isstruct _ = False"

fun is_scalar_type :: "ov \<Rightarrow> bool" where
  "is_scalar_type (Scalar _) = True"
| "is_scalar_type (BoolV _) = True"
| "is_scalar_type (Int64 _) = True"
| "is_scalar_type _ = False"

fun dims :: "ov \<Rightarrow> nat list" where
  "dims (Matrix dv _) = dv"
| "dims (CharMatrix r c _) = [r, c]"
| "dims (Cell r c _) = [r, c]"
| "dims (Struct r c _) = [r, c]"
| "dims (Range _ _ _ n) = [1, n]"
| "dims (TrivialRange n) = [1, n]"
| "dims Undef = [0, 0]"
| "dims _ = [1, 1]"

text \<open>
  Modelled from the spec: \<open>dim_vector::redim (2)\<close> of liboctave, which is not among the
  sources: the two-dimensional view of the dimensions, the trailing dimensions folded
  into the columns.
\<close>

fun redim2 :: "nat list \<Rightarrow> nat list" where
  "redim2 [] = [1, 1]"
| "redim2 [r] = [r, 1]"
| "redim2 (r # cs) = [r, prod_list cs]"

text \<open>Base and limit of a range that is not trivial.\<close>

fun range_is_infinite :: "ov \<Rightarrow> bool" where
  "range_is_infinite (Range _ b l _) = (isinf l \<or> isinf b)"
| "range_is_infinite _ = False"

text \<open>
  Opcode \<open>FOR_SETUP\<close>, in three parts. First the chain of tests on the class of the
  iterable, which gives the iterable, made a trivial range where possible, and the
  number \<open>n\<close> of iterations; \<open>TODO (msg)\<close> raises an error outside any \<open>try\<close>
  (\<open>None\<close>). The row count is read into an \<open>int\<close> (\<open>int n_rows = dv (0)\<close>):
  \<open>idx_to_int\<close> is the conversion of the 64-bit \<open>octave_idx_type\<close>, which keeps the
  low 32 bits and reads them as a signed number.
\<close>

definition idx_to_int :: "nat \<Rightarrow> int" where
  "idx_to_int k = (let m = int (k mod 2 ^ 32) in if m < 2 ^ 31 then m else m - 2 ^ 32)"

definition for_setup_select :: "host \<Rightarrow> ov \<Rightarrow> (ov \<times> int) option" where
  "for_setup_select h ov_range =
     (let n = int (numel ov_range);
          is_rng = is_range ov_range
      in
      if is_rng \<and>
         (is_double_type ov_range \<or> is_int64_type ov_range \<or> is_uint64_type ov_range \<or>
          is_int32_type ov_range \<or> is_uint32_type ov_range \<or> is_int16_type ov_range \<or>
          is_uint16_type ov_range \<or> is_int16_type ov_range \<or> is_int8_type ov_range \<or>
          is_int8_type ov_range \<or> is_uint8_type ov_range \<or> is_single_type ov_range)
      then Some (maybe_as_trivial_range h ov_range, n)
      else if is_rng \<or> is_matrix_type ov_range \<or> iscell ov_range \<or>
              is_string ov_range \<or> isstruct ov_range
      then
        (let dv = redim2 (dims ov_range);
             n_rows = idx_to_int (dv_rows dv)
         in Some (ov_range, if n_rows \<noteq> 0 then int (dv_cols dv) else 0))
      else if is_scalar_type ov_range \<or> is_undefined ov_range
      then Some (ov_range, n)
      else None)"

text \<open>
  Last the assignment of an empty iterable to the induction slot, whose number is the
  operand of the \<open>FOR_COND\<close> that follows. The opcode \<open>FOR_SETUP\<close> has no operand:
  \<open>arg0\<close> is the next opcode, \<open>FOR_COND\<close> or the prefix \<open>WIDE\<close>. The machine
  \<open>s\<close> is the one at entry, \<open>s3\<close> the one after the two pushes.
\<close>

definition for_setup_assign_empty :: "host \<Rightarrow> vm \<Rightarrow> vm \<Rightarrow> ov \<Rightarrow> outcome" where
  "for_setup_assign_empty h s s3 ov_range =
     (let slot = (if arg0 s = INSTR_WIDE
                  then USHORT_FROM_UCHARS (code_mem s ! (ip s + 1)) (code_mem s ! (ip s + 2))
                  else code_mem s ! ip s)
      in
      with_ov s3 (bsp s + slot) (\<lambda>lhs_ov.
        (case storable_value h ov_range of
           Inl e \<Rightarrow> catch_execution e s3
         | Inr v \<Rightarrow>
             (case lhs_ov of
                Ref k \<Rightarrow> Next1 (ref_set_value k v s3)
              | _ \<Rightarrow> Next1 (set_direct (bsp s + slot) v s3)))))"

text \<open>In between the warning for an infinite range and the pushes of \<open>n\<close> and \<open>-1\<close>.\<close>

definition for_setup :: "host \<Rightarrow> vm \<Rightarrow> outcome" where
  "for_setup h s =
     with_ov s (sp s - 1) (\<lambda>ov_range0.
       (case for_setup_select h ov_range0 of
          None \<Rightarrow> Host_error ''Not done yet 3102: Unsupported for rhs type''
        | Some (ov_range, n) \<Rightarrow>
            let s1 = set_direct (sp s - 1) ov_range s;
                s2 = (if \<not> is_trivial_range ov_range \<and> is_range ov_range0 \<and>
                         range_is_infinite ov_range
                      then s1\<lparr>n_warnings := n_warnings s1 + 1\<rparr> else s1);
                s3 = push (I (- 1)) (push (I n) s2)
            in
            if n = 0 \<and> is_defined ov_range then for_setup_assign_empty h s s3 ov_range
            else Next1 s3))"

section \<open>Multi-target assignment\<close>

definition INSTR_ASSIGNN :: nat where "INSTR_ASSIGNN = 52"

text \<open>
  The frame header: \<open>N_RETURNS ()\<close> is the signed first byte of the code,
  \<open>N_LOCALS ()\<close> the little-endian short at offset 2.
\<close>

definition N_RETURNS :: "vm \<Rightarrow> int" where
  "N_RETURNS s = (let b = code_mem s ! code s in if b < 128 then int b else int b - 256)"

definition N_LOCALS :: "vm \<Rightarrow> nat" where
  "N_LOCALS s = code_mem s ! (code s + 2) + code_mem s ! (code s + 3) * 256"

text \<open>\<open>x <= y\<close> on doubles.\<close>

fun dbl_le :: "dbl \<Rightarrow> dbl \<Rightarrow> bool" where
  "dbl_le (Fin x) (Fin y) = (x \<le> y)"
| "dbl_le NaN _ = False"
| "dbl_le _ NaN = False"
| "dbl_le NInf _ = True"
| "dbl_le _ PInf = True"
| "dbl_le _ _ = False"

text \<open>
  Modelled from the spec: \<open>Array<T>::lookup\<close> of liboctave, which is not among the
  sources, for an array in ascending order: the number of leading elements not greater
  than the value, so that the value is in the array exactly if the element before that
  position is the value.
\<close>

definition lookup :: "dbl list \<Rightarrow> dbl \<Rightarrow> nat" where
  "lookup xs v = length (takeWhile (\<lambda>x. dbl_le x v) xs)"

text \<open>\<open>matrix_value ()\<close>; it raises an error for a value that is no real matrix.\<close>

fun matrix_value :: "ov \<Rightarrow> dbl list option" where
  "matrix_value (Matrix _ xs) = Some xs"
| "matrix_value (Scalar d) = Some [d]"
| "matrix_value _ = None"

text \<open>\<open>std::to_string\<close> of an \<open>int\<close>.\<close>

fun digit_string :: "nat \<Rightarrow> string" where
  "digit_string n = (if n < 10 then [char_of (48 + n)]
                     else digit_string (n div 10) @ [char_of (48 + n mod 10)])"

declare digit_string.simps [simp del]

definition to_string :: "int \<Rightarrow> string" where
  "to_string i = (if i < 0 then CHR ''-'' # digit_string (nat (- i)) else digit_string (nat i))"

text \<open>
  The test of \<open>assign_n\<close> whether an undefined value for \<open>slot\<close> is accepted; the
  code has it twice, for the elements of a cs-list and for a single value.
\<close>

definition is_ignored_slot :: "vm \<Rightarrow> nat \<Rightarrow> bool option" where
  "is_ignored_slot s slot =
     (let name = name_mem s ! (name_data s + slot);
          is_ignored = (2 \<le> length name \<and> name ! 0 = CHR ''%'' \<and> name ! 1 = CHR ''~'');
          tmp = ignored_var s
      in
      if is_defined tmp then
        (case matrix_value tmp of
           None \<Rightarrow> None
         | Some ignored \<Rightarrow>
             let n_returns0 = N_RETURNS s;
                 n_returns = (if n_returns0 = - 128 then 1
                              else if n_returns0 < 0 then - n_returns0 else n_returns0)
             in
             if int slot < n_returns then
               (let outputnum = n_returns - 1 - int slot;
                    idx = lookup ignored (Fin (of_int outputnum))
                in Some (0 < idx \<and> ignored ! (idx - 1) = Fin (of_int outputnum)))
             else Some is_ignored)
      else Some is_ignored)"

text \<open>
  The assignment of one value to \<open>slot\<close>, the body \<open>assign_n\<close> has for every
  element of a cs-list and for a single value. \<open>n_actual\<close> counts the values assigned
  so far.
\<close>

definition assign_n_value :: "host \<Rightarrow> vm \<Rightarrow> nat \<Rightarrow> int \<Rightarrow> ov \<Rightarrow> outcome" where
  "assign_n_value h s slot n_actual ov_0 =
     with_ov s (bsp s + slot) (\<lambda>lhs_ov.
       let ov_1 = (if vm_need_storable_call h ov_0 then make_storable_value h ov_0 else ov_0) in
       (case (if is_undefined ov_1 then is_ignored_slot s slot else Some True) of
          None \<Rightarrow> Host_error ''matrix_value: wrong type argument''
        | Some False \<Rightarrow>
            Unwind (push (ErrTag EXECUTION_EXC)
              (push (PEE ''error'' []
                 (''element number '' @ to_string (n_actual + 1) @ '' undefined in return list''))
                 s))
        | Some True \<Rightarrow>
            (case lhs_ov of
               Ref k \<Rightarrow> Next (ref_set_value k ov_1 s)
             | _ \<Rightarrow> Next (set_direct (bsp s + slot) ov_1 s))))"

text \<open>The elements of a cs-list all go to the same slot.\<close>

fun assign_n_values :: "host \<Rightarrow> vm \<Rightarrow> nat \<Rightarrow> int \<Rightarrow> ov list \<Rightarrow> outcome + vm \<times> int" where
  "assign_n_values h s slot n_actual [] = Inr (s, n_actual)"
| "assign_n_values h s slot n_actual (v # vs) =
     (case assign_n_value h s slot n_actual v of
        Next s' \<Rightarrow> assign_n_values h s' slot (n_actual + 1) vs
      | out \<Rightarrow> Inl out)"

text \<open>
  The \<open>do ... while (n_actual < n_slots)\<close> loop of opcode \<open>ASSIGNN n_slots\<close>: each
  turn pops one operand and reads one slot number from the code. The assignments do
  not move \<open>sp\<close>, which the model sets again after them; a pop from an empty stack
  is \<open>Fault\<close>.
\<close>

function assign_n_loop :: "host \<Rightarrow> int \<Rightarrow> int \<Rightarrow> vm \<Rightarrow> outcome" where
  "assign_n_loop h n_slots n_actual s =
     (if sp s = 0 \<or> length (stack s) < sp s then Fault
      else
        (case stack s ! (sp s - 1) of
           OV arg \<Rightarrow>
             (case POP_CODE_USHORT (s\<lparr>sp := sp s - 1\<rparr>) of
                (slot, s1) \<Rightarrow>
                  (case assign_n_values h s1 slot n_actual
                          (if is_cs_list arg then list_value arg else [arg]) of
                     Inl out \<Rightarrow> out
                   | Inr (s2, n_actual') \<Rightarrow>
                       let s3 = s2\<lparr>stack := (stack s2)[sp s - 1 := Free], sp := sp s - 1\<rparr> in
                       if n_actual' < n_slots then assign_n_loop h n_slots n_actual' s3
                       else Next s3))
         | _ \<Rightarrow> Fault))"
  by pat_completeness auto
termination
  by (relation "measure (\<lambda>(h, n_slots, n_actual, s). sp s)") auto

declare assign_n_loop.simps [simp del]

definition assign_n :: "host \<Rightarrow> vm \<Rightarrow> outcome" where
  "assign_n h s = assign_n_loop h (int (arg0 s)) 0 s"

section \<open>Binary operators\<close>

text \<open>
  Modelled from the spec: the host's typed operator dispatch
  \<open>binary_op (ti, op, a, b)\<close> applies the function that the table holds for the
  operator and the type ids of the two operands.
\<close>

definition binary_op :: "type_info \<Rightarrow> binary_op \<Rightarrow> ov \<Rightarrow> ov \<Rightarrow> host_exc + ov" where
  "binary_op ti op a b =
     (case lookup_binary_op ti op (type_id a) (type_id b) of
        Some f \<Rightarrow> f a b
      | None \<Rightarrow> binary_op_by_conversion ti op a b)"

text \<open>
  The function pointers \<open>m_fn_dbl_mul\<close>, \<open>m_fn_dbl_div\<close>, ... are set once, in the
  constructor of the VM, to the table's entry for two scalar doubles;
  \<open>m_fn_dbl_op\<close> is the operator that is looked up for each of them.
\<close>

fun m_fn_dbl_op :: "binop \<Rightarrow> binary_op" where
  "m_fn_dbl_op B_MUL = op_mul"
| "m_fn_dbl_op B_DIV = op_div"
| "m_fn_dbl_op B_ADD = op_add"
| "m_fn_dbl_op B_SUB = op_sub"
| "m_fn_dbl_op B_POW = op_pow"
| "m_fn_dbl_op B_LE = op_lt"
| "m_fn_dbl_op B_LE_EQ = op_le"
| "m_fn_dbl_op B_GR = op_gt"
| "m_fn_dbl_op B_GR_EQ = op_ge"
| "m_fn_dbl_op B_EQ = op_eq"
| "m_fn_dbl_op B_NEQ = op_ne"

definition m_fn_dbl :: "type_info \<Rightarrow> binop \<Rightarrow> binary_op_fcn option" where
  "m_fn_dbl ti b = lookup_binary_op ti (m_fn_dbl_op b) m_scalar_typeid m_scalar_typeid"

text \<open>
  The operator that the generic handler passes to the typed dispatch (the first
  argument of \<open>MAKE_BINOP_SELFMODIFYING\<close> at the handler's label).
\<close>

fun generic_op :: "binop \<Rightarrow> binary_op" where
  "generic_op B_MUL = op_mul"
| "generic_op B_DIV = op_div"
| "generic_op B_ADD = op_add"
| "generic_op B_SUB = op_sub"
| "generic_op B_LE = op_lt"
| "generic_op B_LE_EQ = op_le"
| "generic_op B_GR = op_gt"
| "generic_op B_GR_EQ = op_ge"
| "generic_op B_EQ = op_eq"
| "generic_op B_NEQ = op_ne"
| "generic_op B_POW = op_pow"

text \<open>
  The opcode numbers of the generic and of the specialized handlers (their positions
  in the table \<open>instr\<close>).
\<close>

fun INSTR_generic :: "binop \<Rightarrow> nat" where
  "INSTR_generic B_MUL = 3"
| "INSTR_generic B_DIV = 4"
| "INSTR_generic B_ADD = 5"
| "INSTR_generic B_SUB = 6"
| "INSTR_generic B_LE = 13"
| "INSTR_generic B_LE_EQ = 14"
| "INSTR_generic B_GR = 15"
| "INSTR_generic B_GR_EQ = 16"
| "INSTR_generic B_EQ = 17"
| "INSTR_generic B_NEQ = 18"
| "INSTR_generic B_POW = 21"

fun INSTR_dbl :: "binop \<Rightarrow> nat" where
  "INSTR_dbl B_MUL = 108"
| "INSTR_dbl B_ADD = 109"
| "INSTR_dbl B_SUB = 110"
| "INSTR_dbl B_DIV = 111"
| "INSTR_dbl B_POW = 112"
| "INSTR_dbl B_LE = 113"
| "INSTR_dbl B_LE_EQ = 114"
| "INSTR_dbl B_GR = 115"
| "INSTR_dbl B_GR_EQ = 116"
| "INSTR_dbl B_EQ = 117"
| "INSTR_dbl B_NEQ = 118"

text \<open>
  Modelled from the spec: the macro
  \<open>MAKE_BINOP_SPECIALIZED (op_fn, jmp_target, op_target, target_type)\<close> of
  pt-bytecode-vm-internal.h, which is not among the sources, as it is used at the labels
  \<open>mul_dbl\<close>, \<open>div_dbl\<close>, ... with \<open>m_scalar_typeid\<close>. If an operand is not a
  scalar double, the opcode byte is rewritten to the generic opcode and the handler
  jumps to the generic handler; otherwise the cached function is called on the two
  operands, which are popped, and its result is pushed. A call through a null function
  pointer is a fault.
\<close>

definition binop_dbl :: "type_info \<Rightarrow> binop \<Rightarrow> vm \<Rightarrow> outcome" where
  "binop_dbl ti op s =
     (if sp s < 2 then Fault
      else
        with_ov s (sp s - 1) (\<lambda>b.
        with_ov s (sp s - 2) (\<lambda>a.
          if type_id a \<noteq> m_scalar_typeid \<or> type_id b \<noteq> m_scalar_typeid then
            Goto (L_binop op) (s\<lparr>code_mem := (code_mem s)[ip s - 2 := INSTR_generic op]\<rparr>)
          else
            (case m_fn_dbl ti op of
               None \<Rightarrow> Fault
             | Some op_fn \<Rightarrow>
                 (case op_fn a b of
                    Inl e \<Rightarrow> catch5 e s
                  | Inr ans \<Rightarrow> Next1 (push (OV ans) (STACK_DESTROY 2 s)))))))"

text \<open>
  Modelled from the spec: the macro
  \<open>MAKE_BINOP_SELFMODIFYING (op, jmp_target, op_target)\<close> of the same header, as it is
  used at the labels \<open>mul\<close>, \<open>div\<close>, ... If both operands are scalar doubles,
  the opcode byte is rewritten to the specialized opcode and the handler jumps to the
  specialized handler; otherwise the typed dispatch is applied to the two operands,
  which are popped, and its result is pushed. The handler \<open>usub\<close>, which the source
  writes out, has this shape.
\<close>

definition binop_selfmodifying :: "type_info \<Rightarrow> binop \<Rightarrow> vm \<Rightarrow> outcome" where
  "binop_selfmodifying ti op s =
     (if sp s < 2 then Fault
      else
        with_ov s (sp s - 1) (\<lambda>b.
        with_ov s (sp s - 2) (\<lambda>a.
          if type_id a = m_scalar_typeid \<and> type_id a = type_id b then
            Goto (L_binop_dbl op) (s\<lparr>code_mem := (code_mem s)[ip s - 2 := INSTR_dbl op]\<rparr>)
          else
            (case binary_op ti (generic_op op) a b of
               Inl e \<Rightarrow> catch5 e s
             | Inr ans \<Rightarrow> Next1 (push (OV ans) (STACK_DESTROY 2 s))))))"

text \<open>
  The entries of the dispatch table \<open>instr\<close> for these opcodes.
\<close>

fun instr :: "nat \<Rightarrow> (type_info \<Rightarrow> vm \<Rightarrow> outcome) option" where
  "instr opcode =
     (if opcode = 3 then Some (\<lambda>ti. binop_selfmodifying ti B_MUL)
      else if opcode = 4 then Some (\<lambda>ti. binop_selfmodifying ti B_DIV)
      else if opcode = 5 then Some (\<lambda>ti. binop_selfmodifying ti B_ADD)
      else if opcode = 6 then Some (\<lambda>ti. binop_selfmodifying ti B_SUB)
      else if opcode = 13 then Some (\<lambda>ti. binop_selfmodifying ti B_LE)
      else if opcode = 14 then Some (\<lambda>ti. binop_selfmodifying ti B_LE_EQ)
      else if opcode = 15 then Some (\<lambda>ti. binop_selfmodifying ti B_GR)
      else if opcode = 16 then Some (\<lambda>ti. binop_selfmodifying ti B_GR_EQ)
      else if opcode = 17 then Some (\<lambda>ti. binop_selfmodifying ti B_EQ)
      else if opcode = 18 then Some (\<lambda>ti. binop_selfmodifying ti B_NEQ)
      else if opcode = 21 then Some (\<lambda>ti. binop_selfmodifying ti B_POW)
      else if opcode = 108 then Some (\<lambda>ti. binop_dbl ti B_MUL)
      else if opcode = 109 then Some (\<lambda>ti. binop_dbl ti B_ADD)
      else if opcode = 110 then Some (\<lambda>ti. binop_dbl ti B_SUB)
      else if opcode = 111 then Some (\<lambda>ti. binop_dbl ti B_DIV)
      else if opcode = 112 then Some (\<lambda>ti. binop_dbl ti B_POW)
      else if opcode = 113 then Some (\<lambda>ti. binop_dbl ti B_LE)
      else if opcode = 114 then Some (\<lambda>ti. binop_dbl ti B_LE_EQ)
      else if opcode = 115 then Some (\<lambda>ti. binop_dbl ti B_GR)
      else if opcode = 116 then Some (\<lambda>ti. binop_dbl ti B_GR_EQ)
      else if opcode = 117 then Some (\<lambda>ti. binop_dbl ti B_EQ)
      else if opcode = 118 then Some (\<lambda>ti. binop_dbl ti B_NEQ)
      else None)"

declare instr.simps [simp del]

text \<open>
  A \<open>goto\<close> from one of the two handlers of an operator to the other.
\<close>

fun goto_binop :: "type_info \<Rightarrow> label \<Rightarrow> vm \<Rightarrow> outcome" where
  "goto_binop ti (L_binop op) s = binop_selfmodifying ti op s"
| "goto_binop ti (L_binop_dbl op) s = binop_dbl ti op s"
| "goto_binop ti _ s = Fault"

text \<open>
  The execution of the binary operator whose opcode was dispatched last: the opcode
  byte lies two below \<open>ip\<close>, and a jump to the other handler of the operator is
  followed.
\<close>

definition execute_binop :: "type_info \<Rightarrow> vm \<Rightarrow> outcome" where
  "execute_binop ti s =
     (if ip s < 2 \<or> length (code_mem s) \<le> ip s - 2 then Fault
      else
        (case instr (code_mem s ! (ip s - 2)) of
           None \<Rightarrow> Fault
         | Some handler \<Rightarrow>
             (case handler ti s of
                Goto l s' \<Rightarrow> goto_binop ti l s'
              | r \<Rightarrow> r)))"

section \<open>Return from a bytecode function\<close>

text \<open>
  The opcode number of \<open>RET\<close> (its position in the instruction table).
\<close>

definition INSTR_RET :: nat where "INSTR_RET = 7"

text \<open>
  Several \<open>PUSH_OV\<close> in a row.
\<close>

fun push_list :: "stack_element list \<Rightarrow> vm \<Rightarrow> vm" where
  "push_list [] s = s"
| "push_list (e # es) s = push_list es (push e s)"

text \<open>
  Read member \<open>ov\<close> of the stack elements at the given indices; \<open>None\<close> when
  one of them does not hold a value or lies outside the stack.
\<close>

fun ovs_at :: "vm \<Rightarrow> nat list \<Rightarrow> ov list option" where
  "ovs_at s [] = Some []"
| "ovs_at s (i # is) =
     (if i < length (stack s) then
        (case stack s ! i of
           OV v \<Rightarrow> (case ovs_at s is of None \<Rightarrow> None | Some vs \<Rightarrow> Some (v # vs))
         | _ \<Rightarrow> None)
      else None)"

text \<open>
  Overwrite the stack elements at the given indices, in that order; with \<open>OV Undef\<close>
  for values that were moved from, with \<open>Free\<close> for values that were destroyed.
\<close>

fun put_all :: "nat list \<Rightarrow> stack_element \<Rightarrow> vm \<Rightarrow> vm" where
  "put_all [] e s = s"
| "put_all (i # is) e s = put_all is e (s\<lparr>stack := (stack s)[i := e]\<rparr>)"

text \<open>
  Placement-new of the values \<open>vs\<close> in consecutive stack elements from index \<open>i\<close>.
\<close>

fun put_ovs :: "nat \<Rightarrow> ov list \<Rightarrow> vm \<Rightarrow> vm" where
  "put_ovs i [] s = s"
| "put_ovs i (v # vs) s = put_ovs (i + 1) vs (s\<lparr>stack := (stack s)[i := OV v]\<rparr>)"

text \<open>
  \<open>ref_rep ()->deref ()\<close> for a reference, the value itself otherwise.
\<close>

definition deref :: "vm \<Rightarrow> ov \<Rightarrow> ov" where
  "deref s v = (case v of Ref k \<Rightarrow> refs s k | _ \<Rightarrow> v)"

text \<open>
  The elements of \<open>cell_value ()\<close>, in linear order.
\<close>

fun cell_elems :: "ov \<Rightarrow> ov list" where
  "cell_elems (Cell _ _ xs) = xs"
| "cell_elems _ = []"

text \<open>
  Return from the root routine: the return values are collected in a list that is
  returned to the host; \<open>%nargout\<close> in slot 0 is skipped.
\<close>

definition ret_root :: "int \<Rightarrow> vm \<Rightarrow> int \<Rightarrow> bool \<Rightarrow> outcome" where
  "ret_root root_nargout s n_returns_callee is_varargout =
     (let n_root_wanted = max root_nargout 1;
          n_fixed = (if is_varargout then n_returns_callee - 1 else n_returns_callee);
          j_end = max 1 (min n_fixed (n_root_wanted + 1))
      in
      if is_varargout \<and> n_returns_callee < 2 then Host_error ''VM panic''
      else
        (case ovs_at s (map (\<lambda>j. bsp s + j) [1 ..< nat n_returns_callee]) of
           None \<Rightarrow> Fault
         | Some slots \<Rightarrow>
             let ov_vararg = last (Undef # slots);
                 fixed = map (deref s) (take (nat j_end - 1) slots);
                 extra = (if is_varargout \<and> is_defined ov_vararg \<and> j_end < n_root_wanted + 1
                          then take (nat (n_root_wanted + 1 - j_end)) (cell_elems ov_vararg)
                          else [])
             in Return (fixed @ extra)
                  (put_all (map (\<lambda>j. bsp s + j) [1 ..< nat n_returns_callee]) Free s)))"

text \<open>
  A \<open>varargout\<close> callee: the cell in the last return slot is moved out and as many of
  its elements as the caller can use are written after the fixed return values. The result
  is the state and the new \<open>n_args_callee_has\<close>.
\<close>

definition ret_expand_varargout :: "vm \<Rightarrow> nat \<Rightarrow> int \<Rightarrow> int \<Rightarrow> outcome + vm \<times> int" where
  "ret_expand_varargout s caller_stack_end n_args_caller_expects n_args_callee_has0 =
     (if n_args_callee_has0 < 0 \<or> length (stack s) \<le> caller_stack_end + nat n_args_callee_has0
      then Inl Fault
      else
        (case stack s ! (caller_stack_end + nat n_args_callee_has0) of
           OV ov_vararg \<Rightarrow>
             let s1 = s\<lparr>stack := (stack s)[caller_stack_end + nat n_args_callee_has0 := OV Undef]\<rparr>;
                 n_args_callee_has = n_args_callee_has0 - 1
             in
             if is_defined ov_vararg then
               let n = int (length (cell_elems ov_vararg));
                   n_to_push = min n (max 0 (max 1 n_args_caller_expects - n_args_callee_has))
               in
               if int (length (stack s)) < int (sp s) + n_to_push
               then Inl (Host_error ''VM error: Internal VM conistency check failed'')
               else
                 Inr (put_ovs (caller_stack_end + nat (n_args_callee_has + 1))
                        (take (nat n_to_push) (cell_elems ov_vararg)) s1,
                      n_args_callee_has + n_to_push)
             else if n_args_caller_expects \<noteq> 0 then
               Inr (s1\<lparr>stack := (stack s1)[caller_stack_end + nat (n_args_callee_has + 1) := OV Undef]\<rparr>,
                    n_args_callee_has + 1)
             else Inr (s1, n_args_callee_has)
         | _ \<Rightarrow> Inl Fault))"

text \<open>
  Move the return values from the callee frame, which starts at \<open>caller_stack_end\<close>,
  to the top of the caller stack, then destroy what is left in the callee frame. When
  the two regions overlap the values go through a list (\<open>copy_many_args_to_caller\<close>)
  and \<open>sp\<close> is advanced by \<open>n_args_caller_expects\<close> afterwards.
\<close>

definition ret_move_returns :: "vm \<Rightarrow> nat \<Rightarrow> int \<Rightarrow> int \<Rightarrow> outcome" where
  "ret_move_returns s caller_stack_end n_args_caller_expects n_args_callee_has =
     (let n_args_to_move = min n_args_caller_expects n_args_callee_has;
          sources = (if n_args_caller_expects = 0 \<and> n_args_callee_has \<noteq> 0
                     then [caller_stack_end + 1]
                     else if n_args_caller_expects = 0 then []
                     else map (\<lambda>i. caller_stack_end + 1 + i) [0 ..< nat n_args_to_move])
      in
      (case ovs_at s sources of
         None \<Rightarrow> Fault
       | Some vals \<Rightarrow>
           let s1 = put_all sources (OV Undef) s;
               nils = replicate (nat (n_args_caller_expects - n_args_to_move)) (OV Undef);
               pushed =
                 (if n_args_caller_expects = 0 \<and> n_args_callee_has \<noteq> 0 then map OV vals
                  else if n_args_caller_expects = 0 then [OV Undef]
                  else if int caller_stack_end \<le> int (sp s) + n_args_caller_expects
                  then map OV (rev vals) @ nils
                  else nils @ map OV (rev vals));
               s2 = (if n_args_caller_expects \<noteq> 0 \<and>
                        int caller_stack_end \<le> int (sp s) + n_args_caller_expects
                     then (push_list pushed s1)\<lparr>sp := nat (int (sp s) + n_args_caller_expects)\<rparr>
                     else push_list pushed s1)
           in Next (put_all (map (\<lambda>i. caller_stack_end + 1 + i) (rev [0 ..< nat n_args_callee_has]))
                      Free s2)))"

text \<open>
  Return to a bytecode caller: the eight words below the callee frame hold, from the top,
  the number of values the caller wants, and the saved \<open>ip\<close>, \<open>bsp\<close>, \<open>name_data\<close>,
  \<open>data\<close>, \<open>code\<close>, \<open>unwind_data\<close> and the address of the first argument on the
  caller stack. The called object, one below the first argument, is destroyed.
\<close>

definition ret_to_caller :: "vm \<Rightarrow> int \<Rightarrow> bool \<Rightarrow> outcome" where
  "ret_to_caller s n_returns_callee is_varargout =
     (let caller_stack_end = sp s - nat n_returns_callee in
      if caller_stack_end < 8 \<or> length (stack s) < caller_stack_end then Fault
      else
        (case (stack s ! (caller_stack_end - 1), stack s ! (caller_stack_end - 2),
               stack s ! (caller_stack_end - 3), stack s ! (caller_stack_end - 4),
               stack s ! (caller_stack_end - 5), stack s ! (caller_stack_end - 6),
               stack s ! (caller_stack_end - 7), stack s ! (caller_stack_end - 8)) of
           (I caller_nval_back, PUC ip', PSE bsp', PTR name_data', PTR data', PUC code',
            PTR unwind_data', PSE sp') \<Rightarrow>
             let s1 = STACK_DESTROY 1
                        (s\<lparr>ip := ip', bsp := bsp', name_data := name_data', data := data',
                            code := code', unwind_data := unwind_data', sp := sp'\<rparr>);
                 n_args_caller_expects = caller_nval_back;
                 n_args_callee_has = n_returns_callee - 1
             in
             if is_varargout then
               (case ret_expand_varargout s1 caller_stack_end n_args_caller_expects
                       n_args_callee_has of
                  Inl out \<Rightarrow> out
                | Inr (s2, n_args_callee_has') \<Rightarrow>
                    ret_move_returns s2 caller_stack_end n_args_caller_expects n_args_callee_has')
             else ret_move_returns s1 caller_stack_end n_args_caller_expects n_args_callee_has
         | _ \<Rightarrow> Fault))"

text \<open>
  \<open>RET\<close>. The two \<open>assert\<close>s are faults of the model; a negative \<open>n_dtor\<close> would make
  the destroy loop run off the stack. The ignore-data, profiler and dynamic stack frame
  bookkeeping of the tree walker is not part of the state.
\<close>

definition ret :: "int \<Rightarrow> vm \<Rightarrow> outcome" where
  "ret root_nargout s0 =
     (if bsp s0 + N_LOCALS s0 \<noteq> sp s0 then Fault
      else
        let is_varargout = (N_RETURNS s0 < 0);
            n_returns_callee = (if is_varargout then - N_RETURNS s0 else N_RETURNS s0);
            n_locals_callee = int (N_LOCALS s0);
            n_dtor = n_locals_callee - n_returns_callee
        in
        if n_returns_callee \<le> 0 \<or> n_dtor < 0 then Fault
        else
          let s = STACK_DESTROY (nat n_dtor) s0 in
          if is_varargout \<and>
             (case stack s ! (sp s - 1) of
                OV ov_vararg \<Rightarrow> is_defined ov_vararg \<and> \<not> iscell ov_vararg
              | _ \<Rightarrow> False)
          then
            Unwind (push (ErrTag EXECUTION_EXC)
              (push (PEE ''error'' [] ''varargout must be a cell array object'') s))
          else if bsp s = rsp s then ret_root root_nargout s n_returns_callee is_varargout
          else ret_to_caller s n_returns_callee is_varargout)"

section \<open>Observations and example states\<close>

text \<open>The error tag on top of the stack when a handler jumps to \<open>unwind\<close>.\<close>

fun unwind_tag :: "outcome \<Rightarrow> error_type option" where
  "unwind_tag (Unwind s) = (case stack s ! (sp s - 1) of ErrTag t \<Rightarrow> Some t | _ \<Rightarrow> None)"
| "unwind_tag _ = None"

text \<open>The value a slot receives: the storable transform is applied where the value asks for it.\<close>

definition storable :: "host \<Rightarrow> ov \<Rightarrow> ov" where
  "storable h v = (if vm_need_storable_call h v then make_storable_value h v else v)"

text \<open>A host without lazy values, and an empty machine to build example states from.\<close>

definition host_id :: host where
  "host_id = \<lparr>vm_need_storable_call = (\<lambda>_. False), make_storable_value = (\<lambda>v. v),
     vm_need_dispatch_assign_rhs = (\<lambda>v. is_cs_list v \<or> is_undefined v),
     vm_need_dispatch_assign_lhs = is_ref,
     is_true = (\<lambda>v. case v of
                  Scalar (Fin x) \<Rightarrow> Inr (x \<noteq> 0)
                | BoolV b \<Rightarrow> Inr b
                | _ \<Rightarrow> Inl (Execution_exception [] ''wrong type argument'')),
     vm_extract_forloop_double = (\<lambda>v i. Fin (1 + of_int i)),
     vm_extract_forloop_value = (\<lambda>v i. case v of
                  Matrix dv xs \<Rightarrow> Matrix [hd dv, 1] (take (hd dv) (drop (nat i * hd dv) xs))
                | _ \<Rightarrow> v),
     maybe_update_double = (\<lambda>v. case v of Scalar _ \<Rightarrow> True | _ \<Rightarrow> False),
     is_full_num_matrix = (\<lambda>v. case v of Matrix _ _ \<Rightarrow> True | _ \<Rightarrow> False),
     checked_full_matrix_elem = (\<lambda>v i. case v of
                  Matrix dv xs \<Rightarrow>
                    if 0 \<le> i \<and> nat i < length xs then Inr (Scalar (xs ! nat i))
                    else Inl (Index_exception ''Octave:index-out-of-bounds'' ''out of bound'')
                | _ \<Rightarrow> Inl (Execution_exception [] ''wrong type argument'')),
     invalid_index_exc = (\<lambda>d nd dim. (''Octave:bad-index'', ''subscripts must be integers'')),
     vm_dispatch_call = (\<lambda>v. case v of Undef \<Rightarrow> OCT_FN_LOOKUP | _ \<Rightarrow> OCT_SUBSREF),
     simple_subsref = (\<lambda>v idx nargout. Inl (Index_exception ''Octave:bad-index'' ''generic'')),
     simple_subsasgn = (\<lambda>v idx rhs. case (v, idx, rhs) of
                  (Matrix dv xs, [Scalar (Fin i)], Scalar x) \<Rightarrow>
                    if i = of_int \<lfloor>i\<rfloor> \<and> 1 \<le> i then
                      Inr (Matrix [1, max (length xs) (nat \<lfloor>i\<rfloor>)]
                             ((xs @ replicate (nat \<lfloor>i\<rfloor> - length xs) (Fin 0))
                                [nat \<lfloor>i\<rfloor> - 1 := x]))
                    else Inl (Index_exception ''Octave:bad-index'' ''subscripts must be integers'')
                | _ \<Rightarrow> Inl (Execution_exception [] ''not modelled'')),
     maybe_as_trivial_range = (\<lambda>v. case v of
                  Range EDouble (Fin b) (Fin l) n \<Rightarrow>
                    if b = 1 \<and> l = of_nat n then TrivialRange n else v
                | _ \<Rightarrow> v),
     storable_value = (\<lambda>v. case v of
                  TrivialRange n \<Rightarrow> Inr (Range EDouble (Fin 1) (Fin (of_nat n)) n)
                | _ \<Rightarrow> Inr v)\<rparr>"

definition vm0 :: vm where
  "vm0 = \<lparr>code_mem = [], code = 0, ip = 0, arg0 = 0, stack = [], sp = 0, bsp = 0, rsp = 0,
     name_mem = [], name_data = 0, data = 0, unwind_data = 0, refs = (\<lambda>_. Undef),
     ignored_var = Undef, n_octave_quit = 0, pending_signal = None, n_warnings = 0\<rparr>"

text \<open>
  A frame with \<open>%nargout\<close> in slot 0 and a variable in slot 1; the rhs of \<open>ASSIGN 1\<close>
  on top is a cs-list of three values, respectively a cs-list whose first element is
  undefined.
\<close>

definition c10_state :: vm where
  "c10_state = vm0\<lparr>arg0 := 1,
     stack := [I 1, OV (Scalar (Fin 5)),
               OV (CsList [Scalar (Fin 1), Scalar (Fin 2), Scalar (Fin 3)]), Free],
     sp := 3\<rparr>"

definition c10_cex_state :: vm where
  "c10_cex_state = vm0\<lparr>arg0 := 1,
     stack := [I 1, OV (Scalar (Fin 5)), OV (CsList [Undef, Scalar (Fin 2)]), Free],
     sp := 3\<rparr>"

text \<open>
  What the claims about the scalar specializations speak of: a double that is an integer
  index into \<open>1 .. n\<close>; the operands of the two opcodes on the stack; and the generic
  assignment through the host's \<open>simple_subsasgn\<close>, as \<open>subassign_id\<close> performs it
  when it does not specialize.
\<close>

definition valid_index :: "dbl \<Rightarrow> nat \<Rightarrow> bool" where
  "valid_index d n =
     (case d of
        Fin r \<Rightarrow> r = of_int \<lfloor>r\<rfloor> \<and> 1 \<le> \<lfloor>r\<rfloor> \<and> \<lfloor>r\<rfloor> \<le> int n
      | _ \<Rightarrow> False)"

definition generic_subsasgn :: "host \<Rightarrow> vm \<Rightarrow> ov \<Rightarrow> ov list \<Rightarrow> ov \<Rightarrow> outcome" where
  "generic_subsasgn h s mat args rhs =
     (case simple_subsasgn h mat args rhs of
        Inl e \<Rightarrow> catch5 e (s\<lparr>ip := ip s + 1\<rparr>)
      | Inr v \<Rightarrow>
          Next (STACK_DESTROY (length args + 1)
                  (set_direct (bsp s + arg0 s) v (s\<lparr>ip := ip s + 1\<rparr>))))"

definition operands_1d :: "vm \<Rightarrow> ov \<Rightarrow> ov \<Rightarrow> ov \<Rightarrow> bool" where
  "operands_1d s rhs arg mat_ov =
     (2 \<le> sp s \<and> sp s \<le> length (stack s) \<and> bsp s + arg0 s < sp s - 2 \<and>
      stack s ! (sp s - 1) = OV rhs \<and> stack s ! (sp s - 2) = OV arg \<and>
      stack s ! (bsp s + arg0 s) = OV mat_ov)"

definition operands_2d :: "vm \<Rightarrow> ov \<Rightarrow> ov \<Rightarrow> ov \<Rightarrow> ov \<Rightarrow> bool" where
  "operands_2d s rhs arg1 arg2 mat_ov =
     (3 \<le> sp s \<and> sp s \<le> length (stack s) \<and> bsp s + arg0 s < sp s - 3 \<and>
      stack s ! (sp s - 1) = OV rhs \<and> stack s ! (sp s - 2) = OV arg2 \<and>
      stack s ! (sp s - 3) = OV arg1 \<and> stack s ! (bsp s + arg0 s) = OV mat_ov)"

fun is_Goto :: "outcome \<Rightarrow> bool" where
  "is_Goto (Goto _ _) = True"
| "is_Goto _ = False"

text \<open>
  A struct for-loop at its first step: \<open>FOR_COMPLEX_COND\<close> with key slot 1 and value
  slot 2. Slot 1 holds the wrapper of global variable 0, whose value is 42; slot 2 is an
  ordinary local. The struct has the one field \<open>a = 1\<close>.
\<close>

definition c9_state :: vm where
  "c9_state = vm0\<lparr>code_mem := [1, 0, 3, 0, 100, 20, 0, 1, 0, 2, 0], ip := 6, arg0 := 20,
     stack := [I 1, OV (Ref 0), OV Undef,
               OV (Struct 1 1 [(''a'', [Scalar (Fin 1)])]), I 1, I (- 1), Free, Free],
     sp := 6,
     refs := (\<lambda>_. Undef)(0 := Scalar (Fin 42))\<rparr>"

text \<open>\<open>JMP_IF 12\<close> on a true condition while an interrupt is pending.\<close>

definition c7_state :: vm where
  "c7_state = vm0\<lparr>code_mem := [1, 0, 2, 0, 9, 12, 0], ip := 6, arg0 := 12,
     stack := [I 1, OV Undef, OV (Scalar (Fin 1)), Free, Free], sp := 3,
     pending_signal := Some Interrupt_exception\<rparr>"

text \<open>
  \<open>M = [1 2; 3 4]\<close> in slot 1 and the operands of \<open>M(2) = 9\<close>, of
  \<open>M(2,1) = 9\<close> and of \<open>M(7) = 9\<close>.
\<close>

definition c5_state :: vm where
  "c5_state = vm0\<lparr>code_mem := [1, 0, 2, 0, 123, 1, 1], ip := 6, arg0 := 1,
     stack := [I 0, OV (Matrix [2, 2] [Fin 1, Fin 3, Fin 2, Fin 4]),
               OV (Scalar (Fin 2)), OV (Scalar (Fin 9)), Free, Free],
     sp := 4\<rparr>"

definition c5_state_2d :: vm where
  "c5_state_2d = vm0\<lparr>code_mem := [1, 0, 2, 0, 139, 1, 2], ip := 6, arg0 := 1,
     stack := [I 0, OV (Matrix [2, 2] [Fin 1, Fin 3, Fin 2, Fin 4]),
               OV (Scalar (Fin 2)), OV (Scalar (Fin 1)), OV (Scalar (Fin 9)), Free],
     sp := 5\<rparr>"

definition c5_cex_state :: vm where
  "c5_cex_state = vm0\<lparr>code_mem := [1, 0, 2, 0, 123, 1, 1], ip := 6, arg0 := 1,
     stack := [I 0, OV (Matrix [2, 2] [Fin 1, Fin 3, Fin 2, Fin 4]),
               OV (Scalar (Fin 7)), OV (Scalar (Fin 9)), Free, Free],
     sp := 4\<rparr>"

text \<open>
  The operands of \<open>INDEX_ID1_MAT_1D\<close>: the indexed value below the index on top of
  the stack, with room for the two elements an error pushes.
\<close>

definition non_integer :: "real \<Rightarrow> bool" where
  "non_integer r = (r \<noteq> of_int \<lfloor>r\<rfloor>)"

definition operands_index_1d :: "vm \<Rightarrow> ov \<Rightarrow> ov \<Rightarrow> bool" where
  "operands_index_1d s mat arg1 =
     (2 \<le> sp s \<and> sp s + 1 < length (stack s) \<and>
      stack s ! (sp s - 1) = OV arg1 \<and> stack s ! (sp s - 2) = OV mat)"

text \<open>
  \<open>M(1.5)\<close> for \<open>M = [1 2; 3 4]\<close>, at opcode \<open>INDEX_ID1_MAT_1D\<close>.
\<close>

definition c6_state :: vm where
  "c6_state = vm0\<lparr>code_mem := [1, 0, 2, 0, 119, 1, 1], ip := 6, arg0 := 1,
     stack := [I 1, OV (Matrix [2, 2] [Fin 1, Fin 3, Fin 2, Fin 4]),
               OV (Matrix [2, 2] [Fin 1, Fin 3, Fin 2, Fin 4]), OV (Scalar (Fin (3 / 2))),
               Free, Free, Free],
     sp := 4\<rparr>"

text \<open>\<open>M(true)\<close> for the same \<open>M\<close>, at opcode \<open>INDEX_ID1_MAT_1D\<close>.\<close>

definition c6_bool_state :: vm where
  "c6_bool_state = vm0\<lparr>code_mem := [1, 0, 2, 0, 119, 1, 1], ip := 6, arg0 := 1,
     stack := [I 1, OV (Matrix [2, 2] [Fin 1, Fin 3, Fin 2, Fin 4]),
               OV (Matrix [2, 2] [Fin 1, Fin 3, Fin 2, Fin 4]), OV (BoolV True),
               Free, Free, Free],
     sp := 4\<rparr>"

text \<open>
  The macro \<open>DISPATCH ()\<close> without its check of the debug flag: the next opcode and
  the machine with \<open>arg0\<close> read and \<open>ip\<close> advanced.
\<close>

definition DISPATCH :: "vm \<Rightarrow> nat \<times> vm" where
  "DISPATCH s = (code_mem s ! ip s, s\<lparr>arg0 := code_mem s ! (ip s + 1), ip := ip s + 2\<rparr>)"

text \<open>Continue after a handler that ended in \<open>DISPATCH ()\<close>.\<close>

definition next_then :: "outcome \<Rightarrow> (vm \<Rightarrow> outcome) \<Rightarrow> outcome" where
  "next_then r k = (case r of Next s \<Rightarrow> k s | _ \<Rightarrow> r)"

text \<open>
  Modelled from the spec: the code for a cell literal of one row and two elements (the
  compiler is not among the sources). After \<open>PUSH_CELL 1 2\<close> each element is
  evaluated and followed by an \<open>APPEND_CELL\<close>, the last of the row with \<open>last = 3\<close>.
  The machine is at \<open>PUSH_CELL\<close>; the evaluation of an element is the push of its
  value (\<open>a{:}\<close> for an empty cell \<open>a\<close> is an empty cs-list).
\<close>

definition cell_row_of_two :: "ov \<Rightarrow> ov \<Rightarrow> vm \<Rightarrow> outcome" where
  "cell_row_of_two e1 e2 s =
     next_then (push_cell s) (\<lambda>s1.
       case DISPATCH (push (OV e1) s1) of (op1, s2) \<Rightarrow>
         if op1 \<noteq> INSTR_APPEND_CELL then Fault
         else next_then (append_cell s2) (\<lambda>s3.
           case DISPATCH (push (OV e2) s3) of (op2, s4) \<Rightarrow>
             if op2 \<noteq> INSTR_APPEND_CELL then Fault else append_cell s4))"

text \<open>The machine at \<open>PUSH_CELL 1 2\<close>, followed by \<open>APPEND_CELL 0\<close> and \<open>APPEND_CELL 3\<close>.\<close>

definition c8_state :: vm where
  "c8_state = vm0\<lparr>code_mem := [1, 0, 3, 0, 65, 1, 2, 178, 0, 178, 3], ip := 6, arg0 := 1,
     stack := [I 0, OV (Cell 0 0 []), OV Undef, Free, Free, Free, Free, Free], sp := 3\<rparr>"

text \<open>
  The iteration count in the words of the specification, and the iterables
  \<open>for_setup\<close> accepts (an undefined one gives no iteration).
\<close>

definition iteration_count :: "ov \<Rightarrow> int" where
  "iteration_count v =
     (if is_scalar_type v \<or> is_range v then int (numel v)
      else if dv_rows (redim2 (dims v)) \<noteq> 0 then int (dv_cols (redim2 (dims v)))
      else 0)"

definition supported_iterable :: "ov \<Rightarrow> bool" where
  "supported_iterable v =
     (is_scalar_type v \<or> is_range v \<or> is_matrix_type v \<or> iscell v \<or> is_string v \<or>
      isstruct v \<or> is_undefined v)"

text \<open>The row count of the two-dimensional view is below \<open>2^31\<close>, so that it is an \<open>int\<close>.\<close>

definition rows_fit_int :: "ov \<Rightarrow> bool" where
  "rows_fit_int v = (dv_rows (redim2 (dims v)) < 2 ^ 31)"

text \<open>The iterable after \<open>for_setup\<close>: a range of a numeric class is made trivial where possible.\<close>

definition canonical_iterable :: "host \<Rightarrow> ov \<Rightarrow> ov" where
  "canonical_iterable h v =
     (if is_range v \<and> range_class v \<noteq> EOther then maybe_as_trivial_range h v else v)"

text \<open>The slot operand of the \<open>FOR_COND\<close> that follows \<open>FOR_SETUP\<close>.\<close>

definition induction_slot :: "vm \<Rightarrow> nat" where
  "induction_slot s =
     (if arg0 s = INSTR_WIDE then USHORT_FROM_UCHARS (code_mem s ! (ip s + 1)) (code_mem s ! (ip s + 2))
      else code_mem s ! ip s)"

text \<open>
  \<open>FOR_SETUP\<close> followed by \<open>FOR_COND 1 20\<close>, the iterable a 0x3 cell, the loop
  variable in slot 1.
\<close>

definition c3_state :: vm where
  "c3_state = vm0\<lparr>code_mem := [1, 0, 2, 0, 38, 39, 1, 20, 0], ip := 6, arg0 := 39,
     stack := [I 0, OV (Scalar (Fin 5)),
               OV (Cell 0 3 []), Free, Free, Free],
     sp := 3\<rparr>"

text \<open>
  The same loop over a struct array of \<open>2^32\<close> rows, one column and no field (such an
  array holds no data).
\<close>

definition c3_rows_state :: vm where
  "c3_rows_state = vm0\<lparr>code_mem := [1, 0, 2, 0, 38, 39, 1, 20, 0], ip := 6, arg0 := 39,
     stack := [I 0, OV (Scalar (Fin 5)),
               OV (Struct 4294967296 1 []), Free, Free, Free],
     sp := 3\<rparr>"

text \<open>
  Undefined values in \<open>ASSIGNN\<close>: the number of return slots of the frame, the names
  of black holes, and the test the handler makes before it accepts an undefined value for
  a slot.
\<close>

definition n_returns_abs :: "vm \<Rightarrow> int" where
  "n_returns_abs s =
     (if N_RETURNS s = - 128 then 1 else if N_RETURNS s < 0 then - N_RETURNS s else N_RETURNS s)"

definition black_hole_name :: "string \<Rightarrow> bool" where
  "black_hole_name name = (take 2 name = ''%~'')"

definition accepts_undefined :: "vm \<Rightarrow> nat \<Rightarrow> real list \<Rightarrow> bool" where
  "accepts_undefined s slot ignored =
     (if is_defined (ignored_var s) \<and> int slot < n_returns_abs s
      then of_int (n_returns_abs s - 1 - int slot) \<in> set ignored
      else black_hole_name (name_mem s ! (name_data s + slot)))"

text \<open>
  The same in the words of the specification: an undefined value for a slot is accepted
  if the slot's name begins with \<open>%~\<close> or its output index appears in IGNORED. The
  declared returns follow \<open>%nargout\<close> in the frame, so the output index of a return
  slot is its number, and IGNORED holds the numbers of the ignored outputs counted from 1
  (\<open>SET_IGNORE_OUTPUTS\<close> marks output \<open>i\<close> when \<open>i + 1\<close> is in the set).
\<close>

definition ignored_outputs :: "vm \<Rightarrow> dbl list" where
  "ignored_outputs s = (case ignored_var s of Matrix _ xs \<Rightarrow> xs | _ \<Rightarrow> [])"

definition output_index_ignored :: "vm \<Rightarrow> nat \<Rightarrow> bool" where
  "output_index_ignored s slot =
     (0 < slot \<and> int slot < n_returns_abs s \<and> Fin (of_nat slot) \<in> set (ignored_outputs s))"

definition undefined_accepted :: "vm \<Rightarrow> nat \<Rightarrow> bool" where
  "undefined_accepted s slot =
     (black_hole_name (name_mem s ! (name_data s + slot)) \<or> output_index_ignored s slot)"

text \<open>
  \<open>[a, ~] = f ()\<close>: \<open>ASSIGNN 2\<close> into slot 2 (\<open>a\<close>) and slot 3 (\<open>%~1\<close>), the
  value for \<open>a\<close> on top and an undefined value below it.
\<close>

definition c4_state :: vm where
  "c4_state = vm0\<lparr>code_mem := [2, 0, 4, 0, 52, 2, 2, 0, 3, 0], ip := 6, arg0 := 2,
     stack := [I 1, OV Undef, OV Undef, OV Undef, OV Undef, OV (Scalar (Fin 7)), Free, Free],
     sp := 6,
     name_mem := [''%nargout'', ''r'', ''a'', ''%~1'']\<rparr>"

text \<open>
  \<open>[a, b] = h ()\<close> in the body of \<open>function [a, b] = g ()\<close>, called as
  \<open>[x, ~] = g ()\<close>, so that IGNORED is \<open>[2]\<close> in the frame of \<open>g\<close>: \<open>ASSIGNN 2\<close>
  into the return slots 1 (\<open>a\<close>) and 2 (\<open>b\<close>), where \<open>h\<close> has left its second
  output undefined.
\<close>

definition c4_ignored_state :: vm where
  "c4_ignored_state = vm0\<lparr>code_mem := [3, 0, 3, 0, 52, 2, 1, 0, 2, 0], ip := 6, arg0 := 2,
     stack := [I 2, OV Undef, OV Undef, OV Undef, OV (Scalar (Fin 7)), Free, Free],
     sp := 5,
     name_mem := [''%nargout'', ''a'', ''b''],
     ignored_var := Matrix [1, 1] [Fin 2]\<rparr>"

text \<open>
  The return values of the callee frame at \<open>RET\<close>: the return slots after \<open>%nargout\<close>,
  with the cell of a \<open>varargout\<close> callee (a negative \<open>N_RETURNS\<close>) expanded.
\<close>

definition callee_values :: "vm \<Rightarrow> stack_element list" where
  "callee_values s =
     (if 0 < N_RETURNS s then map (\<lambda>j. stack s ! (bsp s + j)) [1 ..< nat (N_RETURNS s)]
      else map (\<lambda>j. stack s ! (bsp s + j)) [1 ..< nat (- N_RETURNS s) - 1]
           @ (case stack s ! (bsp s + nat (- N_RETURNS s) - 1) of
                OV v \<Rightarrow> map OV (cell_elems v)
              | _ \<Rightarrow> []))"

text \<open>
  What a caller that asked for no value gets to bind \<open>ans\<close>: the first return value, or
  a nil value when there is none.
\<close>

definition ans_value :: "vm \<Rightarrow> stack_element" where
  "ans_value s = (case callee_values s of [] \<Rightarrow> OV Undef | v # _ \<Rightarrow> v)"

text \<open>
  A callee frame at index 10 with one return slot and one local, called with zero
  requested values from a caller whose called object is at index 1.
\<close>

definition c2_state :: vm where
  "c2_state = vm0\<lparr>code_mem := [2, 0, 3, 0, 7], code := 0, ip := 5,
     stack := [I 1, OV (Opaque 1), PSE 2, PTR 0, PUC 40, PTR 0, PTR 0, PSE 0, PUC 47, I 0,
               I 0, OV (Scalar (Fin 5)), OV (Scalar (Fin 9)), Free],
     sp := 13, bsp := 10, rsp := 0\<rparr>"

text \<open>
  The same call with a callee that only has \<open>varargout\<close>, holding a cell of two values.
\<close>

definition c2_state_varargout :: vm where
  "c2_state_varargout = vm0\<lparr>code_mem := [254, 0, 2, 0, 7], code := 0, ip := 5,
     stack := [I 1, OV (Opaque 1), PSE 2, PTR 0, PUC 40, PTR 0, PTR 0, PSE 0, PUC 47, I 0,
               I 0, OV (Cell 1 2 [Scalar (Fin 3), Scalar (Fin 4)]), Free, Free],
     sp := 12, bsp := 10, rsp := 0\<rparr>"

text \<open>
  The machine an outcome leaves behind, if any.
\<close>

fun state_of :: "outcome \<Rightarrow> vm option" where
  "state_of (Next s) = Some s"
| "state_of (Next1 s) = Some s"
| "state_of (Unwind s) = Some s"
| "state_of (Goto l s) = Some s"
| "state_of (Return vs s) = Some s"
| "state_of (Host_error m) = None"
| "state_of Fault = None"

text \<open>
  A binary operator at work: the operands \<open>a\<close> and \<open>b\<close> are the two topmost
  values, and the opcode byte dispatched last is the generic or the specialized opcode
  of \<open>op\<close>. \<open>cached_opcode\<close> is the opcode that the operand types select, and
  \<open>binop_result\<close> what the typed dispatch of the host yields for the operands: its
  value replaces them, or its exception unwinds.
\<close>

definition both_scalar :: "ov \<Rightarrow> ov \<Rightarrow> bool" where
  "both_scalar a b = (type_id a = m_scalar_typeid \<and> type_id b = m_scalar_typeid)"

definition cached_opcode :: "binop \<Rightarrow> ov \<Rightarrow> ov \<Rightarrow> nat" where
  "cached_opcode op a b = (if both_scalar a b then INSTR_dbl op else INSTR_generic op)"

definition binop_result :: "type_info \<Rightarrow> binop \<Rightarrow> ov \<Rightarrow> ov \<Rightarrow> vm \<Rightarrow> outcome" where
  "binop_result ti op a b s =
     (case binary_op ti (generic_op op) a b of
        Inl e \<Rightarrow> catch5 e s
      | Inr ans \<Rightarrow> Next1 (push (OV ans) (STACK_DESTROY 2 s)))"

definition binop_operands :: "vm \<Rightarrow> binop \<Rightarrow> ov \<Rightarrow> ov \<Rightarrow> bool" where
  "binop_operands s op a b =
     (2 \<le> sp s \<and> sp s \<le> length (stack s)
      \<and> stack s ! (sp s - 2) = OV a \<and> stack s ! (sp s - 1) = OV b
      \<and> 2 \<le> ip s \<and> ip s - 2 < length (code_mem s)
      \<and> (code_mem s ! (ip s - 2) = INSTR_generic op \<or> code_mem s ! (ip s - 2) = INSTR_dbl op))"

text \<open>
  A table of typed operators that only holds the addition of two scalar doubles, and
  adds a bool to a double by conversion; \<open>6 + 1\<close> at a generic \<open>ADD\<close> and
  \<open>6 + true\<close> at an \<open>ADD_DBL\<close>.
\<close>

fun dbl_add :: "dbl \<Rightarrow> dbl \<Rightarrow> dbl" where
  "dbl_add (Fin x) (Fin y) = Fin (x + y)"
| "dbl_add NaN _ = NaN"
| "dbl_add _ NaN = NaN"
| "dbl_add PInf NInf = NaN"
| "dbl_add NInf PInf = NaN"
| "dbl_add PInf _ = PInf"
| "dbl_add _ PInf = PInf"
| "dbl_add NInf _ = NInf"
| "dbl_add _ NInf = NInf"

fun scalar_add :: "ov \<Rightarrow> ov \<Rightarrow> host_exc + ov" where
  "scalar_add (Scalar x) (Scalar y) = Inr (Scalar (dbl_add x y))"
| "scalar_add (Scalar x) (BoolV y) = Inr (Scalar (dbl_add x (Fin (if y then 1 else 0))))"
| "scalar_add _ _ = Inl (Execution_exception [] ''binary operator not implemented'')"

definition ti_add :: type_info where
  "ti_add = \<lparr>lookup_binary_op = (\<lambda>op t1 t2.
                if op = op_add \<and> t1 = T_scalar \<and> t2 = T_scalar then Some scalar_add else None),
              binary_op_by_conversion = (\<lambda>op a b.
                if op = op_add then scalar_add a b
                else Inl (Execution_exception [] ''binary operator not implemented''))\<rparr>"

definition c1_state :: vm where
  "c1_state = vm0\<lparr>code_mem := [1, 0, 3, 0, 5, 7], ip := 6, arg0 := 7,
     stack := [I 1, OV Undef, OV Undef, OV (Scalar (Fin 6)), OV (Scalar (Fin 1)), Free],
     sp := 5\<rparr>"

definition c1_state_bool :: vm where
  "c1_state_bool = vm0\<lparr>code_mem := [1, 0, 3, 0, 109, 7], ip := 6, arg0 := 7,
     stack := [I 1, OV Undef, OV Undef, OV (Scalar (Fin 6)), OV (BoolV True), Free],
     sp := 5\<rparr>"

text \<open>
  The number of calls of the host signal check that a handler started in \<open>s\<close> has
  made when it ends with \<open>out\<close>; a fault or an uncaught host error leaves no machine to
  read it from.
\<close>

definition signal_checks :: "vm \<Rightarrow> outcome \<Rightarrow> int option" where
  "signal_checks s out =
     (case state_of out of
        None \<Rightarrow> None
      | Some s' \<Rightarrow> Some (int (n_octave_quit s') - int (n_octave_quit s)))"

text \<open>
  The handler made no call of the signal check. The calls counted are those of the
  handler's own code: the functions of the value system that a handler calls are
  parameters of this development.
\<close>

definition no_signal_check :: "vm \<Rightarrow> outcome \<Rightarrow> bool" where
  "no_signal_check s out = (signal_checks s out \<in> {Some 0, None})"

text \<open>
  What the handlers read from the stack without a check: the condition of a conditional
  jump is a value on top of the stack; at \<open>FOR_COND\<close> the counter and the number of
  iterations are the two topmost elements, and unless the loop is at its end the iterable
  below them and the induction slot hold values.
\<close>

fun is_value :: "stack_element \<Rightarrow> bool" where
  "is_value (OV _) = True"
| "is_value _ = False"

fun int_of :: "stack_element \<Rightarrow> int option" where
  "int_of (I i) = Some i"
| "int_of _ = None"

definition condition_on_top :: "vm \<Rightarrow> bool" where
  "condition_on_top s = (sp s - 1 < length (stack s) \<and> is_value (stack s ! (sp s - 1)))"

definition for_cond_operands :: "vm \<Rightarrow> bool" where
  "for_cond_operands s =
     (sp s - 1 < length (stack s) \<and>
      (case int_of (stack s ! (sp s - 1)) of
         None \<Rightarrow> False
       | Some i \<Rightarrow>
           (case int_of (stack s ! (sp s - 2)) of
              None \<Rightarrow> False
            | Some n \<Rightarrow>
                i + 1 = n \<or>
                (3 \<le> sp s \<and> bsp s + arg0 s < sp s - 2 \<and>
                 is_value (stack s ! (sp s - 3)) \<and> is_value (stack s ! (bsp s + arg0 s))))))"

text \<open>
  \<open>FOR_COND 1 20\<close> at the first step of a loop over \<open>1:3\<close>, the loop variable in
  slot 1.
\<close>

definition c7_loop_state :: vm where
  "c7_loop_state = vm0\<lparr>code_mem := [1, 0, 2, 0, 39, 1, 20, 0], ip := 6, arg0 := 1,
     stack := [I 1, OV Undef, OV (TrivialRange 3), I 3, I (- 1), Free, Free],
     sp := 5\<rparr>"

section \<open>Properties\<close>

subsection \<open>Auxiliary lemmas\<close>

lemma trunc_real_of_int [simp]: "trunc_real (of_int i) = i"
  by (simp add: trunc_real_def)

lemma trunc_real_of_int_sub1 [simp]: "trunc_real (of_int i - 1) = i - 1"
  using trunc_real_of_int [of "i - 1"] by simp

lemma trunc_real_bounds:
  assumes "\<bar>r\<bar> \<le> 2 ^ 62"
  shows "- (2 ^ 63) \<le> trunc_real (r - 1) \<and> trunc_real (r - 1) < 2 ^ 63"
proof -
  have a: "- (2 ^ 62) - 1 \<le> r - 1" "r - 1 \<le> 2 ^ 62" using assms by (simp_all add: abs_le_iff)
  have f: "\<lfloor>r - 1\<rfloor> \<le> 2 ^ 62" using a(2) by (simp add: floor_le_iff)
  have f2: "- (2 ^ 62) - 1 \<le> \<lfloor>r - 1\<rfloor>" using a(1) by (simp add: le_floor_iff)
  have c: "\<lceil>r - 1\<rceil> \<le> 2 ^ 62" using a(2) by (simp add: ceiling_le_iff)
  have c2: "- (2 ^ 62) - 1 \<le> \<lceil>r - 1\<rceil>" using a(1) by (simp add: le_ceiling_iff)
  show ?thesis using f f2 c c2 by (auto simp: trunc_real_def)
qed

lemma to_idx_sub1:
  "\<bar>r\<bar> \<le> 2 ^ 62 \<Longrightarrow> to_idx (dbl_sub1 (Fin r)) = Some (trunc_real (r - 1))"
  using trunc_real_bounds [of r] by simp

lemma STACK_DESTROY_sp [simp]: "sp (STACK_DESTROY n s) = sp s - n"
  by (induction n arbitrary: s) simp_all

lemma STACK_DESTROY_code_mem [simp]: "code_mem (STACK_DESTROY n s) = code_mem s"
  by (induction n arbitrary: s) simp_all

lemma STACK_DESTROY_refs [simp]: "refs (STACK_DESTROY n s) = refs s"
  by (induction n arbitrary: s) simp_all

lemma STACK_DESTROY_ip [simp]: "ip (STACK_DESTROY n s) = ip s"
  by (induction n arbitrary: s) simp_all

lemma STACK_DESTROY_n_octave_quit [simp]:
  "n_octave_quit (STACK_DESTROY n s) = n_octave_quit s"
  by (induction n arbitrary: s) simp_all

lemma STACK_DESTROY_stack_below:
  "i < sp s - n \<Longrightarrow> stack (STACK_DESTROY n s) ! i = stack s ! i"
  by (induction n arbitrary: s) simp_all

lemma sub1_check:
  assumes "\<bar>r\<bar> \<le> 2 ^ 62"
  shows "(int n \<le> trunc_real (r - 1) \<or> trunc_real (r - 1) < 0
           \<or> \<not> idx_eq_dbl (trunc_real (r - 1)) (dbl_sub1 (Fin r)))
         = (\<not> valid_index (Fin r) n)"
proof (cases "of_int (trunc_real (r - 1)) = r - 1")
  case True
  then have r: "r = of_int (trunc_real (r - 1) + 1)" by simp
  then have "\<lfloor>r\<rfloor> = trunc_real (r - 1) + 1" by (metis floor_of_int)
  with r True show ?thesis by (auto simp: valid_index_def)
next
  case False
  have "r \<noteq> of_int \<lfloor>r\<rfloor>"
  proof
    assume "r = of_int \<lfloor>r\<rfloor>"
    then have "r - 1 = of_int (\<lfloor>r\<rfloor> - 1)" by simp
    then have "of_int (trunc_real (r - 1)) = r - 1"
      by (metis trunc_real_of_int)
    with False show False by simp
  qed
  with False show ?thesis by (simp add: valid_index_def)
qed

lemma take1_drop: "k < length xs \<Longrightarrow> take 1 (drop k xs) = [xs ! k]"
  by (simp add: take_Suc_conv_app_nth)

lemma take2_drop: "Suc k < length xs \<Longrightarrow> take 2 (drop k xs) = [xs ! k, xs ! Suc k]"
  by (simp add: numeral_2_eq_2 take_Suc_conv_app_nth)

lemma subassign_id_after_1d:
  assumes "2 \<le> sp s" "sp s \<le> length (stack s)" "bsp s + arg0 s < sp s - 2"
    and "stack s ! (sp s - 1) = OV (Scalar val)"
    and "stack s ! (sp s - 2) = OV (Scalar d)"
    and "stack s ! (bsp s + arg0 s) = OV (Matrix dv xs)"
    and "6 \<le> ip s" "code_mem s ! ip s = 1"
    and "code_mem s ! opcode_pos s (arg0 s) = INSTR_SUBASSIGN_ID_MAT_1D"
  shows "subassign_id h s = generic_subsasgn h s (Matrix dv xs) [Scalar d] (Scalar val)"
proof -
  have r: "sp s - 1 < length (stack s)" "sp s - 2 < length (stack s)"
    "bsp s + arg0 s < length (stack s)"
    using assms(1-3) by simp_all
  have p: "opcode_pos (s\<lparr>ip := ip s + 1\<rparr>) (arg0 s) - 1 = opcode_pos s (arg0 s)"
    using assms(7) by (simp add: opcode_pos_def)
  have a: "take 1 (drop (sp s - 1 - 1) (stack s)) = [OV (Scalar d)]"
    using take1_drop [of "sp s - 2" "stack s"] r(2) assms(5) by (simp add: numeral_2_eq_2)
  have u: "(stack s)[sp s - 1 := OV (Scalar val)] = stack s"
    using r(1) assms(4) by (simp add: list_update_same_conv)
  show ?thesis using assms(1,2,4,6,8,9) r p a u
    by (simp add: subassign_id_def generic_subsasgn_def with_ov_def Let_def m_scalar_typeid_def
        m_matrix_typeid_def set_direct_def split: sum.splits)
qed

lemma trunc_sub1_valid:
  "valid_index (Fin r) n \<Longrightarrow> trunc_real (r - 1) = \<lfloor>r\<rfloor> - 1"
proof -
  assume "valid_index (Fin r) n"
  then have "r = of_int \<lfloor>r\<rfloor>" by (simp add: valid_index_def)
  then have "trunc_real (r - 1) = trunc_real (of_int \<lfloor>r\<rfloor> - 1)" by simp
  then show ?thesis by (simp only: trunc_real_of_int_sub1)
qed

lemma subassign_1d_scalar:
  assumes "operands_1d s (Scalar val) (Scalar (Fin r)) (Matrix dv xs)" "\<bar>r\<bar> \<le> 2 ^ 62"
  shows "subassign_id_mat_1d s =
           (if valid_index (Fin r) (length xs) then
              Next (STACK_DESTROY 2
                (set_direct (bsp s + arg0 s) (Matrix dv (xs[nat (\<lfloor>r\<rfloor> - 1) := val]))
                   (s\<lparr>ip := ip s + 1\<rparr>)))
            else Goto L_subassign_id s)"
proof -
  have r: "sp s - 1 < length (stack s)" "sp s - 2 < length (stack s)"
    "bsp s + arg0 s < length (stack s)"
    using assms(1) unfolding operands_1d_def by auto
  have v: "stack s ! (sp s - 1) = OV (Scalar val)" "stack s ! (sp s - 2) = OV (Scalar (Fin r))"
    "stack s ! (bsp s + arg0 s) = OV (Matrix dv xs)"
    using assms(1) unfolding operands_1d_def by auto
  have t: "to_idx (dbl_sub1 (Fin r)) = Some (trunc_real (r - 1))"
    using to_idx_sub1 [OF assms(2)] .
  note c = sub1_check [OF assms(2), of "length xs"]
  show ?thesis
  proof (cases "valid_index (Fin r) (length xs)")
    case True
    with c have "\<not> (int (length xs) \<le> trunc_real (r - 1) \<or> trunc_real (r - 1) < 0
           \<or> \<not> idx_eq_dbl (trunc_real (r - 1)) (dbl_sub1 (Fin r)))" by simp
    with True v r show ?thesis
      by (simp add: subassign_id_mat_1d_def with_ov_def Let_def m_scalar_typeid_def
        m_matrix_typeid_def t trunc_sub1_valid del: to_idx.simps dbl_sub1.simps idx_eq_dbl.simps)
  next
    case False
    with c have "int (length xs) \<le> trunc_real (r - 1) \<or> trunc_real (r - 1) < 0
           \<or> \<not> idx_eq_dbl (trunc_real (r - 1)) (dbl_sub1 (Fin r))" by simp
    with False v r show ?thesis
      by (simp add: subassign_id_mat_1d_def with_ov_def Let_def m_scalar_typeid_def
        m_matrix_typeid_def t del: to_idx.simps dbl_sub1.simps idx_eq_dbl.simps)
  qed
qed

lemma subassign_2d_scalar:
  assumes "operands_2d s (Scalar val) (Scalar (Fin r1)) (Scalar (Fin r2)) (Matrix dv xs)"
    "\<bar>r1\<bar> \<le> 2 ^ 62" "\<bar>r2\<bar> \<le> 2 ^ 62"
  shows "subassign_id_mat_2d s =
           (if valid_index (Fin r1) (dv_rows dv) \<and> valid_index (Fin r2) (dv_cols dv)
               \<and> length dv = 2 then
              Next (STACK_DESTROY 3
                (set_direct (bsp s + arg0 s)
                   (Matrix dv (xs[nat (\<lfloor>r1\<rfloor> - 1) + dv_rows dv * nat (\<lfloor>r2\<rfloor> - 1) := val]))
                   (s\<lparr>ip := ip s + 1\<rparr>)))
            else Goto L_subassign_id s)"
proof -
  have r: "sp s - 1 < length (stack s)" "sp s - 2 < length (stack s)"
    "sp s - 3 < length (stack s)" "bsp s + arg0 s < length (stack s)"
    using assms(1) unfolding operands_2d_def by auto
  have v: "stack s ! (sp s - 1) = OV (Scalar val)" "stack s ! (sp s - 2) = OV (Scalar (Fin r2))"
    "stack s ! (sp s - 3) = OV (Scalar (Fin r1))"
    "stack s ! (bsp s + arg0 s) = OV (Matrix dv xs)"
    using assms(1) unfolding operands_2d_def by auto
  have t: "to_idx (dbl_sub1 (Fin r1)) = Some (trunc_real (r1 - 1))"
    "to_idx (dbl_sub1 (Fin r2)) = Some (trunc_real (r2 - 1))"
    using to_idx_sub1 [OF assms(2)] to_idx_sub1 [OF assms(3)] by simp_all
  note c1 = sub1_check [OF assms(2), of "dv_rows dv"]
  note c2 = sub1_check [OF assms(3), of "dv_cols dv"]
  show ?thesis
  proof (cases "valid_index (Fin r1) (dv_rows dv)")
    case v1: True
    show ?thesis
    proof (cases "valid_index (Fin r2) (dv_cols dv)")
      case v2: True
      from v1 c1 have n1: "\<not> (int (dv_rows dv) \<le> trunc_real (r1 - 1) \<or> trunc_real (r1 - 1) < 0
           \<or> \<not> idx_eq_dbl (trunc_real (r1 - 1)) (dbl_sub1 (Fin r1)))" by simp
      from v2 c2 have n2: "\<not> (int (dv_cols dv) \<le> trunc_real (r2 - 1) \<or> trunc_real (r2 - 1) < 0
           \<or> \<not> idx_eq_dbl (trunc_real (r2 - 1)) (dbl_sub1 (Fin r2)))" by simp
      from v1 v2 n1 n2 v r show ?thesis
        by (simp add: subassign_id_mat_2d_def with_ov_def Let_def m_scalar_typeid_def
          m_matrix_typeid_def t trunc_sub1_valid
          del: to_idx.simps dbl_sub1.simps idx_eq_dbl.simps)
    next
      case v2: False
      from v1 c1 have n1: "\<not> (int (dv_rows dv) \<le> trunc_real (r1 - 1) \<or> trunc_real (r1 - 1) < 0
           \<or> \<not> idx_eq_dbl (trunc_real (r1 - 1)) (dbl_sub1 (Fin r1)))" by simp
      from v2 c2 have n2: "int (dv_cols dv) \<le> trunc_real (r2 - 1) \<or> trunc_real (r2 - 1) < 0
           \<or> \<not> idx_eq_dbl (trunc_real (r2 - 1)) (dbl_sub1 (Fin r2))" by simp
      from v1 v2 n1 n2 v r show ?thesis
        by (simp add: subassign_id_mat_2d_def with_ov_def Let_def m_scalar_typeid_def
          m_matrix_typeid_def t del: to_idx.simps dbl_sub1.simps idx_eq_dbl.simps)
    qed
  next
    case v1: False
    with c1 have n1: "int (dv_rows dv) \<le> trunc_real (r1 - 1) \<or> trunc_real (r1 - 1) < 0
           \<or> \<not> idx_eq_dbl (trunc_real (r1 - 1)) (dbl_sub1 (Fin r1))" by simp
    from v1 n1 v r show ?thesis
      by (simp add: subassign_id_mat_2d_def with_ov_def Let_def m_scalar_typeid_def
        m_matrix_typeid_def t del: to_idx.simps dbl_sub1.simps idx_eq_dbl.simps)
  qed
qed

lemma subassign_2d_type_mismatch:
  assumes "operands_2d s rhs arg1 arg2 mat_ov"
    and "type_id rhs \<noteq> T_scalar \<or> type_id mat_ov \<noteq> T_matrix \<or> type_id arg2 \<noteq> T_scalar
         \<or> type_id arg1 \<noteq> T_scalar"
  shows "subassign_id_mat_2d s =
           Goto L_subassign_id
             (s\<lparr>code_mem := (code_mem s)[opcode_pos s (arg0 s) := INSTR_SUBASSIGN_ID]\<rparr>)"
proof -
  have r: "sp s - 1 < length (stack s)" "sp s - 2 < length (stack s)"
    "sp s - 3 < length (stack s)" "bsp s + arg0 s < length (stack s)"
    using assms(1) unfolding operands_2d_def by auto
  have v: "stack s ! (sp s - 1) = OV rhs" "stack s ! (sp s - 2) = OV arg2"
    "stack s ! (sp s - 3) = OV arg1" "stack s ! (bsp s + arg0 s) = OV mat_ov"
    using assms(1) unfolding operands_2d_def by auto
  show ?thesis using assms(2) r v
    by (auto simp: subassign_id_mat_2d_def with_ov_def Let_def m_scalar_typeid_def
        m_matrix_typeid_def opcode_pos_def)
qed

lemma STACK_DESTROY_numeral:
  "STACK_DESTROY (numeral k) s =
     STACK_DESTROY (pred_numeral k) (s\<lparr>stack := (stack s)[sp s - 1 := Free], sp := sp s - 1\<rparr>)"
  by (simp add: numeral_eq_Suc)

lemma subassign_id_after_2d:
  assumes "operands_2d s (Scalar val) (Scalar d1) (Scalar d2) (Matrix dv xs)"
    and "6 \<le> ip s" "code_mem s ! ip s = 2"
    and "code_mem s ! opcode_pos s (arg0 s) = INSTR_SUBASSIGN_ID_MAT_2D"
  shows "subassign_id h s =
           generic_subsasgn h s (Matrix dv xs) [Scalar d1, Scalar d2] (Scalar val)"
proof -
  have r: "sp s - 1 < length (stack s)" "sp s - 2 < length (stack s)"
    "sp s - 3 < length (stack s)" "bsp s + arg0 s < length (stack s)" "3 \<le> sp s"
    "sp s \<le> length (stack s)"
    using assms(1) unfolding operands_2d_def by auto
  have v: "stack s ! (sp s - 1) = OV (Scalar val)" "stack s ! (sp s - 2) = OV (Scalar d2)"
    "stack s ! (sp s - 3) = OV (Scalar d1)"
    "stack s ! (bsp s + arg0 s) = OV (Matrix dv xs)"
    using assms(1) unfolding operands_2d_def by auto
  have p: "opcode_pos (s\<lparr>ip := ip s + 1\<rparr>) (arg0 s) - 1 = opcode_pos s (arg0 s)"
    using assms(2) by (simp add: opcode_pos_def)
  have e: "Suc (sp s - 3) = sp s - 2" using r(5) by simp
  have a: "take 2 (drop (sp s - 1 - 2) (stack s)) = [OV (Scalar d1), OV (Scalar d2)]"
    using take2_drop [of "sp s - 3" "stack s"] r(2) v(2,3) e by (simp add: numeral_3_eq_3)
  have u: "(stack s)[sp s - 1 := OV (Scalar val)] = stack s"
    using r(1) v(1) by (simp add: list_update_same_conv)
  show ?thesis using assms(3,4) r v p a u
    by (simp add: subassign_id_def generic_subsasgn_def with_ov_def Let_def m_scalar_typeid_def
        m_matrix_typeid_def set_direct_def STACK_DESTROY_numeral split: sum.splits)
qed

subsection \<open>ASSIGN of a cs-list\<close>

text \<open>
  C10, as stated: for every ASSIGN of a cs-list rhs, an empty list raises
  INVALID_N_EL_RHS_IN_ASSIGNMENT and leaves the slot unchanged, and a non-empty list of
  any length silently assigns its first element. The second half fails when the first
  element of the list is undefined: the handler then raises RHS_UNDEF_IN_ASSIGNMENT.
\<close>

theorem assign_dispath_cs_list_counterexample:
  "unwind_tag (assign_dispath host_id c10_cex_state) = Some RHS_UNDEF_IN_ASSIGNMENT
   \<and> list_value (CsList [Undef, Scalar (Fin 2)]) \<noteq> []"
  by (simp add: c10_cex_state_def vm0_def host_id_def assign_dispath_def with_ov_def push_def
      set_direct_def is_undefined_def Let_def)

text \<open>
  C10, amended: with a cs-list on top of the stack and the slot below it, the slow path of
  ASSIGN (1) on an empty list raises INVALID_N_EL_RHS_IN_ASSIGNMENT and leaves the slot
  and the variables unchanged; (2) on a non-empty list of any length whose first element
  is defined, stores that first element (after its storable transform) into the slot,
  directly or through the reference wrapper the slot holds, pops the list and raises
  nothing; (3) on a non-empty list whose first element is undefined raises
  RHS_UNDEF_IN_ASSIGNMENT and leaves the slot unchanged.
\<close>

theorem assign_dispath_cs_list:
  assumes top: "sp s < length (stack s)" "stack s ! (sp s - 1) = OV (CsList lst)"
      and slot: "bsp s + arg0 s < sp s - 1" "stack s ! (bsp s + arg0 s) = OV lhs"
  shows "(lst = [] \<longrightarrow>
            assign_dispath h s = Unwind (push (ErrTag INVALID_N_EL_RHS_IN_ASSIGNMENT) s)
            \<and> stack (push (ErrTag INVALID_N_EL_RHS_IN_ASSIGNMENT) s) ! (bsp s + arg0 s) = OV lhs
            \<and> refs (push (ErrTag INVALID_N_EL_RHS_IN_ASSIGNMENT) s) = refs s)
       \<and> (lst \<noteq> [] \<and> is_defined (hd lst) \<longrightarrow>
            (\<exists>s'. assign_dispath h s = Next s' \<and> sp s' = sp s - 1
               \<and> (case lhs of
                     Ref k \<Rightarrow> refs s' k = storable h (hd lst)
                              \<and> stack s' ! (bsp s + arg0 s) = OV lhs
                   | _ \<Rightarrow> stack s' ! (bsp s + arg0 s) = OV (storable h (hd lst))
                          \<and> refs s' = refs s)))
       \<and> (lst \<noteq> [] \<and> \<not> is_defined (hd lst) \<longrightarrow>
            (\<exists>s'. assign_dispath h s = Unwind s'
               \<and> unwind_tag (Unwind s') = Some RHS_UNDEF_IN_ASSIGNMENT
               \<and> stack s' ! (bsp s + arg0 s) = OV lhs \<and> refs s' = refs s))"
  using assms
  by (cases lst; cases lhs)
     (auto simp: assign_dispath_def with_ov_def push_def set_direct_def ref_set_value_def
        storable_def is_undefined_def Let_def)

theorem assign_dispath_cs_list_witness:
  "sp c10_state < length (stack c10_state)
   \<and> stack c10_state ! (sp c10_state - 1)
       = OV (CsList [Scalar (Fin 1), Scalar (Fin 2), Scalar (Fin 3)])
   \<and> bsp c10_state + arg0 c10_state < sp c10_state - 1
   \<and> stack c10_state ! (bsp c10_state + arg0 c10_state) = OV (Scalar (Fin 5))
   \<and> (\<exists>s'. assign_dispath host_id c10_state = Next s' \<and> sp s' = 2
      \<and> stack s' ! 1 = OV (Scalar (Fin 1)))"
  using assign_dispath_cs_list
    [of c10_state "[Scalar (Fin 1), Scalar (Fin 2), Scalar (Fin 3)]" "Scalar (Fin 5)" host_id]
  by (auto simp: c10_state_def vm0_def host_id_def storable_def)

subsection \<open>Struct for-loop\<close>

text \<open>
  C9: at a non-terminating FOR_COMPLEX_COND step each of the two writes respects the slot
  discipline, the branch of the key-slot write being determined by the key slot's
  wrapper status. The code tests the value slot for both writes. Evaluated on a frame
  whose key slot holds the wrapper of a global and whose value slot is an ordinary local:
  the field name is stored over the wrapper in the slot, and the global keeps its old
  value 42.
\<close>

theorem for_complex_cond_key_write_ignores_wrapper:
  "(case for_complex_cond c9_state of
      Next s' \<Rightarrow> stack s' ! 1 = OV (string_ov ''a'') \<and> refs s' 0 = Scalar (Fin 42)
                 \<and> stack s' ! 2 = OV (Scalar (Fin 1))
    | _ \<Rightarrow> False)"
  by (simp add: c9_state_def vm0_def for_complex_cond_def with_int_def with_ov_def
      POP_CODE_USHORT_def USHORT_FROM_UCHARS_def contents_def set_direct_def ref_set_value_def
      Let_def)

subsection \<open>Scalar indexed assignment of a matrix\<close>

lemma is_Goto_catch5 [simp]: "\<not> is_Goto (catch5 e s)"
  by (cases e) simp_all

lemma subassign_1d_type_mismatch:
  assumes "operands_1d s rhs arg mat_ov"
    and "type_id rhs \<noteq> T_scalar \<or> type_id mat_ov \<noteq> T_matrix \<or> type_id arg \<noteq> T_scalar"
  shows "subassign_id_mat_1d s =
           Goto L_subassign_id
             (s\<lparr>code_mem := (code_mem s)[opcode_pos s (arg0 s) := INSTR_SUBASSIGN_ID]\<rparr>)"
proof -
  have r: "sp s - 1 < length (stack s)" "sp s - 2 < length (stack s)"
    "bsp s + arg0 s < length (stack s)"
    using assms(1) unfolding operands_1d_def by auto
  have v: "stack s ! (sp s - 1) = OV rhs" "stack s ! (sp s - 2) = OV arg"
    "stack s ! (bsp s + arg0 s) = OV mat_ov"
    using assms(1) unfolding operands_1d_def by auto
  show ?thesis using assms(2) r v
    by (auto simp: subassign_id_mat_1d_def with_ov_def Let_def m_scalar_typeid_def
        m_matrix_typeid_def opcode_pos_def)
qed

lemma not_Goto_ref_case:
  "(\<And>k. \<not> is_Goto (A k)) \<Longrightarrow> \<not> is_Goto B \<Longrightarrow>
   \<not> is_Goto (case v of Ref k \<Rightarrow> A k | _ \<Rightarrow> B)"
  by (cases v) simp_all

lemma not_Goto_sum_case:
  "(\<And>e. \<not> is_Goto (A e)) \<Longrightarrow> (\<And>x. \<not> is_Goto (B x)) \<Longrightarrow>
   \<not> is_Goto (case r of Inl e \<Rightarrow> A e | Inr x \<Rightarrow> B x)"
  by (cases r) simp_all

lemma subassign_id_no_bounce_1d:
  assumes "operands_1d s rhs arg mat_ov"
    and "type_id rhs \<noteq> T_scalar \<or> type_id mat_ov \<noteq> T_matrix \<or> type_id arg \<noteq> T_scalar"
    and "6 \<le> ip s" "code_mem s ! ip s = 1"
  shows "\<not> is_Goto (subassign_id h
            (s\<lparr>code_mem := (code_mem s)[opcode_pos s (arg0 s) := INSTR_SUBASSIGN_ID]\<rparr>))"
proof -
  have r: "sp s - 1 < length (stack s)" "sp s - 2 < length (stack s)"
    "bsp s + arg0 s < length (stack s)" "2 \<le> sp s" "sp s \<le> length (stack s)"
    using assms(1) unfolding operands_1d_def by auto
  have v: "stack s ! (sp s - 1) = OV rhs" "stack s ! (sp s - 2) = OV arg"
    "stack s ! (bsp s + arg0 s) = OV mat_ov"
    using assms(1) unfolding operands_1d_def by auto
  have n: "(code_mem s)[opcode_pos s (arg0 s) := INSTR_SUBASSIGN_ID] ! ip s = 1"
    using assms(3,4) by (simp add: opcode_pos_def)
  have a: "take 1 (drop (sp s - 1 - 1) (stack s)) = [OV arg]"
    using take1_drop [of "sp s - 2" "stack s"] r(2) v(2) by (simp add: numeral_2_eq_2)
  show ?thesis using assms(2) r v n a
    by (simp add: subassign_id_def with_ov_def Let_def m_scalar_typeid_def
        m_matrix_typeid_def not_Goto_ref_case not_Goto_sum_case)
qed

lemma subassign_id_no_bounce_2d:
  assumes "operands_2d s rhs arg1 arg2 mat_ov"
    and "type_id rhs \<noteq> T_scalar \<or> type_id mat_ov \<noteq> T_matrix \<or> type_id arg2 \<noteq> T_scalar
         \<or> type_id arg1 \<noteq> T_scalar"
    and "6 \<le> ip s" "code_mem s ! ip s = 2"
  shows "\<not> is_Goto (subassign_id h
            (s\<lparr>code_mem := (code_mem s)[opcode_pos s (arg0 s) := INSTR_SUBASSIGN_ID]\<rparr>))"
proof -
  have r: "sp s - 1 < length (stack s)" "sp s - 2 < length (stack s)"
    "sp s - 3 < length (stack s)" "bsp s + arg0 s < length (stack s)" "3 \<le> sp s"
    "sp s \<le> length (stack s)"
    using assms(1) unfolding operands_2d_def by auto
  have v: "stack s ! (sp s - 1) = OV rhs" "stack s ! (sp s - 2) = OV arg2"
    "stack s ! (sp s - 3) = OV arg1" "stack s ! (bsp s + arg0 s) = OV mat_ov"
    using assms(1) unfolding operands_2d_def by auto
  have n: "(code_mem s)[opcode_pos s (arg0 s) := INSTR_SUBASSIGN_ID] ! ip s = 2"
    using assms(3,4) by (simp add: opcode_pos_def)
  have e: "Suc (sp s - 3) = sp s - 2" using r(5) by simp
  have a: "take 2 (drop (sp s - 1 - 2) (stack s)) = [OV arg1, OV arg2]"
    using take2_drop [of "sp s - 3" "stack s"] r(2) v(2,3) e by (simp add: numeral_3_eq_3)
  show ?thesis using assms(2) r v n a
    by (simp add: subassign_id_def with_ov_def Let_def m_scalar_typeid_def
        m_matrix_typeid_def not_Goto_ref_case not_Goto_sum_case)
qed

lemma operands_1d_explicit:
  "operands_1d s rhs arg mat_ov \<Longrightarrow>
     2 \<le> sp s \<and> sp s \<le> length (stack s) \<and> bsp s + arg0 s < sp s - 2 \<and>
     stack s ! (sp s - 1) = OV rhs \<and> stack s ! (sp s - 2) = OV arg \<and>
     stack s ! (bsp s + arg0 s) = OV mat_ov"
  by (simp add: operands_1d_def)

text \<open>
  C5, amended. With the rhs, the indices and the slot as SUBASSIGN_ID_MAT_1D (state
  \<open>s\<close>) and SUBASSIGN_ID_MAT_2D (state \<open>t\<close>) expect them:
  (1) when rhs and indices are scalar doubles and the slot holds a full double matrix,
  the handler writes the element in place if every index is an integer within bounds (and,
  for 2D, the matrix has two dimensions); otherwise it jumps to the generic handler with
  the state, opcode byte included, unchanged, and the generic handler, finding the
  specialized opcode already there, performs the assignment through \<open>simple_subsasgn\<close>;
  (2) when a type id does not match, the handler rewrites its opcode byte to SUBASSIGN_ID
  and jumps to the generic handler, which does not jump back.
  Indices are finite doubles of magnitude at most \<open>2^62\<close>.
\<close>

theorem subassign_id_mat_specializations:
  assumes "operands_1d s rhs arg mat_ov" "operands_2d t rhs' arg1 arg2 mat_ov'"
  shows
   "(rhs = Scalar val \<and> arg = Scalar (Fin r) \<and> mat_ov = Matrix dv xs \<and> \<bar>r\<bar> \<le> 2 ^ 62 \<longrightarrow>
       subassign_id_mat_1d s =
         (if valid_index (Fin r) (length xs) then
            Next (STACK_DESTROY 2
              (set_direct (bsp s + arg0 s) (Matrix dv (xs[nat (\<lfloor>r\<rfloor> - 1) := val]))
                 (s\<lparr>ip := ip s + 1\<rparr>)))
          else Goto L_subassign_id s)
       \<and> (6 \<le> ip s \<and> code_mem s ! ip s = 1 \<and>
          code_mem s ! opcode_pos s (arg0 s) = INSTR_SUBASSIGN_ID_MAT_1D \<longrightarrow>
            subassign_id h s = generic_subsasgn h s mat_ov [arg] rhs))
    \<and> (type_id rhs \<noteq> T_scalar \<or> type_id mat_ov \<noteq> T_matrix \<or> type_id arg \<noteq> T_scalar \<longrightarrow>
       subassign_id_mat_1d s =
         Goto L_subassign_id
           (s\<lparr>code_mem := (code_mem s)[opcode_pos s (arg0 s) := INSTR_SUBASSIGN_ID]\<rparr>)
       \<and> (6 \<le> ip s \<and> code_mem s ! ip s = 1 \<longrightarrow>
            \<not> is_Goto (subassign_id h
              (s\<lparr>code_mem := (code_mem s)[opcode_pos s (arg0 s) := INSTR_SUBASSIGN_ID]\<rparr>))))
    \<and> (rhs' = Scalar val' \<and> arg1 = Scalar (Fin r1) \<and> arg2 = Scalar (Fin r2) \<and>
       mat_ov' = Matrix dv' xs' \<and> \<bar>r1\<bar> \<le> 2 ^ 62 \<and> \<bar>r2\<bar> \<le> 2 ^ 62 \<longrightarrow>
       subassign_id_mat_2d t =
         (if valid_index (Fin r1) (dv_rows dv') \<and> valid_index (Fin r2) (dv_cols dv')
             \<and> length dv' = 2 then
            Next (STACK_DESTROY 3
              (set_direct (bsp t + arg0 t)
                 (Matrix dv' (xs'[nat (\<lfloor>r1\<rfloor> - 1) + dv_rows dv' * nat (\<lfloor>r2\<rfloor> - 1) := val']))
                 (t\<lparr>ip := ip t + 1\<rparr>)))
          else Goto L_subassign_id t)
       \<and> (6 \<le> ip t \<and> code_mem t ! ip t = 2 \<and>
          code_mem t ! opcode_pos t (arg0 t) = INSTR_SUBASSIGN_ID_MAT_2D \<longrightarrow>
            subassign_id h t = generic_subsasgn h t mat_ov' [arg1, arg2] rhs'))
    \<and> (type_id rhs' \<noteq> T_scalar \<or> type_id mat_ov' \<noteq> T_matrix \<or> type_id arg2 \<noteq> T_scalar
         \<or> type_id arg1 \<noteq> T_scalar \<longrightarrow>
       subassign_id_mat_2d t =
         Goto L_subassign_id
           (t\<lparr>code_mem := (code_mem t)[opcode_pos t (arg0 t) := INSTR_SUBASSIGN_ID]\<rparr>)
       \<and> (6 \<le> ip t \<and> code_mem t ! ip t = 2 \<longrightarrow>
            \<not> is_Goto (subassign_id h
              (t\<lparr>code_mem := (code_mem t)[opcode_pos t (arg0 t) := INSTR_SUBASSIGN_ID]\<rparr>))))"
proof (intro conjI impI)
  assume a: "rhs = Scalar val \<and> arg = Scalar (Fin r) \<and> mat_ov = Matrix dv xs \<and> \<bar>r\<bar> \<le> 2 ^ 62"
  with assms(1) show "subassign_id_mat_1d s =
         (if valid_index (Fin r) (length xs) then
            Next (STACK_DESTROY 2
              (set_direct (bsp s + arg0 s) (Matrix dv (xs[nat (\<lfloor>r\<rfloor> - 1) := val]))
                 (s\<lparr>ip := ip s + 1\<rparr>)))
          else Goto L_subassign_id s)"
    using subassign_1d_scalar by blast
  assume "6 \<le> ip s \<and> code_mem s ! ip s = 1 \<and>
          code_mem s ! opcode_pos s (arg0 s) = INSTR_SUBASSIGN_ID_MAT_1D"
  with a operands_1d_explicit [OF assms(1)]
  show "subassign_id h s = generic_subsasgn h s mat_ov [arg] rhs"
    using subassign_id_after_1d [of s val "Fin r" dv xs h] by simp
next
  assume m: "type_id rhs \<noteq> T_scalar \<or> type_id mat_ov \<noteq> T_matrix \<or> type_id arg \<noteq> T_scalar"
  with assms(1) show "subassign_id_mat_1d s =
         Goto L_subassign_id
           (s\<lparr>code_mem := (code_mem s)[opcode_pos s (arg0 s) := INSTR_SUBASSIGN_ID]\<rparr>)"
    by (rule subassign_1d_type_mismatch)
  assume "6 \<le> ip s \<and> code_mem s ! ip s = 1"
  with assms(1) m show "\<not> is_Goto (subassign_id h
              (s\<lparr>code_mem := (code_mem s)[opcode_pos s (arg0 s) := INSTR_SUBASSIGN_ID]\<rparr>))"
    using subassign_id_no_bounce_1d by blast
next
  assume a: "rhs' = Scalar val' \<and> arg1 = Scalar (Fin r1) \<and> arg2 = Scalar (Fin r2) \<and>
       mat_ov' = Matrix dv' xs' \<and> \<bar>r1\<bar> \<le> 2 ^ 62 \<and> \<bar>r2\<bar> \<le> 2 ^ 62"
  with assms(2) show "subassign_id_mat_2d t =
         (if valid_index (Fin r1) (dv_rows dv') \<and> valid_index (Fin r2) (dv_cols dv')
             \<and> length dv' = 2 then
            Next (STACK_DESTROY 3
              (set_direct (bsp t + arg0 t)
                 (Matrix dv' (xs'[nat (\<lfloor>r1\<rfloor> - 1) + dv_rows dv' * nat (\<lfloor>r2\<rfloor> - 1) := val']))
                 (t\<lparr>ip := ip t + 1\<rparr>)))
          else Goto L_subassign_id t)"
    using subassign_2d_scalar by blast
  assume "6 \<le> ip t \<and> code_mem t ! ip t = 2 \<and>
          code_mem t ! opcode_pos t (arg0 t) = INSTR_SUBASSIGN_ID_MAT_2D"
  with a assms(2)
  show "subassign_id h t = generic_subsasgn h t mat_ov' [arg1, arg2] rhs'"
    using subassign_id_after_2d by blast
next
  assume m: "type_id rhs' \<noteq> T_scalar \<or> type_id mat_ov' \<noteq> T_matrix \<or> type_id arg2 \<noteq> T_scalar
         \<or> type_id arg1 \<noteq> T_scalar"
  with assms(2) show "subassign_id_mat_2d t =
         Goto L_subassign_id
           (t\<lparr>code_mem := (code_mem t)[opcode_pos t (arg0 t) := INSTR_SUBASSIGN_ID]\<rparr>)"
    by (rule subassign_2d_type_mismatch)
  assume "6 \<le> ip t \<and> code_mem t ! ip t = 2"
  with assms(2) m show "\<not> is_Goto (subassign_id h
              (t\<lparr>code_mem := (code_mem t)[opcode_pos t (arg0 t) := INSTR_SUBASSIGN_ID]\<rparr>))"
    using subassign_id_no_bounce_2d by blast
qed

text \<open>
  C5, as stated: on any mismatch (wrong types, out-of-bounds index, non-integer index) the
  specialized handler rewrites its own opcode byte back to SUBASSIGN_ID. For an index out
  of bounds it does not: \<open>M(7) = 9\<close> on a 2x2 matrix jumps to the generic handler and
  leaves the opcode byte SUBASSIGN_ID_MAT_1D.
\<close>

theorem subassign_id_mat_1d_out_of_bounds_counterexample:
  "(case subassign_id_mat_1d c5_cex_state of
      Goto L_subassign_id s' \<Rightarrow>
        code_mem s' ! 4 = INSTR_SUBASSIGN_ID_MAT_1D \<and> code_mem s' ! 4 \<noteq> INSTR_SUBASSIGN_ID
    | _ \<Rightarrow> False)"
  by (simp add: c5_cex_state_def vm0_def subassign_id_mat_1d_def with_ov_def Let_def
      m_scalar_typeid_def m_matrix_typeid_def trunc_real_def INSTR_SUBASSIGN_ID_MAT_1D_def
      INSTR_SUBASSIGN_ID_def)

theorem subassign_id_mat_specializations_witness:
  "(case subassign_id_mat_1d c5_state of
      Next s' \<Rightarrow> stack s' ! 1 = OV (Matrix [2, 2] [Fin 1, Fin 9, Fin 2, Fin 4]) \<and> sp s' = 2
    | _ \<Rightarrow> False)
   \<and> (case subassign_id_mat_2d c5_state_2d of
      Next s' \<Rightarrow> stack s' ! 1 = OV (Matrix [2, 2] [Fin 1, Fin 9, Fin 2, Fin 4]) \<and> sp s' = 2
    | _ \<Rightarrow> False)"
proof -
  have o1: "operands_1d c5_state (Scalar (Fin 9)) (Scalar (Fin 2))
              (Matrix [2, 2] [Fin 1, Fin 3, Fin 2, Fin 4])"
    by (simp add: operands_1d_def c5_state_def vm0_def)
  have o2: "operands_2d c5_state_2d (Scalar (Fin 9)) (Scalar (Fin 2)) (Scalar (Fin 1))
              (Matrix [2, 2] [Fin 1, Fin 3, Fin 2, Fin 4])"
    by (simp add: operands_2d_def c5_state_2d_def vm0_def)
  note th = subassign_id_mat_specializations [OF o1 o2,
      where val = "Fin 9" and r = 2 and dv = "[2, 2]" and xs = "[Fin 1, Fin 3, Fin 2, Fin 4]"
        and val' = "Fin 9" and ?r1.0 = 2 and ?r2.0 = 1 and dv' = "[2, 2]"
        and xs' = "[Fin 1, Fin 3, Fin 2, Fin 4]" and h = host_id]
  have a: "subassign_id_mat_1d c5_state =
      Next (STACK_DESTROY 2
              (set_direct (bsp c5_state + arg0 c5_state)
                 (Matrix [2, 2] ([Fin 1, Fin 3, Fin 2, Fin 4][nat (\<lfloor>2::real\<rfloor> - 1) := Fin 9]))
                 (c5_state\<lparr>ip := ip c5_state + 1\<rparr>)))"
    using th by (simp add: valid_index_def)
  have b: "subassign_id_mat_2d c5_state_2d =
      Next (STACK_DESTROY 3
              (set_direct (bsp c5_state_2d + arg0 c5_state_2d)
                 (Matrix [2, 2] ([Fin 1, Fin 3, Fin 2, Fin 4]
                    [nat (\<lfloor>2::real\<rfloor> - 1) + dv_rows [2, 2] * nat (\<lfloor>1::real\<rfloor> - 1) := Fin 9]))
                 (c5_state_2d\<lparr>ip := ip c5_state_2d + 1\<rparr>)))"
    using th by (simp add: valid_index_def)
  show ?thesis
    unfolding a b
    by (simp add: c5_state_def c5_state_2d_def vm0_def set_direct_def STACK_DESTROY_numeral)
qed

subsection \<open>Scalar indexing of a matrix\<close>

lemma trunc_real_bounds0:
  assumes "\<bar>r\<bar> \<le> 2 ^ 62"
  shows "- (2 ^ 63) \<le> trunc_real r \<and> trunc_real r < 2 ^ 63"
proof -
  have a: "- (2 ^ 62) \<le> r" "r \<le> 2 ^ 62" using assms by (simp_all add: abs_le_iff)
  have f: "\<lfloor>r\<rfloor> \<le> 2 ^ 62" using a(2) by (simp add: floor_le_iff)
  have f2: "- (2 ^ 62) \<le> \<lfloor>r\<rfloor>" using a(1) by (simp add: le_floor_iff)
  have c: "\<lceil>r\<rceil> \<le> 2 ^ 62" using a(2) by (simp add: ceiling_le_iff)
  have c2: "- (2 ^ 62) \<le> \<lceil>r\<rceil>" using a(1) by (simp add: le_ceiling_iff)
  show ?thesis using f f2 c c2 by (auto simp: trunc_real_def)
qed

lemma non_integer_trunc: "non_integer r \<Longrightarrow> of_int (trunc_real r) \<noteq> r"
  by (metis floor_of_int non_integer_def)

lemma index_1d_non_integer:
  assumes "operands_index_1d s mat (Scalar (Fin r))" "is_full_num_matrix h mat"
    and "non_integer r" "\<bar>r\<bar> \<le> 2 ^ 62"
    and "invalid_index_exc h (Fin (r - 1)) 1 1 = (ident, msg)"
  shows "index_id1_mat_1d h s =
           Unwind (push (ErrTag INDEX_ERROR) (push (PEE ''error'' ident msg)
                     (s\<lparr>ip := ip s + 1\<rparr>)))"
proof -
  have r: "sp s - 1 < length (stack s)" "sp s - 2 < length (stack s)"
    using assms(1) unfolding operands_index_1d_def by auto
  have v: "stack s ! (sp s - 1) = OV (Scalar (Fin r))" "stack s ! (sp s - 2) = OV mat"
    using assms(1) unfolding operands_index_1d_def by auto
  have t: "to_idx (Fin r) = Some (trunc_real r)"
    using trunc_real_bounds0 [OF assms(4)] by simp
  have n: "\<not> idx_eq_dbl (trunc_real r) (Fin r)"
    using non_integer_trunc [OF assms(3)] by simp
  show ?thesis using r v n assms(2,5)
    by (simp add: index_id1_mat_1d_def with_ov_def Let_def m_scalar_typeid_def t
        del: to_idx.simps idx_eq_dbl.simps)
qed

lemma index_id1_respecializes:
  assumes "operands_index_1d s mat (Scalar d)" "is_full_num_matrix h mat"
    and "vm_dispatch_call h mat = OCT_SUBSREF"
    and "6 \<le> ip s" "code_mem s ! ip s = 1"
    and "opcode_pos s (arg0 s) < length (code_mem s)"
    and "code_mem s ! opcode_pos s (arg0 s) = INSTR_INDEX_ID1_MAT_1D"
  shows "index_id1 h (s\<lparr>code_mem := (code_mem s)
                         [opcode_pos s (arg0 s) := INSTR_INDEX_ID_NARGOUT1]\<rparr>)
         = Goto L_index_id1_mat_1d s"
proof -
  have r: "sp s - 1 < length (stack s)" "sp s - 2 < length (stack s)" "2 \<le> sp s"
    "sp s \<le> length (stack s)"
    using assms(1) unfolding operands_index_1d_def by auto
  have v: "stack s ! (sp s - 1) = OV (Scalar d)" "stack s ! (sp s - 2) = OV mat"
    using assms(1) unfolding operands_index_1d_def by auto
  have n: "(code_mem s)[opcode_pos s (arg0 s) := INSTR_INDEX_ID_NARGOUT1] ! ip s = 1"
    using assms(4,5) by (simp add: opcode_pos_def)
  have a: "take 1 (drop (sp s - 1) (stack s)) = [OV (Scalar d)]"
    using take1_drop [of "sp s - 1" "stack s"] r(1) v(1) by simp
  have p: "opcode_pos (s\<lparr>code_mem := (code_mem s)
                         [opcode_pos s (arg0 s) := INSTR_INDEX_ID_NARGOUT1], ip := ip s\<rparr>) (arg0 s)
           = opcode_pos s (arg0 s)"
    by (simp add: opcode_pos_def)
  have u: "(code_mem s)[opcode_pos s (arg0 s) := INSTR_INDEX_ID1_MAT_1D] = code_mem s"
    using assms(6,7) by (simp add: list_update_same_conv)
  have e: "sp s - Suc (Suc 0) = sp s - 2" by simp
  show ?thesis using r v n a p u assms(2,3,6) e
    by (simp add: index_id1_def with_ov_def Let_def m_scalar_typeid_def)
qed

lemma index_1d_fallback:
  assumes "operands_index_1d s mat arg1"
    and "type_id arg1 \<noteq> m_scalar_typeid \<or> \<not> is_full_num_matrix h mat"
  shows "index_id1_mat_1d h s =
           Goto L_index_id1
             (s\<lparr>code_mem := (code_mem s)[opcode_pos s (arg0 s) := INSTR_INDEX_ID_NARGOUT1]\<rparr>)"
proof -
  have r: "sp s - 1 < length (stack s)" "sp s - 2 < length (stack s)"
    using assms(1) unfolding operands_index_1d_def by auto
  have v: "stack s ! (sp s - 1) = OV arg1" "stack s ! (sp s - 2) = OV mat"
    using assms(1) unfolding operands_index_1d_def by auto
  show ?thesis using r v assms(2)
    by (auto simp: index_id1_mat_1d_def with_ov_def Let_def opcode_pos_def)
qed

lemma index_1d_no_fallback:
  assumes "operands_index_1d s mat arg1"
    and "type_id arg1 = m_scalar_typeid" "is_full_num_matrix h mat"
  shows "\<not> is_Goto (index_id1_mat_1d h s)"
proof -
  have r: "sp s - 1 < length (stack s)" "sp s - 2 < length (stack s)"
    using assms(1) unfolding operands_index_1d_def by auto
  have v: "stack s ! (sp s - 1) = OV arg1" "stack s ! (sp s - 2) = OV mat"
    using assms(1) unfolding operands_index_1d_def by auto
  from assms(2) obtain d where d: "arg1 = Scalar d"
    by (cases arg1) (simp_all add: m_scalar_typeid_def)
  show ?thesis using r v assms(3) unfolding d
    by (simp add: index_id1_mat_1d_def with_ov_def Let_def m_scalar_typeid_def
        split: option.splits prod.splits sum.splits del: to_idx.simps idx_eq_dbl.simps)
qed

text \<open>
  C6, amended: INDEX_ID1_MAT_1D on a full numeric matrix with a scalar-double index whose
  value is not an integer (finite, of magnitude at most \<open>2^62\<close>) does not fall back: the
  specialized handler itself raises the host's invalid-index exception as INDEX_ERROR and
  leaves the code unchanged. Executing the generic INDEX_ID_NARGOUT1 on the same operands
  gives the same result: the generic handler rewrites its opcode byte to INDEX_ID1_MAT_1D
  and jumps to the specialized handler in exactly this state. The specialized handler
  falls back, that is rewrites its opcode byte to INDEX_ID_NARGOUT1 and jumps to the
  generic handler, if and only if the index is not a scalar double or the indexed value
  is not a full numeric matrix.
\<close>

theorem index_id1_mat_1d_non_integer_index:
  assumes "operands_index_1d s mat arg1"
  shows "(arg1 = Scalar (Fin r) \<and> is_full_num_matrix h mat \<and> non_integer r \<and> \<bar>r\<bar> \<le> 2 ^ 62 \<and>
          invalid_index_exc h (Fin (r - 1)) 1 1 = (ident, msg) \<longrightarrow>
            index_id1_mat_1d h s =
              Unwind (push (ErrTag INDEX_ERROR) (push (PEE ''error'' ident msg)
                        (s\<lparr>ip := ip s + 1\<rparr>)))
            \<and> unwind_tag (index_id1_mat_1d h s) = Some INDEX_ERROR
            \<and> (vm_dispatch_call h mat = OCT_SUBSREF \<and> 6 \<le> ip s \<and> code_mem s ! ip s = 1 \<and>
               opcode_pos s (arg0 s) < length (code_mem s) \<and>
               code_mem s ! opcode_pos s (arg0 s) = INSTR_INDEX_ID1_MAT_1D \<longrightarrow>
                 index_id1 h (s\<lparr>code_mem := (code_mem s)
                              [opcode_pos s (arg0 s) := INSTR_INDEX_ID_NARGOUT1]\<rparr>)
                   = Goto L_index_id1_mat_1d s))
       \<and> is_Goto (index_id1_mat_1d h s)
           = (type_id arg1 \<noteq> m_scalar_typeid \<or> \<not> is_full_num_matrix h mat)
       \<and> (type_id arg1 \<noteq> m_scalar_typeid \<or> \<not> is_full_num_matrix h mat \<longrightarrow>
            index_id1_mat_1d h s =
              Goto L_index_id1
                (s\<lparr>code_mem := (code_mem s)
                      [opcode_pos s (arg0 s) := INSTR_INDEX_ID_NARGOUT1]\<rparr>))"
proof (intro conjI impI)
  assume h: "arg1 = Scalar (Fin r) \<and> is_full_num_matrix h mat \<and> non_integer r \<and> \<bar>r\<bar> \<le> 2 ^ 62 \<and>
          invalid_index_exc h (Fin (r - 1)) 1 1 = (ident, msg)"
  then have o: "operands_index_1d s mat (Scalar (Fin r))" using assms by simp
  from h have m: "is_full_num_matrix h mat" and n: "non_integer r" and b: "\<bar>r\<bar> \<le> 2 ^ 62"
    and i: "invalid_index_exc h (Fin (r - 1)) 1 1 = (ident, msg)" by simp_all
  note a = index_1d_non_integer [OF o m n b i]
  show u: "index_id1_mat_1d h s =
              Unwind (push (ErrTag INDEX_ERROR) (push (PEE ''error'' ident msg)
                        (s\<lparr>ip := ip s + 1\<rparr>)))" by (rule a)
  have l: "sp s + 1 < length (stack s)"
    using assms unfolding operands_index_1d_def by auto
  show "unwind_tag (index_id1_mat_1d h s) = Some INDEX_ERROR"
    unfolding a using l by (simp add: push_def)
  assume g: "vm_dispatch_call h mat = OCT_SUBSREF \<and> 6 \<le> ip s \<and> code_mem s ! ip s = 1 \<and>
               opcode_pos s (arg0 s) < length (code_mem s) \<and>
               code_mem s ! opcode_pos s (arg0 s) = INSTR_INDEX_ID1_MAT_1D"
  then show "index_id1 h (s\<lparr>code_mem := (code_mem s)
                              [opcode_pos s (arg0 s) := INSTR_INDEX_ID_NARGOUT1]\<rparr>)
                   = Goto L_index_id1_mat_1d s"
    using index_id1_respecializes [OF o m] by blast
next
  show "is_Goto (index_id1_mat_1d h s)
           = (type_id arg1 \<noteq> m_scalar_typeid \<or> \<not> is_full_num_matrix h mat)"
  proof (cases "type_id arg1 \<noteq> m_scalar_typeid \<or> \<not> is_full_num_matrix h mat")
    case True
    from index_1d_fallback [OF assms True] True show ?thesis by simp
  next
    case False
    then have "type_id arg1 = m_scalar_typeid" "is_full_num_matrix h mat" by simp_all
    from index_1d_no_fallback [OF assms this] False show ?thesis by simp
  qed
next
  assume "type_id arg1 \<noteq> m_scalar_typeid \<or> \<not> is_full_num_matrix h mat"
  then show "index_id1_mat_1d h s =
              Goto L_index_id1
                (s\<lparr>code_mem := (code_mem s)
                      [opcode_pos s (arg0 s) := INSTR_INDEX_ID_NARGOUT1]\<rparr>)"
    by (rule index_1d_fallback [OF assms])
qed

theorem index_id1_mat_1d_non_integer_index_witness:
  "index_id1_mat_1d host_id c6_state =
     Unwind (push (ErrTag INDEX_ERROR)
       (push (PEE ''error'' ''Octave:bad-index'' ''subscripts must be integers'')
          (c6_state\<lparr>ip := ip c6_state + 1\<rparr>)))
   \<and> index_id1 host_id (c6_state\<lparr>code_mem := [1, 0, 2, 0, 42, 1, 1]\<rparr>)
       = Goto L_index_id1_mat_1d c6_state
   \<and> \<not> is_Goto (index_id1_mat_1d host_id c6_state)
   \<and> index_id1_mat_1d host_id c6_bool_state =
       Goto L_index_id1 (c6_bool_state\<lparr>code_mem := [1, 0, 2, 0, 42, 1, 1]\<rparr>)"
proof -
  have o: "operands_index_1d c6_state (Matrix [2, 2] [Fin 1, Fin 3, Fin 2, Fin 4])
             (Scalar (Fin (3 / 2)))"
    by (simp add: operands_index_1d_def c6_state_def vm0_def)
  have m: "is_full_num_matrix host_id (Matrix [2, 2] [Fin 1, Fin 3, Fin 2, Fin 4])"
    by (simp add: host_id_def)
  have n: "non_integer (3 / 2)" by (simp add: non_integer_def)
  have b: "\<bar>3 / 2 :: real\<bar> \<le> 2 ^ 62" by simp
  have i: "invalid_index_exc host_id (Fin (3 / 2 - 1)) 1 1
             = (''Octave:bad-index'', ''subscripts must be integers'')"
    by (simp add: host_id_def)
  note th = index_id1_mat_1d_non_integer_index [OF o, of "3 / 2" host_id
      "''Octave:bad-index''" "''subscripts must be integers''"]
  have c: "c6_state\<lparr>code_mem := (code_mem c6_state)
             [opcode_pos c6_state (arg0 c6_state) := INSTR_INDEX_ID_NARGOUT1]\<rparr>
           = c6_state\<lparr>code_mem := [1, 0, 2, 0, 42, 1, 1]\<rparr>"
    by (simp add: c6_state_def vm0_def opcode_pos_def INSTR_INDEX_ID_NARGOUT1_def)
  have d: "vm_dispatch_call host_id (Matrix [2, 2] [Fin 1, Fin 3, Fin 2, Fin 4]) = OCT_SUBSREF
     \<and> 6 \<le> ip c6_state \<and> code_mem c6_state ! ip c6_state = 1 \<and>
          opcode_pos c6_state (arg0 c6_state) < length (code_mem c6_state) \<and>
          code_mem c6_state ! opcode_pos c6_state (arg0 c6_state) = INSTR_INDEX_ID1_MAT_1D"
    by (simp add: c6_state_def vm0_def opcode_pos_def INSTR_INDEX_ID1_MAT_1D_def host_id_def)
  have t: "type_id (Scalar (Fin (3 / 2))) = m_scalar_typeid" by (simp add: m_scalar_typeid_def)
  have 1: "index_id1_mat_1d host_id c6_state =
     Unwind (push (ErrTag INDEX_ERROR)
       (push (PEE ''error'' ''Octave:bad-index'' ''subscripts must be integers'')
          (c6_state\<lparr>ip := ip c6_state + 1\<rparr>)))
   \<and> index_id1 host_id (c6_state\<lparr>code_mem := [1, 0, 2, 0, 42, 1, 1]\<rparr>)
       = Goto L_index_id1_mat_1d c6_state
   \<and> \<not> is_Goto (index_id1_mat_1d host_id c6_state)"
    using th m n b i c d t by simp
  have o2: "operands_index_1d c6_bool_state (Matrix [2, 2] [Fin 1, Fin 3, Fin 2, Fin 4])
             (BoolV True)"
    by (simp add: operands_index_1d_def c6_bool_state_def vm0_def)
  have c2: "c6_bool_state\<lparr>code_mem := (code_mem c6_bool_state)
             [opcode_pos c6_bool_state (arg0 c6_bool_state) := INSTR_INDEX_ID_NARGOUT1]\<rparr>
           = c6_bool_state\<lparr>code_mem := [1, 0, 2, 0, 42, 1, 1]\<rparr>"
    by (simp add: c6_bool_state_def vm0_def opcode_pos_def INSTR_INDEX_ID_NARGOUT1_def)
  have t2: "type_id (BoolV True) \<noteq> m_scalar_typeid" by (simp add: m_scalar_typeid_def)
  note th2 = index_id1_mat_1d_non_integer_index [OF o2, of 0 host_id "[]" "[]",
      THEN conjunct2, THEN conjunct2]
  have 2: "index_id1_mat_1d host_id c6_bool_state =
       Goto L_index_id1 (c6_bool_state\<lparr>code_mem := [1, 0, 2, 0, 42, 1, 1]\<rparr>)"
    using th2 t2 unfolding c2 by simp
  from 1 2 show ?thesis by simp
qed

text \<open>
  C6, as stated: INDEX_ID1_MAT_1D with a scalar-double index that is not an integer falls
  back to the generic index opcode. It does not: \<open>M(1.5)\<close> on a 2x2 matrix raises
  INDEX_ERROR in the specialized handler, and the opcode byte stays INDEX_ID1_MAT_1D.
\<close>

theorem index_id1_mat_1d_non_integer_counterexample:
  "(case index_id1_mat_1d host_id c6_state of
      Unwind s' \<Rightarrow> stack s' ! (sp s' - 1) = ErrTag INDEX_ERROR
                   \<and> code_mem s' ! 4 = INSTR_INDEX_ID1_MAT_1D
                   \<and> code_mem s' ! 4 \<noteq> INSTR_INDEX_ID_NARGOUT1
    | _ \<Rightarrow> False)"
  by (simp add: c6_state_def vm0_def host_id_def index_id1_mat_1d_def with_ov_def Let_def
      m_scalar_typeid_def trunc_real_def push_def INSTR_INDEX_ID1_MAT_1D_def
      INSTR_INDEX_ID_NARGOUT1_def)

subsection \<open>Cell construction\<close>

text \<open>
  C8, as stated: \<open>a = {}; c = {a{:}, a{:}}\<close> gives a cell of size \<open>[1 0]\<close>. With
  the cell pushed by \<open>PUSH_CELL 1 2\<close> and both elements empty cs-lists, the terminal
  \<open>APPEND_CELL 3\<close> leaves a 0x0 cell.
\<close>

theorem cell_of_two_empty_cs_lists_counterexample:
  "(case cell_row_of_two (CsList []) (CsList []) c8_state of
      Next s' \<Rightarrow> stack s' ! (sp s' - 1) = OV (Cell 0 0 [])
                 \<and> dims (Cell 0 0 []) \<noteq> [1, 0]
    | _ \<Rightarrow> False)"
  by (simp add: cell_row_of_two_def next_then_def DISPATCH_def c8_state_def vm0_def push_cell_def
      append_cell_def push_def with_ov_def Let_def cell_resize_def cell_ov_def
      INSTR_APPEND_CELL_def empty_matrix_def STACK_DESTROY_numeral)

text \<open>
  C8, amended: \<open>a = {}; c = {a{:}, a{:}}\<close> produces a cell of size \<open>[0 0]\<close>: the
  terminal \<open>APPEND_CELL\<close> with \<open>last = 3\<close> finds no column inserted into a first row
  guessed wider, and resizes the cell to 0x0 (for every positive guess \<open>c\<close> of the
  number of columns; the guess is 2, the number of elements of the row; a guess of 0
  columns would leave the cell 1x0).
\<close>

theorem cell_of_two_empty_cs_lists:
  assumes "arg0 s = 1" "code_mem s ! ip s = c"
    and "code_mem s ! (ip s + 1) = INSTR_APPEND_CELL" "code_mem s ! (ip s + 2) = 0"
    and "code_mem s ! (ip s + 3) = INSTR_APPEND_CELL" "code_mem s ! (ip s + 4) = 3"
    and "sp s + 4 \<le> length (stack s)"
  shows "\<exists>s'. cell_row_of_two (CsList []) (CsList []) s = Next s' \<and> sp s' = sp s + 1
           \<and> stack s' ! sp s = OV (if 0 < c then Cell 0 0 [] else Cell 1 0 [])"
proof -
  have a3: "code_mem s ! Suc (Suc (Suc (ip s))) = INSTR_APPEND_CELL"
    using assms(5) by (simp add: eval_nat_numeral)
  have a4: "code_mem s ! Suc (Suc (Suc (Suc (ip s)))) = 3"
    using assms(6) by (simp add: eval_nat_numeral)
  show ?thesis
    using assms(1-4,7) a3 a4
    by (simp add: cell_row_of_two_def next_then_def DISPATCH_def push_cell_def
        append_cell_def push_def with_ov_def Let_def cell_resize_def cell_ov_def
        empty_matrix_def STACK_DESTROY_numeral)
qed

theorem cell_of_two_empty_cs_lists_witness:
  "\<exists>s'. cell_row_of_two (CsList []) (CsList []) c8_state = Next s' \<and> sp s' = 4
           \<and> stack s' ! 3 = OV (Cell 0 0 [])"
proof -
  have "arg0 c8_state = 1" "code_mem c8_state ! ip c8_state = 2"
    "code_mem c8_state ! (ip c8_state + 1) = INSTR_APPEND_CELL"
    "code_mem c8_state ! (ip c8_state + 2) = 0"
    "code_mem c8_state ! (ip c8_state + 3) = INSTR_APPEND_CELL"
    "code_mem c8_state ! (ip c8_state + 4) = 3"
    "sp c8_state + 4 \<le> length (stack c8_state)"
    by (simp_all add: c8_state_def vm0_def INSTR_APPEND_CELL_def)
  from cell_of_two_empty_cs_lists [OF this] show ?thesis
    by (simp add: c8_state_def vm0_def)
qed

subsection \<open>Numeric for-loop setup\<close>

lemma numeric_class_iff:
  "(is_double_type v \<or> is_int64_type v \<or> is_uint64_type v \<or>
    is_int32_type v \<or> is_uint32_type v \<or> is_int16_type v \<or>
    is_uint16_type v \<or> is_int16_type v \<or> is_int8_type v \<or>
    is_int8_type v \<or> is_uint8_type v \<or> is_single_type v) = (range_class v \<noteq> EOther)"
  by (cases "range_class v")
     (simp_all add: is_double_type_def is_int64_type_def is_uint64_type_def is_int32_type_def
        is_uint32_type_def is_int16_type_def is_uint16_type_def is_int8_type_def
        is_uint8_type_def is_single_type_def)

lemma idx_to_int_small: "k < 2 ^ 31 \<Longrightarrow> idx_to_int k = int k"
  by (simp add: idx_to_int_def Let_def)

lemma idx_to_int_zero_iff: "k < 2 ^ 31 \<Longrightarrow> (idx_to_int k = 0) = (k = 0)"
  by (simp add: idx_to_int_small)

lemma for_setup_selected:
  assumes "supported_iterable v" "rows_fit_int v"
  shows "for_setup_select h v = Some (canonical_iterable h v, iteration_count v)"
proof -
  have z: "(idx_to_int (dv_rows (redim2 (dims v))) = 0) = (dv_rows (redim2 (dims v)) = 0)"
    using assms(2) unfolding rows_fit_int_def by (rule idx_to_int_zero_iff)
  show ?thesis
    unfolding for_setup_select_def numeric_class_iff Let_def z
    using assms(1)
    by (cases v)
       (auto simp: supported_iterable_def canonical_iterable_def iteration_count_def
          is_undefined_def)
qed

lemma push2_facts:
  assumes "sp s + 1 < length (stack s)"
  shows "sp (push b (push a s)) = sp s + 2"
    and "stack (push b (push a s)) ! sp s = a"
    and "stack (push b (push a s)) ! (sp s + 1) = b"
    and "i < sp s \<Longrightarrow> stack (push b (push a s)) ! i = stack s ! i"
    and "refs (push b (push a s)) = refs s"
    and "length (stack (push b (push a s))) = length (stack s)"
  using assms by (simp_all add: push_def)

lemma set_direct_facts:
  "sp (set_direct i v s) = sp s"
  "refs (set_direct i v s) = refs s"
  "i \<noteq> j \<Longrightarrow> stack (set_direct i v s) ! j = stack s ! j"
  "i < length (stack s) \<Longrightarrow> stack (set_direct i v s) ! i = OV v"
  by (simp_all add: set_direct_def)

text \<open>
  For an iterable whose row count is below \<open>2^31\<close>, \<open>FOR_SETUP\<close> computes the
  iteration count \<open>n\<close> as the number of elements for scalars and ranges, the number of
  columns for matrices, cells, strings and structs with a nonzero number of rows, and zero
  when the number of rows is zero (a 0x3 cell and a 3x0 matrix give zero iterations, a
  scalar gives one). It pushes \<open>n\<close> and a counter \<open>-1\<close>, and when \<open>n = 0\<close> and the
  iterable is defined it assigns the iterable (its storable value) to the induction slot,
  directly or through the slot's wrapper; otherwise slot and variables are unchanged.
  Rows and columns are those of the two-dimensional view of the dimensions.
\<close>

lemma for_setup_iteration_count_rows_fit:
  assumes "0 < sp s" "sp s + 1 < length (stack s)" "stack s ! (sp s - 1) = OV v"
    and "supported_iterable v" "rows_fit_int v"
    and slot: "bsp s + induction_slot s < sp s - 1"
      "stack s ! (bsp s + induction_slot s) = OV lhs"
    and st: "storable_value h (canonical_iterable h v) = Inr w"
  shows "(\<exists>s'. for_setup h s = Next1 s' \<and> sp s' = sp s + 2
           \<and> stack s' ! sp s = I (iteration_count v) \<and> stack s' ! (sp s + 1) = I (- 1)
           \<and> stack s' ! (sp s - 1) = OV (canonical_iterable h v)
           \<and> (if iteration_count v = 0 \<and> is_defined (canonical_iterable h v) then
                (case lhs of
                   Ref k \<Rightarrow> refs s' = (refs s)(k := w)
                             \<and> stack s' ! (bsp s + induction_slot s) = OV lhs
                 | _ \<Rightarrow> stack s' ! (bsp s + induction_slot s) = OV w \<and> refs s' = refs s)
              else stack s' ! (bsp s + induction_slot s) = OV lhs \<and> refs s' = refs s))
       \<and> iteration_count (Cell 0 3 []) = 0
       \<and> iteration_count (Matrix [3, 0] []) = 0
       \<and> iteration_count (Scalar d) = 1"
proof -
  define ov_range where "ov_range = canonical_iterable h v"
  define n where "n = iteration_count v"
  define s2 where "s2 = (if \<not> is_trivial_range ov_range \<and> is_range v \<and> range_is_infinite ov_range
      then (set_direct (sp s - 1) ov_range s)\<lparr>n_warnings := n_warnings (set_direct (sp s - 1) ov_range s) + 1\<rparr>
      else set_direct (sp s - 1) ov_range s)"
  define s3 where "s3 = push (I (- 1)) (push (I n) s2)"
  define slot where "slot = bsp s + induction_slot s"
  have r: "sp s - 1 < length (stack s)" "slot < length (stack s)" "slot < sp s"
    "slot \<noteq> sp s - 1"
    using assms(1,2) slot(1) by (auto simp: slot_def)
  have s2f: "sp s2 = sp s" "stack s2 = (stack s)[sp s - 1 := OV ov_range]" "refs s2 = refs s"
    by (simp_all add: s2_def set_direct_def)
  have l2: "sp s2 + 1 < length (stack s2)" using assms(2) s2f by simp
  note p = push2_facts [OF l2, where a = "I n" and b = "I (- 1)", folded s3_def, unfolded s2f(1)]
  have low: "\<And>i. i < sp s \<Longrightarrow> stack s3 ! i = (stack s)[sp s - 1 := OV ov_range] ! i"
    using p(4) s2f(2) by simp
  have top: "stack s3 ! (sp s - 1) = OV ov_range"
    using low [of "sp s - 1"] assms(1) r(1) by simp
  have sl: "stack s3 ! slot = OV lhs"
    using low [of slot] r slot(2) by (simp add: slot_def)
  have len: "slot < length (stack s3)" using p(6) s2f(2) r(2) by simp
  have eq: "for_setup h s =
      (if n = 0 \<and> is_defined ov_range then for_setup_assign_empty h s s3 ov_range
       else Next1 s3)"
    using r(1) assms(3)
    by (simp add: for_setup_def with_ov_def for_setup_selected [OF assms(4,5)] Let_def
        s3_def s2_def n_def ov_range_def)
  have asg: "for_setup_assign_empty h s s3 ov_range =
      (case lhs of
         Ref k \<Rightarrow> Next1 (ref_set_value k w s3)
       | _ \<Rightarrow> Next1 (set_direct (bsp s + induction_slot s) w s3))"
    using len sl st unfolding slot_def
    by (simp add: for_setup_assign_empty_def with_ov_def Let_def ov_range_def
        induction_slot_def [symmetric])
  have ex: "iteration_count (Cell 0 3 []) = 0 \<and> iteration_count (Matrix [3, 0] []) = 0
       \<and> iteration_count (Scalar d) = 1"
    by (simp add: iteration_count_def)
  have main: "\<exists>s'. for_setup h s = Next1 s' \<and> sp s' = sp s + 2
           \<and> stack s' ! sp s = I n \<and> stack s' ! (sp s + 1) = I (- 1)
           \<and> stack s' ! (sp s - 1) = OV ov_range
           \<and> (if n = 0 \<and> is_defined ov_range then
                (case lhs of
                   Ref k \<Rightarrow> refs s' = (refs s)(k := w) \<and> stack s' ! slot = OV lhs
                 | _ \<Rightarrow> stack s' ! slot = OV w \<and> refs s' = refs s)
              else stack s' ! slot = OV lhs \<and> refs s' = refs s)"
  proof (cases "n = 0 \<and> is_defined ov_range")
    case False
    have "for_setup h s = Next1 s3" unfolding eq using False by auto
    then show ?thesis using False p top sl s2f(3) by auto
  next
    case True
    show ?thesis
    proof (cases "is_ref lhs")
      case ref: True
      then obtain k where k: "lhs = Ref k" by (cases lhs) simp_all
      have "for_setup h s = Next1 (ref_set_value k w s3)"
        unfolding eq asg using True k by auto
      then show ?thesis using True k p top sl s2f(3) by (auto simp: ref_set_value_def)
    next
      case noref: False
      then have "for_setup h s = Next1 (set_direct slot w s3)"
        unfolding eq asg using True by (cases lhs) (auto simp: slot_def)
      moreover have "(case lhs of
                   Ref k \<Rightarrow> refs (set_direct slot w s3) = (refs s)(k := w)
                             \<and> stack (set_direct slot w s3) ! slot = OV lhs
                 | _ \<Rightarrow> stack (set_direct slot w s3) ! slot = OV w
                        \<and> refs (set_direct slot w s3) = refs s)"
        using noref len p(5) s2f(3) by (cases lhs) (simp_all add: set_direct_facts)
      ultimately show ?thesis using True p(1-3) top r(3,4) assms(1)
        by (auto simp: set_direct_facts)
    qed
  qed
  show ?thesis using main ex unfolding n_def ov_range_def slot_def by blast
qed

lemma for_setup_iteration_count_example:
  "\<exists>s'. for_setup host_id c3_state = Next1 s' \<and> sp s' = 5
      \<and> stack s' ! 3 = I 0 \<and> stack s' ! 4 = I (- 1) \<and> stack s' ! 1 = OV (Cell 0 3 [])"
proof -
  have a: "0 < sp c3_state" "sp c3_state + 1 < length (stack c3_state)"
    "stack c3_state ! (sp c3_state - 1) = OV (Cell 0 3 [])"
    "supported_iterable (Cell 0 3 [])" "rows_fit_int (Cell 0 3 [])"
    "bsp c3_state + induction_slot c3_state < sp c3_state - 1"
    "stack c3_state ! (bsp c3_state + induction_slot c3_state) = OV (Scalar (Fin 5))"
    "storable_value host_id (canonical_iterable host_id (Cell 0 3 [])) = Inr (Cell 0 3 [])"
    by (simp_all add: c3_state_def vm0_def supported_iterable_def induction_slot_def
        canonical_iterable_def host_id_def INSTR_WIDE_def rows_fit_int_def)
  have i: "iteration_count (Cell 0 3 []) = 0" "canonical_iterable host_id (Cell 0 3 []) = Cell 0 3 []"
    "bsp c3_state + induction_slot c3_state = 1" "sp c3_state = 3"
    by (simp_all add: iteration_count_def canonical_iterable_def c3_state_def vm0_def
        induction_slot_def INSTR_WIDE_def)
  from for_setup_iteration_count_rows_fit [OF a, where d = "Fin 0"] show ?thesis
    unfolding i by auto
qed

text \<open>
  C3: the iteration count of \<open>FOR_SETUP\<close> is the number of columns for matrices, cells,
  strings and structs whose row count is nonzero. The handler reads the row count into an
  \<open>int\<close>, which loses the bits above the low 32: for a struct array of \<open>2^32\<close> rows and
  one column it takes the row count for zero, pushes \<open>n = 0\<close> where the count is 1, and
  assigns the iterable to the induction slot as it does for an empty one.
\<close>

theorem for_setup_row_count_truncated:
  "(case for_setup host_id c3_rows_state of
      Next1 s' \<Rightarrow> stack s' ! 3 = I 0 \<and> stack s' ! 4 = I (- 1)
                  \<and> stack s' ! 1 = OV (Struct 4294967296 1 [])
    | _ \<Rightarrow> False)
   \<and> supported_iterable (Struct 4294967296 1 [])
   \<and> iteration_count (Struct 4294967296 1 []) = 1"
  by (simp add: c3_rows_state_def vm0_def host_id_def for_setup_def for_setup_select_def
      for_setup_assign_empty_def with_ov_def idx_to_int_def numeric_class_iff push_def
      set_direct_def INSTR_WIDE_def supported_iterable_def iteration_count_def Let_def)

subsection \<open>Multi-target assignment\<close>

lemma takeWhile_pos_hd: "0 < length (takeWhile P xs) \<Longrightarrow> xs \<noteq> [] \<and> P (hd xs)"
  by (cases xs) (auto split: if_splits)

lemma lookup_sorted_real:
  fixes rs :: "real list"
  assumes "sorted rs"
  shows "(0 < length (takeWhile (\<lambda>r. r \<le> v) rs)
          \<and> rs ! (length (takeWhile (\<lambda>r. r \<le> v) rs) - 1) = v) = (v \<in> set rs)"
  using assms
proof (induction rs)
  case Nil
  then show ?case by simp
next
  case (Cons a xs)
  let ?k = "length (takeWhile (\<lambda>r. r \<le> v) xs)"
  have s: "sorted xs" "\<forall>x\<in>set xs. a \<le> x" using Cons.prems by simp_all
  note IH = Cons.IH [OF s(1)]
  show ?case
  proof (cases "a \<le> v")
    case False
    then have "v \<notin> set (a # xs)" using s(2) by auto
    with False show ?thesis by simp
  next
    case True
    show ?thesis
    proof (cases "?k = 0")
      case k0: True
      then have "v \<notin> set xs" using IH by simp
      with True k0 show ?thesis by auto
    next
      case kp: False
      then have "xs \<noteq> [] \<and> hd xs \<le> v" using takeWhile_pos_hd [of "\<lambda>r. r \<le> v" xs] by simp
      then have h: "hd xs \<in> set xs" "hd xs \<le> v" by simp_all
      have "v = a \<Longrightarrow> v \<in> set xs"
      proof -
        assume "v = a"
        then have "hd xs = v" using h s(2) by force
        then show "v \<in> set xs" using h(1) by simp
      qed
      with True kp IH show ?thesis by auto
    qed
  qed
qed

lemma lookup_sorted:
  assumes "sorted rs"
  shows "(0 < lookup (map Fin rs) (Fin v)
          \<and> map Fin rs ! (lookup (map Fin rs) (Fin v) - 1) = Fin v) = (v \<in> set rs)"
proof -
  have t: "takeWhile (\<lambda>x. dbl_le x (Fin v)) (map Fin rs) = map Fin (takeWhile (\<lambda>r. r \<le> v) rs)"
    by (simp add: takeWhile_map comp_def)
  let ?k = "length (takeWhile (\<lambda>r. r \<le> v) rs)"
  have l: "lookup (map Fin rs) (Fin v) = ?k" by (simp add: lookup_def t)
  have le: "?k \<le> length rs" by (rule length_takeWhile_le)
  have n: "0 < ?k \<Longrightarrow> map Fin rs ! (?k - 1) = Fin (rs ! (?k - 1))"
  proof -
    assume "0 < ?k"
    then have "?k - 1 < length rs" using le by linarith
    then show ?thesis by (rule nth_map)
  qed
  show ?thesis using lookup_sorted_real [OF assms, of v] n unfolding l by auto
qed

lemma black_hole_name_iff:
  "black_hole_name name = (2 \<le> length name \<and> name ! 0 = CHR ''%'' \<and> name ! 1 = CHR ''~'')"
proof (cases name)
  case Nil
  then show ?thesis by (simp add: black_hole_name_def)
next
  case (Cons a as)
  then show ?thesis by (cases as) (auto simp: black_hole_name_def)
qed

lemma is_ignored_slot_sorted:
  assumes "ignored_var s = Undef \<or> (\<exists>dv. ignored_var s = Matrix dv (map Fin ignored))"
    and "sorted ignored"
  shows "is_ignored_slot s slot = Some (accepts_undefined s slot ignored)"
proof (cases "ignored_var s = Undef")
  case True
  then show ?thesis
    by (simp add: is_ignored_slot_def accepts_undefined_def black_hole_name_iff Let_def)
next
  case False
  with assms(1) obtain dv where m: "ignored_var s = Matrix dv (map Fin ignored)" by blast
  show ?thesis
    using lookup_sorted [OF assms(2), of "of_int (n_returns_abs s - 1 - int slot)"]
    by (simp add: is_ignored_slot_def accepts_undefined_def black_hole_name_iff Let_def m
        n_returns_abs_def)
qed

text \<open>
  The test of \<open>ASSIGNN\<close> on an undefined value (after the storable transform) for a
  slot, with IGNORED undefined or a matrix in ascending order: the value is stored,
  directly or through the slot's wrapper, or the execution error "element number N
  undefined in return list" is pushed, \<open>N\<close> one more than the count of values assigned
  before.
\<close>

lemma assign_n_value_undefined:
  assumes "bsp s + slot < length (stack s)" "stack s ! (bsp s + slot) = OV lhs"
    and "is_undefined (storable h v)"
    and "ignored_var s = Undef \<or> (\<exists>dv. ignored_var s = Matrix dv (map Fin ignored))"
    and "sorted ignored"
  shows "assign_n_value h s slot n_actual v =
     (if accepts_undefined s slot ignored then
        (case lhs of
           Ref k \<Rightarrow> Next (ref_set_value k (storable h v) s)
         | _ \<Rightarrow> Next (set_direct (bsp s + slot) (storable h v) s))
      else
        Unwind (push (ErrTag EXECUTION_EXC)
          (push (PEE ''error'' []
             (''element number '' @ to_string (n_actual + 1) @ '' undefined in return list''))
             s)))"
  using assms(1-3)
  by (simp add: assign_n_value_def with_ov_def is_ignored_slot_sorted [OF assms(4,5)]
      Let_def flip: storable_def)

lemma assign_n_black_hole_example:
  "(case assign_n host_id c4_state of
      Next s' \<Rightarrow> stack s' ! 2 = OV (Scalar (Fin 7)) \<and> stack s' ! 3 = OV Undef \<and> sp s' = 4
    | _ \<Rightarrow> False)
   \<and> undefined_accepted c4_state 3"
  by (simp add: assign_n_def assign_n_loop.simps c4_state_def vm0_def host_id_def
      POP_CODE_USHORT_def USHORT_FROM_UCHARS_def assign_n_value_def with_ov_def
      is_ignored_slot_def is_undefined_def set_direct_def Let_def
      undefined_accepted_def black_hole_name_def)

text \<open>
  C4: an undefined value in \<open>ASSIGNN\<close> is accepted if and only if the slot's name begins
  with \<open>%~\<close> or its output index appears in IGNORED. The handler looks up
  \<open>n_returns - 1 - slot\<close> in IGNORED instead of the output index. In the frame of
  \<open>function [a, b] = g ()\<close> called as \<open>[x, ~] = g ()\<close>, IGNORED is \<open>[2]\<close>; an
  undefined value for \<open>b\<close>, the ignored output 2 in slot 2, should be accepted, but the
  handler looks up \<open>3 - 1 - 2 = 0\<close>, finds nothing, and raises "element number 2
  undefined in return list" after it has assigned \<open>a\<close>.
\<close>

theorem assign_n_ignored_output_rejected:
  "(case assign_n host_id c4_ignored_state of
      Unwind s' \<Rightarrow>
        stack s' ! (sp s' - 1) = ErrTag EXECUTION_EXC
        \<and> stack s' ! (sp s' - 2) =
            PEE ''error'' [] (''element number '' @ to_string 2 @ '' undefined in return list'')
        \<and> stack s' ! 1 = OV (Scalar (Fin 7)) \<and> stack s' ! 2 = OV Undef
    | _ \<Rightarrow> False)
   \<and> undefined_accepted c4_ignored_state 2
   \<and> \<not> accepts_undefined c4_ignored_state 2 [2]"
  by (simp add: assign_n_def assign_n_loop.simps c4_ignored_state_def vm0_def host_id_def
      POP_CODE_USHORT_def USHORT_FROM_UCHARS_def assign_n_value_def with_ov_def
      is_ignored_slot_def is_undefined_def set_direct_def N_RETURNS_def lookup_def push_def
      Let_def undefined_accepted_def output_index_ignored_def ignored_outputs_def
      n_returns_abs_def accepts_undefined_def black_hole_name_def)

subsection \<open>Return from a bytecode function\<close>

lemma push_sp [simp]: "sp (push e s) = sp s + 1"
  by (simp add: push_def)

lemma push_list_sp [simp]: "sp (push_list es s) = sp s + length es"
  by (induction es arbitrary: s) simp_all

lemma put_all_sp [simp]: "sp (put_all is e s) = sp s"
  by (induction "is" arbitrary: s) simp_all

lemma put_ovs_sp [simp]: "sp (put_ovs i vs s) = sp s"
  by (induction vs arbitrary: i s) simp_all

lemma ovs_at_length: "ovs_at s is = Some vs \<Longrightarrow> length vs = length is"
  by (induction "is" arbitrary: vs) (auto split: if_splits stack_element.splits option.splits)

lemma ret_move_returns_sp:
  assumes "ret_move_returns s cse e has = Next s'" "0 \<le> e" "0 \<le> has"
  shows "sp s' = sp s + nat (max 1 e)"
proof -
  define sources where "sources = (if e = 0 \<and> has \<noteq> 0 then [cse + 1]
                     else if e = 0 then []
                     else map (\<lambda>i. cse + 1 + i) [0 ..< nat (min e has)])"
  from assms(1) obtain vals where v: "ovs_at s sources = Some vals"
    by (cases "ovs_at s sources") (simp_all add: ret_move_returns_def sources_def Let_def)
  have l: "length vals = length sources" using ovs_at_length [OF v] .
  have n: "nat (min e has) + nat (e - min e has) = nat e" using assms(2,3) by linarith
  from assms(1) v l n assms(2,3) show ?thesis
    by (auto simp: ret_move_returns_def sources_def [symmetric] Let_def
        split: if_splits) (auto simp: sources_def)
qed

lemma ret_expand_varargout_sp:
  assumes "ret_expand_varargout s cse e has0 = Inr (s2, has)" "1 \<le> has0"
  shows "sp s2 = sp s \<and> 0 \<le> has"
  using assms
  by (auto simp: ret_expand_varargout_def Let_def split: if_splits stack_element.splits)

lemma ret_expand_varargout_error:
  "ret_expand_varargout s cse e has0 = Inl out \<Longrightarrow> out \<noteq> Next s'"
  by (auto simp: ret_expand_varargout_def Let_def split: if_splits stack_element.splits)

lemma STACK_DESTROY_bsp [simp]: "bsp (STACK_DESTROY n s) = bsp s"
  by (induction n arbitrary: s) simp_all

lemma STACK_DESTROY_rsp [simp]: "rsp (STACK_DESTROY n s) = rsp s"
  by (induction n arbitrary: s) simp_all

lemma STACK_DESTROY_length [simp]: "length (stack (STACK_DESTROY n s)) = length (stack s)"
  by (induction n arbitrary: s) simp_all

lemma ret_to_caller_sp:
  assumes "ret_to_caller s n is_va = Next s'"
    and "stack s ! (sp s - nat n - 1) = I e" "stack s ! (sp s - nat n - 8) = PSE first_arg"
    and "0 \<le> e" "1 \<le> n" "is_va \<longrightarrow> 2 \<le> n"
  shows "sp s' = first_arg - 1 + nat (max 1 e)"
proof -
  define cse where "cse = sp s - nat n"
  from assms(1) obtain ip' bsp' nd' d' c' u' where
    t: "stack s ! (cse - 2) = PUC ip'" "stack s ! (cse - 3) = PSE bsp'"
       "stack s ! (cse - 4) = PTR nd'" "stack s ! (cse - 5) = PTR d'"
       "stack s ! (cse - 6) = PUC c'" "stack s ! (cse - 7) = PTR u'"
    unfolding ret_to_caller_def cse_def [symmetric] Let_def
    by (auto split: if_splits stack_element.splits prod.splits)
  define s1 where "s1 = STACK_DESTROY 1
                        (s\<lparr>ip := ip', bsp := bsp', name_data := nd', data := d',
                            code := c', unwind_data := u', sp := first_arg\<rparr>)"
  have sp1: "sp s1 = first_arg - 1" by (simp add: s1_def)
  have r: "(if is_va then
               (case ret_expand_varargout s1 cse e (n - 1) of
                  Inl out \<Rightarrow> out
                | Inr (s2, has') \<Rightarrow> ret_move_returns s2 cse e has')
             else ret_move_returns s1 cse e (n - 1)) = Next s'"
    using assms(1-3) t
    unfolding ret_to_caller_def cse_def [symmetric] Let_def s1_def
    by (simp split: if_splits)
  show ?thesis
  proof (cases is_va)
    case False
    with r have "ret_move_returns s1 cse e (n - 1) = Next s'" by simp
    from ret_move_returns_sp [OF this assms(4)] assms(5) sp1 show ?thesis by simp
  next
    case True
    with r obtain s2 has' where
      x: "ret_expand_varargout s1 cse e (n - 1) = Inr (s2, has')"
      and m: "ret_move_returns s2 cse e has' = Next s'"
      using ret_expand_varargout_error [of s1 cse e "n - 1" _ s']
      by (auto split: sum.splits)
    have "1 \<le> n - 1" using True assms(6) by simp
    from ret_expand_varargout_sp [OF x this] have h: "sp s2 = sp s1" "0 \<le> has'" by simp_all
    from ret_move_returns_sp [OF m assms(4) h(2)] h(1) sp1 show ?thesis by simp
  qed
qed

lemma ret_to_caller_base:
  "ret_to_caller s n is_va = Next s' \<Longrightarrow> 8 \<le> sp s - nat n"
  unfolding ret_to_caller_def Let_def by (simp split: if_splits)

lemma ret_root_not_Next: "ret_root rn s n is_va \<noteq> Next s'"
  by (simp add: ret_root_def Let_def split: option.splits)

lemma ret_reaches_caller:
  assumes "ret rn s = Next s'"
  shows "bsp s + N_LOCALS s = sp s
       \<and> 0 < (if N_RETURNS s < 0 then - N_RETURNS s else N_RETURNS s)
       \<and> (if N_RETURNS s < 0 then - N_RETURNS s else N_RETURNS s) \<le> int (N_LOCALS s)
       \<and> ret_to_caller
            (STACK_DESTROY (nat (int (N_LOCALS s)
                 - (if N_RETURNS s < 0 then - N_RETURNS s else N_RETURNS s))) s)
            (if N_RETURNS s < 0 then - N_RETURNS s else N_RETURNS s) (N_RETURNS s < 0) = Next s'"
  using assms ret_root_not_Next
  unfolding ret_def Let_def
  by (auto split: if_splits)

lemma ret_sp_after_return:
  assumes "ret root_nargout s = Next s'"
    and "stack s ! (bsp s - 1) = I caller_nargout" "stack s ! (bsp s - 8) = PSE first_arg"
    and "0 \<le> caller_nargout" "N_RETURNS s \<noteq> - 1"
  shows "sp s' = first_arg - 1 + nat (max 1 caller_nargout)"
proof -
  define n where "n = (if N_RETURNS s < 0 then - N_RETURNS s else N_RETURNS s)"
  define s1 where "s1 = STACK_DESTROY (nat (int (N_LOCALS s) - n)) s"
  from ret_reaches_caller [OF assms(1)]
  have a: "bsp s + N_LOCALS s = sp s" "0 < n" "n \<le> int (N_LOCALS s)"
    "ret_to_caller s1 n (N_RETURNS s < 0) = Next s'"
    unfolding n_def s1_def by simp_all
  have sp1: "sp s1 = bsp s + nat n" using a(1-3) by (simp add: s1_def)
  then have cse: "sp s1 - nat n = bsp s" by simp
  from ret_to_caller_base [OF a(4)] cse have b: "8 \<le> bsp s" by simp
  have below: "\<And>i. i < bsp s \<Longrightarrow> stack s1 ! i = stack s ! i"
    unfolding s1_def using a(1-3) by (intro STACK_DESTROY_stack_below) linarith
  have r: "stack s1 ! (sp s1 - nat n - 1) = I caller_nargout"
    "stack s1 ! (sp s1 - nat n - 8) = PSE first_arg"
    using below [of "bsp s - 1"] below [of "bsp s - 8"] b assms(2,3) cse by simp_all
  have v: "N_RETURNS s < 0 \<longrightarrow> 2 \<le> n" using assms(5) by (auto simp: n_def)
  from ret_to_caller_sp [OF a(4) r assms(4) _ v] a(2) show ?thesis by simp
qed

lemma put_all_length [simp]: "length (stack (put_all is e s)) = length (stack s)"
  by (induction "is" arbitrary: s) simp_all

lemma put_all_other: "i \<notin> set is \<Longrightarrow> stack (put_all is e s) ! i = stack s ! i"
  by (induction "is" arbitrary: s) auto

lemma ovs_at_single: "ovs_at s [i] = Some vals \<Longrightarrow> stack s ! i = OV (hd vals) \<and> length vals = 1"
  by (auto split: if_splits stack_element.splits)

lemma ret_move_returns_ans:
  assumes "ret_move_returns s cse 0 has = Next s'" "sp s < cse" "sp s < length (stack s)"
  shows "stack s' ! sp s = (if has \<noteq> 0 then stack s ! (cse + 1) else OV Undef)"
proof (cases "has = 0")
  case True
  with assms show ?thesis
    by (auto simp: ret_move_returns_def Let_def push_def put_all_other)
next
  case False
  with assms(1) obtain vals where v: "ovs_at s [cse + 1] = Some vals"
    by (cases "ovs_at s [cse + 1]") (simp_all add: ret_move_returns_def Let_def)
  from ovs_at_single [OF v] obtain x where x: "vals = [x]" "stack s ! (cse + 1) = OV x"
    by (cases vals) auto
  have n: "sp s \<notin> set (map ((+) (Suc cse)) (rev [0 ..< nat has]))" using assms(2) by auto
  from assms(1) False v x have
    "s' = put_all (map ((+) (Suc cse)) (rev [0 ..< nat has])) Free
            (push (OV x) (s\<lparr>stack := (stack s)[Suc cse := OV Undef]\<rparr>))"
    by (auto simp: ret_move_returns_def Let_def)
  then show ?thesis using False x(2) assms(2,3) put_all_other [OF n]
    by (simp add: push_def)
qed

lemma ret_to_caller_struct:
  assumes "ret_to_caller s n is_va = Next s'"
    and "stack s ! (sp s - nat n - 1) = I e" "stack s ! (sp s - nat n - 8) = PSE first_arg"
  shows "\<exists>s1. sp s1 = first_arg - 1 \<and> stack s1 = (stack s)[first_arg - 1 := Free]
           \<and> sp s - nat n \<le> length (stack s)
           \<and> (if is_va then
                 (case ret_expand_varargout s1 (sp s - nat n) e (n - 1) of
                    Inl out \<Rightarrow> out
                  | Inr (s2, has') \<Rightarrow> ret_move_returns s2 (sp s - nat n) e has')
               else ret_move_returns s1 (sp s - nat n) e (n - 1)) = Next s'"
proof -
  define cse where "cse = sp s - nat n"
  from assms(1) obtain ip' bsp' nd' d' c' u' where
    t: "stack s ! (cse - 2) = PUC ip'" "stack s ! (cse - 3) = PSE bsp'"
       "stack s ! (cse - 4) = PTR nd'" "stack s ! (cse - 5) = PTR d'"
       "stack s ! (cse - 6) = PUC c'" "stack s ! (cse - 7) = PTR u'"
    unfolding ret_to_caller_def cse_def [symmetric] Let_def
    by (auto split: if_splits stack_element.splits prod.splits)
  define s1 where "s1 = STACK_DESTROY 1
                        (s\<lparr>ip := ip', bsp := bsp', name_data := nd', data := d',
                            code := c', unwind_data := u', sp := first_arg\<rparr>)"
  have f: "sp s1 = first_arg - 1" "stack s1 = (stack s)[first_arg - 1 := Free]"
    by (simp_all add: s1_def)
  have l: "cse \<le> length (stack s)"
    using assms(1) unfolding ret_to_caller_def cse_def [symmetric] Let_def
    by (simp split: if_splits)
  have r: "(if is_va then
               (case ret_expand_varargout s1 cse e (n - 1) of
                  Inl out \<Rightarrow> out
                | Inr (s2, has') \<Rightarrow> ret_move_returns s2 cse e has')
             else ret_move_returns s1 cse e (n - 1)) = Next s'"
    using assms(1-3) t
    unfolding ret_to_caller_def cse_def [symmetric] Let_def s1_def
    by (simp split: if_splits)
  show ?thesis using f l r unfolding cse_def by blast
qed

lemma ret_binds_ans:
  assumes "ret root_nargout s = Next s'"
    and "stack s ! (bsp s - 1) = I 0" "stack s ! (bsp s - 8) = PSE first_arg"
    and "0 < first_arg" "first_arg \<le> bsp s" "0 < N_RETURNS s"
  shows "stack s' ! (first_arg - 1) = (if 1 < N_RETURNS s then stack s ! (bsp s + 1) else OV Undef)"
proof -
  define n where "n = N_RETURNS s"
  define s0 where "s0 = STACK_DESTROY (nat (int (N_LOCALS s) - n)) s"
  from ret_reaches_caller [OF assms(1)] assms(6)
  have a: "bsp s + N_LOCALS s = sp s" "0 < n" "n \<le> int (N_LOCALS s)"
    "ret_to_caller s0 n False = Next s'"
    unfolding n_def s0_def by simp_all
  have sp0: "sp s0 = bsp s + nat n" using a(1-3) by (simp add: s0_def)
  then have cse: "sp s0 - nat n = bsp s" by simp
  from ret_to_caller_base [OF a(4)] cse have b: "8 \<le> bsp s" by simp
  have below: "\<And>i. i < bsp s + nat n \<Longrightarrow> stack s0 ! i = stack s ! i"
    unfolding s0_def using a(1-3) by (intro STACK_DESTROY_stack_below) linarith
  have r: "stack s0 ! (sp s0 - nat n - 1) = I 0"
    "stack s0 ! (sp s0 - nat n - 8) = PSE first_arg"
    using below [of "bsp s - 1"] below [of "bsp s - 8"] b assms(2,3) cse by simp_all
  from ret_to_caller_struct [OF a(4) r] cse obtain s1 where
    s1: "sp s1 = first_arg - 1" "stack s1 = (stack s0)[first_arg - 1 := Free]"
      "bsp s \<le> length (stack s0)" "ret_move_returns s1 (bsp s) 0 (n - 1) = Next s'"
    by auto
  have p: "sp s1 < bsp s" "sp s1 < length (stack s1)" using s1(1-3) assms(4,5) by simp_all
  have "stack s' ! sp s1 = (if n - 1 \<noteq> 0 then stack s1 ! (bsp s + 1) else OV Undef)"
    by (rule ret_move_returns_ans [OF s1(4) p])
  moreover have "1 < n \<Longrightarrow> stack s1 ! (bsp s + 1) = stack s ! (bsp s + 1)"
    using s1(2) assms(4,5) below [of "bsp s + 1"] by simp
  ultimately show ?thesis using a(2) s1(1) unfolding n_def by auto
qed

lemma put_ovs_length [simp]: "length (stack (put_ovs i vs s)) = length (stack s)"
  by (induction vs arbitrary: i s) simp_all

lemma ret_expand_varargout_ans:
  assumes "ret_expand_varargout s1 cse 0 has0 = Inr (s2, has')" "1 \<le> has0"
    and "stack s1 ! (cse + nat has0) = OV v"
  shows "sp s2 = sp s1 \<and> length (stack s2) = length (stack s1)
       \<and> (if 2 \<le> has0 then has' \<noteq> 0 \<and> stack s2 ! (cse + 1) = stack s1 ! (cse + 1)
          else if cell_elems v = [] then has' = 0
          else has' \<noteq> 0 \<and> stack s2 ! (cse + 1) = OV (hd (cell_elems v)))"
proof (cases "2 \<le> has0")
  case True
  then have m: "min (int (length (cell_elems v))) (max 0 (max 1 0 - (has0 - 1))) = 0" by simp
  have ne: "cse + nat has0 \<noteq> cse + 1" using True by simp
  show ?thesis using assms True ne
    unfolding ret_expand_varargout_def Let_def
    by (auto simp: m split: if_splits)
next
  case False
  then have h: "has0 = 1" using assms(2) by simp
  show ?thesis
  proof (cases "cell_elems v")
    case Nil
    then show ?thesis using assms h
      unfolding ret_expand_varargout_def Let_def
      by (auto split: if_splits)
  next
    case (Cons x xs)
    then have m: "min (int (length (cell_elems v))) (max 0 (max 1 0 - (has0 - 1))) = 1"
      using h by simp
    have d: "is_defined v" using Cons by (cases v) simp_all
    show ?thesis using assms h Cons d
      unfolding ret_expand_varargout_def Let_def
      by (auto simp: m split: if_splits)
  qed
qed

lemma ret_expand_varargout_reads:
  "ret_expand_varargout s1 cse e has0 = Inr r \<Longrightarrow> \<exists>v. stack s1 ! (cse + nat has0) = OV v"
  by (auto simp: ret_expand_varargout_def Let_def split: if_splits stack_element.splits)

lemma ans_value_eq:
  "ans_value s =
     (if 0 < N_RETURNS s then (if 1 < N_RETURNS s then stack s ! (bsp s + 1) else OV Undef)
      else if 3 \<le> - N_RETURNS s then stack s ! (bsp s + 1)
      else (case stack s ! (bsp s + nat (- N_RETURNS s) - 1) of
              OV v \<Rightarrow> (if cell_elems v = [] then OV Undef else OV (hd (cell_elems v)))
            | _ \<Rightarrow> OV Undef))"
proof -
  have a: "\<And>k f d. 1 < k \<Longrightarrow> (case map f [1 ..< k] of [] \<Rightarrow> d | v # _ \<Rightarrow> v) = f 1"
    by (simp add: upt_conv_Cons)
  have b: "\<And>xs. (case map OV xs of [] \<Rightarrow> OV Undef | v # _ \<Rightarrow> v)
                 = (if xs = [] then OV Undef else OV (hd xs))"
    by (case_tac xs) simp_all
  show ?thesis
  proof (cases "0 < N_RETURNS s")
    case True
    then show ?thesis
      using a [where k = "nat (N_RETURNS s)" and f = "\<lambda>j. stack s ! (bsp s + j)"
          and d = "OV Undef"]
      by (auto simp: ans_value_def callee_values_def)
  next
    case False
    show ?thesis
    proof (cases "3 \<le> - N_RETURNS s")
      case True
      then have "1 < nat (- N_RETURNS s) - 1" by linarith
      then have "map (\<lambda>j. stack s ! (bsp s + j)) [1 ..< nat (- N_RETURNS s) - 1]
          = stack s ! (bsp s + 1) # map (\<lambda>j. stack s ! (bsp s + j)) [2 ..< nat (- N_RETURNS s) - 1]"
        by (simp add: upt_conv_Cons numeral_2_eq_2)
      with False True show ?thesis by (simp add: ans_value_def callee_values_def)
    next
      case f: False
      then have "[1 ..< nat (- N_RETURNS s) - 1] = []" by simp
      with False f show ?thesis
        by (simp add: ans_value_def callee_values_def b split: stack_element.splits)
    qed
  qed
qed

lemma ret_binds_ans_varargout:
  assumes "ret root_nargout s = Next s'"
    and "stack s ! (bsp s - 1) = I 0" "stack s ! (bsp s - 8) = PSE first_arg"
    and "0 < first_arg" "first_arg \<le> bsp s" "N_RETURNS s < - 1"
  shows "stack s' ! (first_arg - 1) = ans_value s"
proof -
  define n where "n = - N_RETURNS s"
  define s0 where "s0 = STACK_DESTROY (nat (int (N_LOCALS s) - n)) s"
  from ret_reaches_caller [OF assms(1)] assms(6)
  have a: "bsp s + N_LOCALS s = sp s" "2 \<le> n" "n \<le> int (N_LOCALS s)"
    "ret_to_caller s0 n True = Next s'"
    unfolding n_def s0_def by simp_all
  have sp0: "sp s0 = bsp s + nat n" using a(1-3) by (simp add: s0_def)
  then have cse: "sp s0 - nat n = bsp s" by simp
  from ret_to_caller_base [OF a(4)] cse have b: "8 \<le> bsp s" by simp
  have below: "\<And>i. i < bsp s + nat n \<Longrightarrow> stack s0 ! i = stack s ! i"
    unfolding s0_def using a(1-3) by (intro STACK_DESTROY_stack_below) linarith
  have r: "stack s0 ! (sp s0 - nat n - 1) = I 0"
    "stack s0 ! (sp s0 - nat n - 8) = PSE first_arg"
    using below [of "bsp s - 1"] below [of "bsp s - 8"] b assms(2,3) cse by simp_all
  from ret_to_caller_struct [OF a(4) r, unfolded cse] obtain s1 where
    s1: "sp s1 = first_arg - 1" "stack s1 = (stack s0)[first_arg - 1 := Free]"
      "bsp s \<le> length (stack s0)"
      "(case ret_expand_varargout s1 (bsp s) 0 (n - 1) of
          Inl out \<Rightarrow> out
        | Inr (s2, has') \<Rightarrow> ret_move_returns s2 (bsp s) 0 has') = Next s'"
    by auto
  from s1(4) obtain s2 has' where
    x: "ret_expand_varargout s1 (bsp s) 0 (n - 1) = Inr (s2, has')"
    and m: "ret_move_returns s2 (bsp s) 0 has' = Next s'"
    using ret_expand_varargout_error [of s1 "bsp s" 0 "n - 1" _ s']
    by (auto split: sum.splits)
  from ret_expand_varargout_reads [OF x] obtain v where
    v: "stack s1 ! (bsp s + nat (n - 1)) = OV v" by blast
  have h: "1 \<le> n - 1" using a(2) by simp
  note e = ret_expand_varargout_ans [OF x h v]
  have p: "sp s2 < bsp s" "sp s2 < length (stack s2)" using e s1(1-3) assms(4,5) by simp_all
  have ans: "stack s' ! sp s2 = (if has' \<noteq> 0 then stack s2 ! (bsp s + 1) else OV Undef)"
    by (rule ret_move_returns_ans [OF m p])
  have i: "bsp s + nat (n - 1) = bsp s + nat n - 1" using a(2) by linarith
  have v': "stack s ! (bsp s + nat n - 1) = OV v"
    using v s1(2) assms(4,5) below [of "bsp s + nat n - 1"] a(2) unfolding i by simp
  have one: "stack s1 ! (bsp s + 1) = stack s ! (bsp s + 1)"
    using s1(2) assms(4,5) below [of "bsp s + 1"] a(2) by simp
  have sp2: "sp s2 = first_arg - 1" using e s1(1) by simp
  show ?thesis
  proof (cases "3 \<le> n")
    case True
    then have "2 \<le> n - 1" by simp
    with e have "has' \<noteq> 0" "stack s2 ! (bsp s + 1) = stack s1 ! (bsp s + 1)" by simp_all
    with ans one sp2 True assms(6) show ?thesis
      by (simp add: ans_value_eq n_def)
  next
    case False
    then have n2: "n = 2" using a(2) by simp
    then have "\<not> 2 \<le> n - 1" by simp
    have c: "if cell_elems v = [] then has' = 0
          else has' \<noteq> 0 \<and> stack s2 ! (bsp s + 1) = OV (hd (cell_elems v))"
      using e unfolding n2 by auto
    have "ans_value s = (if cell_elems v = [] then OV Undef else OV (hd (cell_elems v)))"
      using v' n2 assms(6) unfolding n_def by (simp add: ans_value_eq)
    with c ans sp2 show ?thesis by (auto split: if_splits)
  qed
qed



subsection \<open>Binary operators\<close>

lemma generic_op_cached: "generic_op op = m_fn_dbl_op op"
  by (cases op) simp_all

lemma instr_generic [simp]: "instr (INSTR_generic op) = Some (\<lambda>ti. binop_selfmodifying ti op)"
  by (cases op) (simp_all add: instr.simps)

lemma instr_dbl [simp]: "instr (INSTR_dbl op) = Some (\<lambda>ti. binop_dbl ti op)"
  by (cases op) (simp_all add: instr.simps)

lemma binop_dbl_scalars:
  assumes "2 \<le> sp s" "sp s \<le> length (stack s)"
    and "stack s ! (sp s - 2) = OV a" "stack s ! (sp s - 1) = OV b"
    and "both_scalar a b" "m_fn_dbl ti op \<noteq> None"
  shows "binop_dbl ti op s = binop_result ti op a b s"
  using assms
  by (auto simp: binop_dbl_def binop_result_def with_ov_def both_scalar_def binary_op_def
      m_fn_dbl_def generic_op_cached m_scalar_typeid_def)

lemma binop_dbl_others:
  assumes "2 \<le> sp s" "sp s \<le> length (stack s)"
    and "stack s ! (sp s - 2) = OV a" "stack s ! (sp s - 1) = OV b"
    and "\<not> both_scalar a b"
  shows "binop_dbl ti op s =
         Goto (L_binop op) (s\<lparr>code_mem := (code_mem s)[ip s - 2 := INSTR_generic op]\<rparr>)"
  using assms
  by (auto simp: binop_dbl_def with_ov_def both_scalar_def)

lemma binop_selfmodifying_scalars:
  assumes "2 \<le> sp s" "sp s \<le> length (stack s)"
    and "stack s ! (sp s - 2) = OV a" "stack s ! (sp s - 1) = OV b"
    and "both_scalar a b"
  shows "binop_selfmodifying ti op s =
         Goto (L_binop_dbl op) (s\<lparr>code_mem := (code_mem s)[ip s - 2 := INSTR_dbl op]\<rparr>)"
  using assms
  by (auto simp: binop_selfmodifying_def with_ov_def both_scalar_def)

lemma binop_selfmodifying_others:
  assumes "2 \<le> sp s" "sp s \<le> length (stack s)"
    and "stack s ! (sp s - 2) = OV a" "stack s ! (sp s - 1) = OV b"
    and "\<not> both_scalar a b"
  shows "binop_selfmodifying ti op s = binop_result ti op a b s"
  using assms
  by (auto simp: binop_selfmodifying_def binop_result_def with_ov_def both_scalar_def)

lemma push_code_mem [simp]: "code_mem (push e s) = code_mem s"
  by (simp add: push_def)

lemma catch5_code_mem: "state_of (catch5 e s) = Some s1 \<Longrightarrow> code_mem s1 = code_mem s"
  by (cases e) auto

lemma catch5_not_Goto: "(case catch5 e s of Goto l s' \<Rightarrow> f l s' | r \<Rightarrow> r) = catch5 e s"
  by (cases e) simp_all

lemma binop_result_not_Goto:
  "(case binop_result ti op a b s of Goto l s' \<Rightarrow> f l s' | r \<Rightarrow> r) = binop_result ti op a b s"
  by (simp add: binop_result_def catch5_not_Goto split: sum.splits)

lemma binop_result_code_mem:
  "state_of (binop_result ti op a b s) = Some s1 \<Longrightarrow> code_mem s1 = code_mem s"
  by (auto simp: binop_result_def catch5_code_mem STACK_DESTROY_numeral split: sum.splits)

lemma execute_binop_result:
  assumes "binop_operands s op a b" "both_scalar a b \<longrightarrow> m_fn_dbl ti op \<noteq> None"
  shows "execute_binop ti s =
         binop_result ti op a b (s\<lparr>code_mem := (code_mem s)[ip s - 2 := cached_opcode op a b]\<rparr>)"
proof -
  from assms(1) have o: "2 \<le> sp s" "sp s \<le> length (stack s)"
    "stack s ! (sp s - 2) = OV a" "stack s ! (sp s - 1) = OV b"
    and c: "2 \<le> ip s" "ip s - 2 < length (code_mem s)"
    and i: "code_mem s ! (ip s - 2) = INSTR_generic op \<or> code_mem s ! (ip s - 2) = INSTR_dbl op"
    by (simp_all add: binop_operands_def)
  define s' where "s' = s\<lparr>code_mem := (code_mem s)[ip s - 2 := cached_opcode op a b]\<rparr>"
  have o': "2 \<le> sp s'" "sp s' \<le> length (stack s')"
    "stack s' ! (sp s' - 2) = OV a" "stack s' ! (sp s' - 1) = OV b"
    using o by (simp_all add: s'_def)
  show ?thesis
  proof (cases "both_scalar a b")
    case True
    with assms(2) have m: "m_fn_dbl ti op \<noteq> None" by simp
    have s'': "s' = s\<lparr>code_mem := (code_mem s)[ip s - 2 := INSTR_dbl op]\<rparr>"
      using True by (simp add: s'_def cached_opcode_def)
    from i show ?thesis
    proof
      assume g: "code_mem s ! (ip s - 2) = INSTR_generic op"
      have "execute_binop ti s = binop_dbl ti op s'"
        using c g binop_selfmodifying_scalars [OF o True, of ti op]
        by (simp add: execute_binop_def s'')
      also have "\<dots> = binop_result ti op a b s'"
        by (rule binop_dbl_scalars [OF o' True m])
      finally show ?thesis unfolding s'_def .
    next
      assume d: "code_mem s ! (ip s - 2) = INSTR_dbl op"
      then have e: "s' = s" unfolding s'' by (simp add: list_update_same_conv c)
      have "execute_binop ti s = binop_result ti op a b s"
        using c d binop_dbl_scalars [OF o True m]
        by (simp add: execute_binop_def binop_result_not_Goto)
      then show ?thesis using e unfolding s'_def by simp
    qed
  next
    case False
    have s'': "s' = s\<lparr>code_mem := (code_mem s)[ip s - 2 := INSTR_generic op]\<rparr>"
      using False by (simp add: s'_def cached_opcode_def)
    from i show ?thesis
    proof
      assume g: "code_mem s ! (ip s - 2) = INSTR_generic op"
      then have e: "s' = s" unfolding s'' by (simp add: list_update_same_conv c)
      have "execute_binop ti s = binop_result ti op a b s"
        using c g binop_selfmodifying_others [OF o False, of ti op]
        by (simp add: execute_binop_def binop_result_not_Goto)
      then show ?thesis using e unfolding s'_def by simp
    next
      assume d: "code_mem s ! (ip s - 2) = INSTR_dbl op"
      have "execute_binop ti s = binop_selfmodifying ti op s'"
        using c d binop_dbl_others [OF o False, of ti op]
        by (simp add: execute_binop_def s'')
      also have "\<dots> = binop_result ti op a b s'"
        by (rule binop_selfmodifying_others [OF o' False])
      finally show ?thesis unfolding s'_def .
    qed
  qed
qed

lemma binop_operands_cached:
  assumes "binop_operands s op a b"
  shows "binop_operands (s\<lparr>code_mem := (code_mem s)[ip s - 2 := cached_opcode op a b]\<rparr>) op a b"
  using assms by (auto simp: binop_operands_def cached_opcode_def)

lemma binop_second_run:
  assumes "binop_operands s op a b" "both_scalar a b \<longrightarrow> m_fn_dbl ti op \<noteq> None"
    and "state_of (execute_binop ti s) = Some s1"
  shows "code_mem s1 = (code_mem s)[ip s - 2 := cached_opcode op a b]
       \<and> execute_binop ti (s\<lparr>code_mem := code_mem s1\<rparr>) = execute_binop ti s"
proof -
  define c' where "c' = (code_mem s)[ip s - 2 := cached_opcode op a b]"
  define s' where "s' = s\<lparr>code_mem := c'\<rparr>"
  have r: "execute_binop ti s = binop_result ti op a b s'"
    unfolding s'_def c'_def by (rule execute_binop_result [OF assms(1,2)])
  have o': "binop_operands s' op a b"
    unfolding s'_def c'_def by (rule binop_operands_cached [OF assms(1)])
  have i: "s'\<lparr>code_mem := (code_mem s')[ip s' - 2 := cached_opcode op a b]\<rparr> = s'"
    by (simp add: s'_def c'_def)
  have r': "execute_binop ti s' = binop_result ti op a b s'"
    using execute_binop_result [OF o' assms(2)] unfolding i .
  have "state_of (binop_result ti op a b s') = Some s1" using assms(3) unfolding r .
  then have "code_mem s1 = code_mem s'" by (rule binop_result_code_mem)
  then have m: "code_mem s1 = c'" by (simp add: s'_def)
  then have "s\<lparr>code_mem := code_mem s1\<rparr> = s'" by (simp add: s'_def)
  then have "execute_binop ti (s\<lparr>code_mem := code_mem s1\<rparr>) = execute_binop ti s"
    using r r' by simp
  with m show ?thesis unfolding c'_def by simp
qed



subsection \<open>Signal checks\<close>

lemma push_n_octave_quit [simp]: "n_octave_quit (push e s) = n_octave_quit s"
  by (simp add: push_def)

lemma set_direct_n_octave_quit [simp]: "n_octave_quit (set_direct i v s) = n_octave_quit s"
  by (simp add: set_direct_def)

lemma ref_set_value_n_octave_quit [simp]: "n_octave_quit (ref_set_value k v s) = n_octave_quit s"
  by (simp add: ref_set_value_def)

lemma signal_checks_catch5 [simp]:
  "signal_checks s (catch5 e s') = Some (int (n_octave_quit s') - int (n_octave_quit s))"
  by (cases e) (simp_all add: signal_checks_def)

lemma signal_checks_simps [simp]:
  "signal_checks s (Next s') = Some (int (n_octave_quit s') - int (n_octave_quit s))"
  "signal_checks s (Next1 s') = Some (int (n_octave_quit s') - int (n_octave_quit s))"
  "signal_checks s (Unwind s') = Some (int (n_octave_quit s') - int (n_octave_quit s))"
  "signal_checks s (Goto l s') = Some (int (n_octave_quit s') - int (n_octave_quit s))"
  "signal_checks s (Return vs s') = Some (int (n_octave_quit s') - int (n_octave_quit s))"
  "signal_checks s (Host_error m) = None"
  "signal_checks s Fault = None"
  by (simp_all add: signal_checks_def)

lemma handle_signals_checks: "signal_checks s (handle_signals s) = Some 1"
  by (simp add: handle_signals_def octave_quit_def split: option.splits)

lemma for_cond_checks: "signal_checks s (for_cond h s) \<in> {Some 1, None}"
  by (simp add: for_cond_def octave_quit_def with_int_def with_ov_def Let_def
      split: option.splits stack_element.splits ov.splits)

lemma jmp_if_generic_checks: "signal_checks s (jmp_if_generic n h s) \<in> {Some 0, None}"
  by (simp add: jmp_if_generic_def with_ov_def Let_def
      split: stack_element.splits sum.splits)

lemma jmp_if_bool_generic_checks: "signal_checks s (jmp_if_bool_generic n s) \<in> {Some 0, None}"
  by (simp add: jmp_if_bool_generic_def with_ov_def Let_def
      split: stack_element.splits sum.splits)

lemma no_signal_check_simps [simp]:
  "no_signal_check s (Next s') = (n_octave_quit s' = n_octave_quit s)"
  "no_signal_check s (Next1 s') = (n_octave_quit s' = n_octave_quit s)"
  "no_signal_check s (Unwind s') = (n_octave_quit s' = n_octave_quit s)"
  "no_signal_check s (Goto l s') = (n_octave_quit s' = n_octave_quit s)"
  "no_signal_check s (Return vs s') = (n_octave_quit s' = n_octave_quit s)"
  "no_signal_check s (Host_error m) = True"
  "no_signal_check s Fault = True"
  "no_signal_check s (catch5 e s') = (n_octave_quit s' = n_octave_quit s)"
  by (simp_all add: no_signal_check_def)

lemma no_signal_check_with_ov:
  "(\<And>v. no_signal_check s0 (k v)) \<Longrightarrow> no_signal_check s0 (with_ov s i k)"
  by (simp add: with_ov_def split: stack_element.splits)

lemma no_signal_check_with_int:
  "(\<And>v. no_signal_check s0 (k v)) \<Longrightarrow> no_signal_check s0 (with_int s i k)"
  by (simp add: with_int_def split: stack_element.splits)

lemma no_signal_check_if:
  "no_signal_check s a \<Longrightarrow> no_signal_check s b \<Longrightarrow> no_signal_check s (if c then a else b)"
  by simp

lemma no_signal_check_option:
  "no_signal_check s a \<Longrightarrow> (\<And>x. no_signal_check s (f x))
   \<Longrightarrow> no_signal_check s (case v of None \<Rightarrow> a | Some x \<Rightarrow> f x)"
  by (cases v) simp_all

lemma no_signal_check_sum:
  "(\<And>x. no_signal_check s (f x)) \<Longrightarrow> (\<And>x. no_signal_check s (g x))
   \<Longrightarrow> no_signal_check s (case v of Inl x \<Rightarrow> f x | Inr x \<Rightarrow> g x)"
  by (cases v) simp_all

lemma no_signal_check_prod:
  "(\<And>x y. no_signal_check s (f x y)) \<Longrightarrow> no_signal_check s (case v of (x, y) \<Rightarrow> f x y)"
  by (cases v) simp_all

lemma no_signal_check_bool:
  "no_signal_check s a \<Longrightarrow> no_signal_check s b
   \<Longrightarrow> no_signal_check s (case v of True \<Rightarrow> a | False \<Rightarrow> b)"
  by (cases v) simp_all

lemma no_signal_check_ov:
  "no_signal_check s f1 \<Longrightarrow> (\<And>a. no_signal_check s (f2 a))
   \<Longrightarrow> (\<And>a. no_signal_check s (f3 a)) \<Longrightarrow> (\<And>a. no_signal_check s (f4 a))
   \<Longrightarrow> (\<And>a b. no_signal_check s (f5 a b)) \<Longrightarrow> (\<And>a b c. no_signal_check s (f6 a b c))
   \<Longrightarrow> (\<And>a b c d. no_signal_check s (f7 a b c d)) \<Longrightarrow> (\<And>a. no_signal_check s (f8 a))
   \<Longrightarrow> (\<And>a b c. no_signal_check s (f9 a b c)) \<Longrightarrow> (\<And>a b c. no_signal_check s (f10 a b c))
   \<Longrightarrow> (\<And>a. no_signal_check s (f11 a)) \<Longrightarrow> (\<And>a. no_signal_check s (f12 a))
   \<Longrightarrow> (\<And>a. no_signal_check s (f13 a))
   \<Longrightarrow> no_signal_check s (case_ov f1 f2 f3 f4 f5 f6 f7 f8 f9 f10 f11 f12 f13 v)"
  by (cases v) simp_all

lemma no_signal_check_stack_element:
  "(\<And>a. no_signal_check s (f1 a)) \<Longrightarrow> (\<And>a. no_signal_check s (f2 a))
   \<Longrightarrow> (\<And>a. no_signal_check s (f3 a)) \<Longrightarrow> (\<And>a b c. no_signal_check s (f4 a b c))
   \<Longrightarrow> (\<And>a. no_signal_check s (f5 a)) \<Longrightarrow> (\<And>a. no_signal_check s (f6 a))
   \<Longrightarrow> (\<And>a. no_signal_check s (f7 a)) \<Longrightarrow> (\<And>a. no_signal_check s (f8 a))
   \<Longrightarrow> no_signal_check s f9
   \<Longrightarrow> no_signal_check s (case_stack_element f1 f2 f3 f4 f5 f6 f7 f8 f9 v)"
  by (cases v) simp_all

lemma no_signal_check_dispatch_type:
  "no_signal_check s f1 \<Longrightarrow> no_signal_check s f2 \<Longrightarrow> no_signal_check s f3
   \<Longrightarrow> no_signal_check s f4 \<Longrightarrow> no_signal_check s f5 \<Longrightarrow> no_signal_check s f6
   \<Longrightarrow> no_signal_check s (case_vm_call_dispatch_type f1 f2 f3 f4 f5 f6 v)"
  by (cases v) simp_all

lemma no_signal_check_dbl:
  "(\<And>a. no_signal_check s (f1 a)) \<Longrightarrow> no_signal_check s f2 \<Longrightarrow> no_signal_check s f3
   \<Longrightarrow> no_signal_check s f4 \<Longrightarrow> no_signal_check s (case_dbl f1 f2 f3 f4 v)"
  by (cases v) simp_all

lemmas no_signal_check_intros =
  no_signal_check_with_ov no_signal_check_with_int no_signal_check_if no_signal_check_option
  no_signal_check_sum no_signal_check_bool no_signal_check_ov
  no_signal_check_stack_element no_signal_check_dispatch_type

lemma assign_dispath_quiet: "no_signal_check s (assign_dispath h s)"
  unfolding assign_dispath_def Let_def
  by (intro no_signal_check_intros) (simp_all split: ov.splits)

lemma assign_quiet: "no_signal_check s (assign h s)"
  unfolding assign_def Let_def
  by (intro no_signal_check_intros) simp_all

lemma binop_dbl_quiet: "no_signal_check s (binop_dbl ti op s)"
  unfolding binop_dbl_def
  by (intro no_signal_check_intros) simp_all

lemma binop_selfmodifying_quiet: "no_signal_check s (binop_selfmodifying ti op s)"
  unfolding binop_selfmodifying_def
  by (intro no_signal_check_intros) simp_all

lemma jmp_if_generic_quiet: "no_signal_check s (jmp_if_generic n h s)"
  unfolding jmp_if_generic_def Let_def
  by (intro no_signal_check_intros) simp_all

lemma jmp_if_bool_generic_quiet: "no_signal_check s (jmp_if_bool_generic n s)"
  unfolding jmp_if_bool_generic_def Let_def
  by (intro no_signal_check_intros) simp_all

lemma for_complex_cond_quiet: "no_signal_check s (for_complex_cond s)"
  unfolding for_complex_cond_def Let_def POP_CODE_USHORT_def prod.case
  by (intro no_signal_check_intros) (simp_all split: ov.splits)

lemma subassign_id_mat_1d_quiet: "no_signal_check s (subassign_id_mat_1d s)"
  unfolding subassign_id_mat_1d_def Let_def prod.case
  by (intro no_signal_check_intros) (simp_all add: STACK_DESTROY_numeral)

lemma subassign_id_mat_2d_quiet: "no_signal_check s (subassign_id_mat_2d s)"
  unfolding subassign_id_mat_2d_def Let_def prod.case
  by (intro no_signal_check_intros) (simp_all add: STACK_DESTROY_numeral)

lemma index_id1_mat_1d_quiet: "no_signal_check s (index_id1_mat_1d h s)"
  unfolding index_id1_mat_1d_def Let_def
  by (intro no_signal_check_intros no_signal_check_prod) (simp_all add: STACK_DESTROY_numeral)

lemma subassign_id_quiet: "no_signal_check s (subassign_id h s)"
  unfolding subassign_id_def Let_def
  apply (intro no_signal_check_intros no_signal_check_prod)
  apply (simp_all only: no_signal_check_simps push_n_octave_quit set_direct_n_octave_quit
      ref_set_value_n_octave_quit STACK_DESTROY_n_octave_quit)
  apply simp_all
  done

lemma index_id1_quiet: "no_signal_check s (index_id1 h s)"
  unfolding index_id1_def Let_def
  apply (intro no_signal_check_intros no_signal_check_prod)
  apply (simp_all only: no_signal_check_simps push_n_octave_quit set_direct_n_octave_quit
      ref_set_value_n_octave_quit STACK_DESTROY_n_octave_quit)
  apply simp_all
  done

lemma push_cell_quiet: "no_signal_check s (push_cell s)"
  unfolding push_cell_def Let_def by simp

lemma no_signal_check_catch_execution [simp]:
  "n_octave_quit s' = n_octave_quit s \<Longrightarrow> no_signal_check s (catch_execution e s')"
  by (cases e) simp_all

lemma for_setup_assign_empty_quiet:
  "n_octave_quit s3 = n_octave_quit s0 \<Longrightarrow> no_signal_check s0 (for_setup_assign_empty h s s3 v)"
  unfolding for_setup_assign_empty_def Let_def
  by (intro no_signal_check_intros) simp_all

lemma for_setup_quiet: "no_signal_check s (for_setup h s)"
  unfolding for_setup_def Let_def
  by (intro no_signal_check_intros no_signal_check_prod for_setup_assign_empty_quiet) simp_all

lemma append_cell_quiet: "no_signal_check s (append_cell s)"
  unfolding append_cell_def Let_def
  by (intro no_signal_check_intros no_signal_check_prod) (simp_all add: STACK_DESTROY_numeral)

lemma assign_n_value_quiet:
  "n_octave_quit s = n_octave_quit s0 \<Longrightarrow> no_signal_check s0 (assign_n_value h s slot n v)"
  unfolding assign_n_value_def Let_def
  by (intro no_signal_check_intros) simp_all

lemma assign_n_values_quiet:
  "n_octave_quit s = n_octave_quit s0 \<Longrightarrow>
   (case assign_n_values h s slot n vs of
      Inl out \<Rightarrow> no_signal_check s0 out
    | Inr (s', k) \<Rightarrow> n_octave_quit s' = n_octave_quit s0)"
proof (induction vs arbitrary: s n)
  case Nil
  then show ?case by simp
next
  case (Cons v vs)
  from assign_n_value_quiet [OF Cons.prems, of h slot n v]
  have q: "no_signal_check s0 (assign_n_value h s slot n v)" .
  show ?case
  proof (cases "assign_n_value h s slot n v")
    case (Next s')
    with q have "n_octave_quit s' = n_octave_quit s0" by simp
    from Cons.IH [OF this] Next show ?thesis by simp
  qed (use q in simp_all)
qed

lemma assign_n_loop_quiet:
  "n_octave_quit s = n_octave_quit s0 \<Longrightarrow> no_signal_check s0 (assign_n_loop h n_slots k s)"
proof (induction h n_slots k s rule: assign_n_loop.induct)
  case (1 h n_slots n_actual s)
  show ?case
  proof (cases "sp s = 0 \<or> length (stack s) < sp s")
    case True
    then show ?thesis by (subst assign_n_loop.simps) simp
  next
    case ok: False
    show ?thesis
    proof (cases "stack s ! (sp s - 1)")
      case (OV arg)
      define slot where "slot = fst (POP_CODE_USHORT (s\<lparr>sp := sp s - 1\<rparr>))"
      define s1 where "s1 = snd (POP_CODE_USHORT (s\<lparr>sp := sp s - 1\<rparr>))"
      have p: "POP_CODE_USHORT (s\<lparr>sp := sp s - 1\<rparr>) = (slot, s1)"
        by (simp add: slot_def s1_def)
      have n1: "n_octave_quit s1 = n_octave_quit s0"
        using "1.prems" by (simp add: s1_def POP_CODE_USHORT_def)
      define vs where "vs = (if is_cs_list arg then list_value arg else [arg])"
      note q = assign_n_values_quiet [OF n1, of h slot n_actual vs]
      show ?thesis
      proof (cases "assign_n_values h s1 slot n_actual vs")
        case (Inl out)
        with q have "no_signal_check s0 out" by simp
        with ok OV p Inl show ?thesis
          by (subst assign_n_loop.simps) (simp add: vs_def)
      next
        case (Inr r)
        obtain s2 k' where r: "r = (s2, k')" by (cases r)
        with q Inr have n2: "n_octave_quit s2 = n_octave_quit s0" by simp
        define s3 where "s3 = s2\<lparr>stack := (stack s2)[sp s - 1 := Free], sp := sp s - 1\<rparr>"
        have n3: "n_octave_quit s3 = n_octave_quit s0" using n2 by (simp add: s3_def)
        show ?thesis
        proof (cases "k' < n_slots")
          case True
          have "no_signal_check s0 (assign_n_loop h n_slots k' s3)"
            using "1.IH" [OF ok OV p [symmetric] Inr [unfolded vs_def] r [symmetric] s3_def True n3] .
          with ok OV p Inr r True show ?thesis
            by (subst assign_n_loop.simps) (simp add: vs_def s3_def Let_def)
        next
          case False
          with ok OV p Inr r n3 show ?thesis
            by (subst assign_n_loop.simps) (simp add: vs_def s3_def Let_def)
        qed
      qed
    qed (use ok in \<open>subst assign_n_loop.simps, simp\<close>)+
  qed
qed

lemma assign_n_quiet: "no_signal_check s (assign_n h s)"
  unfolding assign_n_def by (rule assign_n_loop_quiet) simp

lemma push_list_n_octave_quit [simp]: "n_octave_quit (push_list es s) = n_octave_quit s"
  by (induction es arbitrary: s) simp_all

lemma put_all_n_octave_quit [simp]: "n_octave_quit (put_all is e s) = n_octave_quit s"
  by (induction "is" arbitrary: s) simp_all

lemma put_ovs_n_octave_quit [simp]: "n_octave_quit (put_ovs i vs s) = n_octave_quit s"
  by (induction vs arbitrary: i s) simp_all

lemma ret_root_quiet:
  "n_octave_quit s = n_octave_quit s0 \<Longrightarrow> no_signal_check s0 (ret_root rn s n va)"
  unfolding ret_root_def Let_def
  by (intro no_signal_check_intros) simp_all

lemma ret_move_returns_quiet:
  "n_octave_quit s = n_octave_quit s0 \<Longrightarrow> no_signal_check s0 (ret_move_returns s cse e has)"
  unfolding ret_move_returns_def Let_def
  by (intro no_signal_check_intros) simp_all

lemma ret_expand_varargout_quiet:
  "n_octave_quit s = n_octave_quit s0 \<Longrightarrow>
   (case ret_expand_varargout s cse e has0 of
      Inl out \<Rightarrow> no_signal_check s0 out
    | Inr (s2, has) \<Rightarrow> n_octave_quit s2 = n_octave_quit s0)"
  unfolding ret_expand_varargout_def Let_def
  by (simp split: stack_element.splits)

lemma ret_expand_then_move_quiet:
  assumes "n_octave_quit s1 = n_octave_quit s0"
  shows "no_signal_check s0
           (case ret_expand_varargout s1 cse e has of
              Inl out \<Rightarrow> out
            | Inr (s2, has') \<Rightarrow> ret_move_returns s2 cse e has')"
  using ret_expand_varargout_quiet [OF assms, of cse e has]
  by (cases "ret_expand_varargout s1 cse e has") (auto intro: ret_move_returns_quiet)

lemma ret_to_caller_quiet:
  assumes "n_octave_quit s = n_octave_quit s0"
  shows "no_signal_check s0 (ret_to_caller s n va)"
  unfolding ret_to_caller_def Let_def prod.case
  by (intro no_signal_check_intros ret_expand_then_move_quiet ret_move_returns_quiet)
     (simp_all add: assms)

lemma ret_quiet: "no_signal_check s (ret rn s)"
  unfolding ret_def Let_def
  by (intro no_signal_check_intros ret_root_quiet ret_to_caller_quiet) simp_all

lemma for_cond_checks_once:
  assumes "pending_signal s \<noteq> None \<or> for_cond_operands s"
  shows "signal_checks s (for_cond h s) = Some 1"
proof (cases "pending_signal s")
  case (Some e)
  then show ?thesis by (simp add: for_cond_def octave_quit_def)
next
  case None
  with assms have o: "for_cond_operands s" by simp
  then obtain i n where r: "sp s - 1 < length (stack s)" "stack s ! (sp s - 1) = I i"
    "stack s ! (sp s - 2) = I n"
    and c: "i + 1 = n \<or>
            (3 \<le> sp s \<and> bsp s + arg0 s < sp s - 2 \<and>
             is_value (stack s ! (sp s - 3)) \<and> is_value (stack s ! (bsp s + arg0 s)))"
    unfolding for_cond_operands_def
    by (cases "stack s ! (sp s - 1)"; cases "stack s ! (sp s - 2)") auto
  have r2: "sp s - 2 < length (stack s)" using r(1) by simp
  show ?thesis
  proof (cases "i + 1 = n")
    case True
    with None r r2 show ?thesis
      by (simp add: for_cond_def octave_quit_def with_int_def Let_def)
  next
    case False
    with c have d: "3 \<le> sp s" "bsp s + arg0 s < sp s - 2"
      "is_value (stack s ! (sp s - 3))" "is_value (stack s ! (bsp s + arg0 s))" by simp_all
    from d(3) obtain rng where rng: "stack s ! (sp s - 3) = OV rng"
      by (cases "stack s ! (sp s - 3)") simp_all
    from d(4) obtain it where it: "stack s ! (bsp s + arg0 s) = OV it"
      by (cases "stack s ! (bsp s + arg0 s)") simp_all
    have l: "sp s - 3 < length (stack s)" "bsp s + arg0 s < length (stack s)"
      "sp s - 3 \<noteq> sp s - 1" "bsp s + arg0 s \<noteq> sp s - 1"
      using r(1) d(1,2) by simp_all
    have u: "(stack s)[sp s - 1 := I (i + 1)] ! (sp s - 3) = OV rng"
      "(stack s)[sp s - 1 := I (i + 1)] ! (bsp s + arg0 s) = OV it"
      using l rng it by simp_all
    show ?thesis using None r r2 False l(1,2) u
      by (simp add: for_cond_def octave_quit_def with_int_def with_ov_def Let_def
          split: ov.splits)
  qed
qed

lemma jmp_if_generic_checks_none:
  "condition_on_top s \<Longrightarrow> signal_checks s (jmp_if_generic n h s) = Some 0"
  unfolding condition_on_top_def
  by (cases "stack s ! (sp s - 1)")
     (simp_all add: jmp_if_generic_def with_ov_def Let_def split: sum.splits)

lemma jmp_if_bool_generic_checks_none:
  "condition_on_top s \<Longrightarrow> signal_checks s (jmp_if_bool_generic n s) = Some 0"
  unfolding condition_on_top_def
  by (cases "stack s ! (sp s - 1)")
     (simp_all add: jmp_if_bool_generic_def with_ov_def Let_def)




end
